theory Spec2Isabelle
  imports Main "HOL-Library.Sublist"
begin

section \<open>Strings\<close>

text \<open>
  Python strings are modelled as \<open>string\<close>: a character is one code point below 256.
  The helpers below are the \<open>str\<close> methods the program calls, each with the argument
  shapes the program uses (a separator is never empty).
\<close>

fun contains :: "string \<Rightarrow> string \<Rightarrow> bool" where
  \<comment> \<open>\<open>contains sub s\<close> is Python's \<open>sub in s\<close>.\<close>
  "contains sub [] = (sub = [])"
| "contains sub (c # cs) = (prefix sub (c # cs) \<or> contains sub cs)"

fun partition_str :: "string \<Rightarrow> string \<Rightarrow> (string \<times> string) option" where
  \<comment> \<open>\<open>s.partition(sep)\<close>: the text before and after the first \<open>sep\<close>, \<open>None\<close> without one.\<close>
  "partition_str sep [] = None"
| "partition_str sep (c # cs) =
     (if prefix sep (c # cs) then Some ([], drop (length sep) (c # cs))
      else map_option (\<lambda>(a, b). (c # a, b)) (partition_str sep cs))"

lemma partition_str_shorter:
  "partition_str sep s = Some (a, b) \<Longrightarrow> sep \<noteq> [] \<Longrightarrow> length b < length s"
proof (induction s arbitrary: a)
  case Nil
  then show ?case by simp
next
  case (Cons c cs)
  show ?case
  proof (cases "prefix sep (c # cs)")
    case True
    with Cons.prems show ?thesis by (cases sep) auto
  next
    case False
    with Cons.prems obtain a' where "partition_str sep cs = Some (a', b)"
      by (auto split: prod.splits)
    with Cons.IH Cons.prems(2) show ?thesis by fastforce
  qed
qed

function split_str :: "string \<Rightarrow> string \<Rightarrow> string list" where
  \<comment> \<open>\<open>s.split(sep)\<close> for a non-empty \<open>sep\<close> (Python raises ValueError on an empty one,
      which no call of the program passes).\<close>
  "split_str sep s =
     (if sep = [] then [s]
      else case partition_str sep s of
        None \<Rightarrow> [s]
      | Some (a, b) \<Rightarrow> a # split_str sep b)"
  by pat_completeness auto
termination
  by (relation "measure (\<lambda>(sep, s). length s)") (auto dest: partition_str_shorter)

function replace_str :: "string \<Rightarrow> string \<Rightarrow> string \<Rightarrow> string" where
  \<comment> \<open>\<open>s.replace(old, new)\<close> for a non-empty \<open>old\<close>: every occurrence, left to right.\<close>
  "replace_str old new s =
     (if old = [] then s
      else case partition_str old s of
        None \<Rightarrow> s
      | Some (a, b) \<Rightarrow> a @ new @ replace_str old new b)"
  by pat_completeness auto
termination
  by (relation "measure (\<lambda>(old, new, s). length s)") (auto dest: partition_str_shorter)

declare split_str.simps [simp del] replace_str.simps [simp del]

fun find_char :: "char \<Rightarrow> string \<Rightarrow> nat option" where
  \<comment> \<open>\<open>s.find(c)\<close>, \<open>None\<close> for Python's \<open>-1\<close>.\<close>
  "find_char c [] = None"
| "find_char c (x # xs) = (if x = c then Some 0 else map_option Suc (find_char c xs))"

definition find_from :: "char \<Rightarrow> nat \<Rightarrow> string \<Rightarrow> nat option" where
  \<comment> \<open>\<open>s.find(c, start)\<close> for \<open>start \<ge> 0\<close>.\<close>
  "find_from c start s = map_option (\<lambda>i. start + i) (find_char c (drop start s))"

definition rfind_char :: "char \<Rightarrow> string \<Rightarrow> nat option" where
  \<comment> \<open>\<open>s.rfind(c)\<close>.\<close>
  "rfind_char c s =
     map_option (\<lambda>i. length s - 1 - i) (find_char c (rev s))"

definition endswith :: "string \<Rightarrow> string \<Rightarrow> bool" where
  \<comment> \<open>\<open>s.endswith(suf)\<close>.\<close>
  "endswith s suf = prefix (rev suf) (rev s)"

section \<open>Exceptions\<close>

datatype exn =
    ValueError string
  | IndexError string
  | FileNotFoundError string
  | ImportError string
  | OtherError string

fun str_exn :: "exn \<Rightarrow> string" where
  \<comment> \<open>\<open>str(e)\<close>: the message the exception was raised with.\<close>
  "str_exn (ValueError m) = m"
| "str_exn (IndexError m) = m"
| "str_exn (FileNotFoundError m) = m"
| "str_exn (ImportError m) = m"
| "str_exn (OtherError m) = m"

definition index_list :: "'a list \<Rightarrow> nat \<Rightarrow> exn + 'a" where
  \<comment> \<open>\<open>xs[i]\<close> for \<open>i \<ge> 0\<close>.\<close>
  "index_list xs i =
     (if i < length xs then Inr (xs ! i) else Inl (IndexError ''list index out of range''))"

section \<open>URL parsing: \<open>urllib.parse\<close> of Python 3.11\<close>

text \<open>
  \<open>urlparse\<close> and \<open>parse_qs\<close> are library functions; they are transcribed from
  \<open>urllib/parse.py\<close> for \<open>str\<close> arguments and default options. Two parts of the
  library are outside this development and are parameters of it:
  \<^item> \<open>unquote\<close>, the percent-decoding of a string (it decodes UTF-8 byte sequences);
  \<^item> \<open>check_bracketed_host\<close>, the validation of a host written between \<open>[\<close> and
    \<open>]\<close> (it parses IPv6 addresses), which returns the exception it raises, if any.
  \<open>_checknetloc\<close> is omitted: it raises only when NFKC normalisation of a non-ASCII
  network location produces one of \<open>/?#@:\<close>, which no code point below 256 does.
\<close>

record pylib =
  unquote :: "string \<Rightarrow> string"
  check_bracketed_host :: "string \<Rightarrow> exn option"

record parse_result =
  scheme :: string
  netloc :: string
  path :: string
  params :: string
  query :: string
  fragment :: string

definition scheme_chars :: string where
  "scheme_chars =
     ''abcdefghijklmnopqrstuvwxyzABCDEFGHIJKLMNOPQRSTUVWXYZ0123456789+-.''"

definition uses_params :: "string list" where
  "uses_params = ['''', ''ftp'', ''hdl'', ''prospero'', ''http'', ''imap'', ''https'',
     ''shttp'', ''rtsp'', ''rtsps'', ''rtspu'', ''sip'', ''sips'', ''mms'', ''sftp'', ''tel'']"

definition is_ascii_alpha :: "char \<Rightarrow> bool" where
  \<comment> \<open>\<open>c.isascii() and c.isalpha()\<close>.\<close>
  "is_ascii_alpha c =
     (c \<in> set ''abcdefghijklmnopqrstuvwxyzABCDEFGHIJKLMNOPQRSTUVWXYZ'')"

definition lower_char :: "char \<Rightarrow> char" where
  \<comment> \<open>\<open>c.lower()\<close> on the characters of a scheme, which are ASCII.\<close>
  "lower_char c =
     (if c \<in> set ''ABCDEFGHIJKLMNOPQRSTUVWXYZ''
      then char_of (of_char c + (32::nat)) else c)"

definition c0_control_or_space :: "char \<Rightarrow> bool" where
  \<comment> \<open>\<open>_WHATWG_C0_CONTROL_OR_SPACE\<close>: the characters 0x00 to 0x20.\<close>
  "c0_control_or_space c = (of_char c \<le> (32::nat))"

definition unsafe_url_byte :: "char \<Rightarrow> bool" where
  \<comment> \<open>\<open>_UNSAFE_URL_BYTES_TO_REMOVE\<close>: tab, carriage return, line feed.\<close>
  "unsafe_url_byte c = (c = CHR 0x09 \<or> c = CHR 0x0D \<or> c = CHR 0x0A)"

definition split_scheme :: "string \<Rightarrow> string \<times> string" where
  \<comment> \<open>The scheme before the first colon, lower-cased, and the text after the colon.\<close>
  "split_scheme url =
     (case find_char CHR '':'' url of
        None \<Rightarrow> ('''', url)
      | Some i \<Rightarrow>
          if 0 < i \<and> is_ascii_alpha (hd url) \<and> list_all (\<lambda>c. c \<in> set scheme_chars) (take i url)
          then (map lower_char (take i url), drop (Suc i) url)
          else ('''', url))"

definition netloc_delim :: "char \<Rightarrow> bool" where
  "netloc_delim c = (c = CHR ''/'' \<or> c = CHR ''?'' \<or> c = CHR ''#'')"

definition splitnetloc :: "string \<Rightarrow> string \<times> string" where
  \<comment> \<open>\<open>_splitnetloc(url, 2)\<close>: the text after the two slashes up to the earliest of
      \<open>/\<close>, \<open>?\<close>, \<open>#\<close>, and the text from that delimiter on.\<close>
  "splitnetloc url =
     (takeWhile (\<lambda>c. \<not> netloc_delim c) (drop 2 url),
      dropWhile (\<lambda>c. \<not> netloc_delim c) (drop 2 url))"

definition check_netloc_brackets :: "pylib \<Rightarrow> string \<Rightarrow> exn option" where
  "check_netloc_brackets L nl =
     (let lb = CHR ''['' \<in> set nl; rb = CHR '']'' \<in> set nl in
      if (lb \<and> \<not> rb) \<or> (rb \<and> \<not> lb) then Some (ValueError ''Invalid IPv6 URL'')
      else if lb \<and> rb then
        (let after = (case partition_str ''['' nl of Some (a, b) \<Rightarrow> b | None \<Rightarrow> '''');
             host = (case partition_str '']'' after of Some (a, b) \<Rightarrow> a | None \<Rightarrow> after)
         in check_bracketed_host L host)
      else None)"

definition split_once :: "string \<Rightarrow> string \<Rightarrow> string \<times> string" where
  \<comment> \<open>\<open>if sep in url: url, rest = url.split(sep, 1)\<close>, with \<open>rest = ''\<close> otherwise.\<close>
  "split_once sep url =
     (case partition_str sep url of Some (a, b) \<Rightarrow> (a, b) | None \<Rightarrow> (url, ''''))"

definition urlsplit ::
  "pylib \<Rightarrow> string \<Rightarrow> exn + (string \<times> string \<times> string \<times> string \<times> string)" where
  "urlsplit L url0 =
     (let url1 = dropWhile c0_control_or_space url0;
          url2 = filter (\<lambda>c. \<not> unsafe_url_byte c) url1;
          (sch, url3) = split_scheme url2;
          (nl, url4) = (if take 2 url3 = ''//'' then splitnetloc url3 else ('''', url3))
      in case (if take 2 url3 = ''//'' then check_netloc_brackets L nl else None) of
           Some e \<Rightarrow> Inl e
         | None \<Rightarrow>
             (let (url5, frag) = split_once ''#'' url4;
                  (url6, qry) = split_once ''?'' url5
              in Inr (sch, nl, url6, qry, frag)))"

definition splitparams :: "string \<Rightarrow> string \<times> string" where
  \<comment> \<open>\<open>_splitparams\<close>: cut at the first \<open>;\<close> of the last path segment. It is called
      on a string that contains \<open>;\<close>; Python's \<open>find\<close> result \<open>-1\<close> would give
      \<open>url[:-1]\<close> and \<open>url[0:]\<close>.\<close>
  "splitparams url =
     (if CHR ''/'' \<in> set url then
        (case rfind_char CHR ''/'' url of
           None \<Rightarrow> (url, '''')
         | Some r \<Rightarrow>
             (case find_from CHR '';'' r url of
                None \<Rightarrow> (url, '''')
              | Some i \<Rightarrow> (take i url, drop (Suc i) url)))
      else
        (case find_char CHR '';'' url of
           None \<Rightarrow> (take (length url - 1) url, url)
         | Some i \<Rightarrow> (take i url, drop (Suc i) url)))"

definition urlparse :: "pylib \<Rightarrow> string \<Rightarrow> exn + parse_result" where
  "urlparse L url =
     (case urlsplit L url of
        Inl e \<Rightarrow> Inl e
      | Inr (sch, nl, pth, qry, frag) \<Rightarrow>
          (let (pth', prm) =
                 (if sch \<in> set uses_params \<and> CHR '';'' \<in> set pth then splitparams pth
                  else (pth, ''''))
           in Inr \<lparr>scheme = sch, netloc = nl, path = pth', params = prm,
                   query = qry, fragment = frag\<rparr>))"

definition unquote_plus :: "pylib \<Rightarrow> string \<Rightarrow> string" where
  "unquote_plus L s = unquote L (replace_str ''+'' '' '' s)"

definition parse_qsl :: "pylib \<Rightarrow> string \<Rightarrow> (string \<times> string) list" where
  \<comment> \<open>With \<open>keep_blank_values=False\<close> and \<open>strict_parsing=False\<close>: a field without
      \<open>=\<close> or with an empty value is dropped.\<close>
  "parse_qsl L qs =
     (if qs = [] then []
      else concat (map (\<lambda>name_value.
             if name_value = [] then []
             else (case partition_str ''='' name_value of
                     None \<Rightarrow> []
                   | Some (name, val) \<Rightarrow>
                       if val = [] then []
                       else [(unquote_plus L name, unquote_plus L val)]))
           (split_str ''&'' qs)))"

fun dict_append ::
  "(string \<times> string list) list \<Rightarrow> string \<Rightarrow> string \<Rightarrow> (string \<times> string list) list" where
  \<comment> \<open>\<open>d[name].append(value)\<close> if \<open>name in d\<close>, else \<open>d[name] = [value]\<close>.\<close>
  "dict_append [] k v = [(k, [v])]"
| "dict_append ((k', vs) # d) k v =
     (if k' = k then (k', vs @ [v]) # d else (k', vs) # dict_append d k v)"

definition parse_qs :: "pylib \<Rightarrow> string \<Rightarrow> (string \<times> string list) list" where
  "parse_qs L qs = foldl (\<lambda>d (name, val). dict_append d name val) [] (parse_qsl L qs)"

section \<open>Identifier extraction\<close>

definition is_id_char :: "char \<Rightarrow> bool" where
  \<comment> \<open>The character class \<open>[a-zA-Z0-9_-]\<close>.\<close>
  "is_id_char c =
     (c \<in> set ''abcdefghijklmnopqrstuvwxyzABCDEFGHIJKLMNOPQRSTUVWXYZ0123456789_-'')"

definition re_match_video_id :: "string \<Rightarrow> bool" where
  \<comment> \<open>\<open>re.match(r'^[a-zA-Z0-9_-]{11}$', url)\<close>: eleven characters of the class from the
      start, then the end of the string; without \<open>re.MULTILINE\<close>, \<open>$\<close> also matches
      just before a line feed that ends the string.\<close>
  "re_match_video_id url =
     (length (take 11 url) = 11 \<and> list_all is_id_char (take 11 url) \<and>
      (drop 11 url = [] \<or> drop 11 url = [CHR 0x0A]))"

definition extract_video_id :: "pylib \<Rightarrow> string \<Rightarrow> exn + string option" where
  \<comment> \<open>\<open>YouTubeContentScraper._extract_video_id\<close>. \<open>Inr None\<close> is the returned
      \<open>None\<close>; \<open>Inl\<close> is an exception raised by \<open>urlparse\<close> or by an index.\<close>
  "extract_video_id L url =
     (case urlparse L url of
        Inl e \<Rightarrow> Inl e
      | Inr parsed_url \<Rightarrow>
          (let direct = (if re_match_video_id url then Inr (Some url) else Inr None) in
           if contains ''youtube.com'' (netloc parsed_url) then
             (if contains ''/watch'' (path parsed_url) then
                (case map_of (parse_qs L (query parsed_url)) ''v'' of
                   None \<Rightarrow> Inr None
                 | Some vs \<Rightarrow> map_sum id Some (index_list vs 0))
              else if contains ''/shorts/'' (path parsed_url) then
                map_sum id Some (index_list (split_str ''/shorts/'' (path parsed_url)) 1)
              else if contains ''/live/'' (path parsed_url) then
                (case index_list (split_str ''/live/'' (path parsed_url)) 1 of
                   Inl e \<Rightarrow> Inl e
                 | Inr live_id \<Rightarrow>
                     if CHR ''/'' \<in> set live_id
                     then map_sum id Some (index_list (split_str ''/'' live_id) 0)
                     else Inr (Some live_id))
              else direct)
           else if contains ''youtu.be'' (netloc parsed_url) then
             Inr (Some (drop 1 (path parsed_url)))
           else direct))"

definition require_video_id :: "pylib \<Rightarrow> string \<Rightarrow> exn + string" where
  \<comment> \<open>The first two statements of \<open>get_video_info\<close>, \<open>download_video\<close> and
      \<open>download_audio\<close>: extract, and raise ValueError when \<open>not video_id\<close>, that
      is when the result is \<open>None\<close> or the empty string.\<close>
  "require_video_id L video_url =
     (case extract_video_id L video_url of
        Inl e \<Rightarrow> Inl e
      | Inr None \<Rightarrow>
          Inl (ValueError (''Could not extract video ID from URL: '' @ video_url))
      | Inr (Some video_id) \<Rightarrow>
          if video_id = []
          then Inl (ValueError (''Could not extract video ID from URL: '' @ video_url))
          else Inr video_id)"

definition hex_digit :: "char \<Rightarrow> nat option" where
  "hex_digit c =
     (case find_char c ''0123456789abcdef'' of
        Some n \<Rightarrow> Some n
      | None \<Rightarrow> map_option (\<lambda>n. n + 10) (find_char c ''ABCDEF''))"

fun unquote_ascii :: "string \<Rightarrow> string" where
  \<comment> \<open>Percent-decoding as \<open>unquote\<close> does it where every escape is below \<open>%80\<close>;
      an escape from \<open>%80\<close> on is kept as it is written.\<close>
  "unquote_ascii (p # a # b # cs) =
     (if p = CHR ''%'' then
        (case (hex_digit a, hex_digit b) of
           (Some x, Some y) \<Rightarrow>
             if x < 8 then char_of (16 * x + y) # unquote_ascii cs
             else p # unquote_ascii (a # b # cs)
         | _ \<Rightarrow> p # unquote_ascii (a # b # cs))
      else p # unquote_ascii (a # b # cs))"
| "unquote_ascii cs = cs"

definition ascii_lib :: pylib where
  \<comment> \<open>An instance of the library parameters for inputs whose escapes are ASCII and
      whose network location has no bracketed host.\<close>
  "ascii_lib =
     \<lparr>unquote = unquote_ascii,
      check_bracketed_host = (\<lambda>h. Some (ValueError ''bracketed host is invalid''))\<rparr>"

definition canonical_id :: "string \<Rightarrow> bool" where
  "canonical_id v = (length v = 11 \<and> list_all is_id_char v)"

definition unquote_keeps_plain :: "pylib \<Rightarrow> bool" where
  "unquote_keeps_plain L = (\<forall>s. CHR ''%'' \<notin> set s \<longrightarrow> unquote L s = s)"

definition path_text :: "string \<Rightarrow> bool" where
  \<comment> \<open>Text that \<open>urlparse\<close> leaves whole inside a path: no \<open>?\<close>, \<open>#\<close>, \<open>;\<close>, and
      none of the characters it removes.\<close>
  "path_text t = list_all (\<lambda>c. c \<notin> set ''?#;'' \<and> \<not> unsafe_url_byte c) t"

definition query_text :: "string \<Rightarrow> bool" where
  \<comment> \<open>Text that \<open>urlparse\<close> and \<open>parse_qs\<close> leave whole inside a query value.\<close>
  "query_text t = list_all (\<lambda>c. c \<notin> set ''#&+%'' \<and> \<not> unsafe_url_byte c) t"

definition web_scheme :: "string \<Rightarrow> bool" where
  "web_scheme sch = (sch = ''http'' \<or> sch = ''https'')"

definition host_text :: "string \<Rightarrow> bool" where
  \<comment> \<open>Text that \<open>urlparse\<close> leaves whole as a network location: no \<open>/\<close>, \<open>?\<close>,
      \<open>#\<close>, no bracket, and none of the characters it removes.\<close>
  "host_text h = list_all (\<lambda>c. c \<notin> set ''/?#[]'' \<and> \<not> unsafe_url_byte c) h"

definition query_string :: "string \<Rightarrow> bool" where
  \<comment> \<open>Text that \<open>urlparse\<close> leaves whole as a query: no \<open>#\<close>, and none of the
      characters it removes.\<close>
  "query_string q = list_all (\<lambda>c. c \<noteq> CHR ''#'' \<and> \<not> unsafe_url_byte c) q"

section \<open>Transcript resolver\<close>

text \<open>
  The caption service is outside the program. What it answers is given by a
  \<open>caption_service\<close>: the result of \<open>YouTubeTranscriptApi.get_transcript\<close>, and the
  result of \<open>list_transcripts\<close>, a list of tracks. A track carries its language code, the
  result of its \<open>fetch()\<close> and the result of \<open>translate('en')\<close>, which is an exception or
  a translated track, itself given by the result of its \<open>fetch()\<close>. The program calls each
  of them at most once. An \<open>exn\<close> stands for an instance of \<open>Exception\<close>; logging is
  left out. The start and the duration of an entry are floats in the program; an entry
  here holds their whole seconds, which is what the program reads of them
  (\<open>int(entry['start'])\<close>).
\<close>

record transcript_entry =
  entry_text :: string
  entry_start :: nat
  entry_duration :: nat

type_synonym transcript = "transcript_entry list"

record track =
  language_code :: string
  fetch_result :: "exn + transcript"
  translate_result :: "exn + (exn + transcript)"

record caption_service =
  default_transcript :: "exn + transcript"
  listed_tracks :: "exn + track list"

fun scan_tracks :: "track list \<Rightarrow> track option \<Rightarrow> transcript + track option" where
  \<comment> \<open>The \<open>for\<close> loop over the listed tracks. \<open>Inl\<close>: the function returns the fetched
      English track. \<open>Inr other\<close>: the loop ends, \<open>other\<close> being the value of
      \<open>other_transcript\<close> if it was assigned. A failed fetch of an English track is
      caught inside the loop, which goes on.\<close>
  "scan_tracks [] other = Inr other"
| "scan_tracks (t # ts) other =
     (if language_code t = ''en'' then
        (case fetch_result t of
           Inr fetched \<Rightarrow> Inl fetched
         | Inl lang_error \<Rightarrow> scan_tracks ts other)
      else scan_tracks ts (Some t))"

definition translate_and_fetch :: "track \<Rightarrow> exn + transcript" where
  \<comment> \<open>\<open>other_transcript.translate('en').fetch()\<close>.\<close>
  "translate_and_fetch t =
     (case translate_result t of Inl e \<Rightarrow> Inl e | Inr fetched \<Rightarrow> fetched)"

definition use_other_transcript :: "track \<Rightarrow> exn + transcript" where
  \<comment> \<open>The \<open>try\<close> statement under \<open>if 'other_transcript' in locals()\<close>; its handler
      returns \<open>other_transcript.fetch()\<close>, which may raise in turn.\<close>
  "use_other_transcript t =
     (case (if language_code t \<noteq> ''en'' then translate_and_fetch t else fetch_result t) of
        Inr fetched \<Rightarrow> Inr fetched
      | Inl trans_error \<Rightarrow> fetch_result t)"

definition transcript_from_listing :: "caption_service \<Rightarrow> exn + transcript" where
  \<comment> \<open>The handler of the first \<open>try\<close>: the listing \<open>try\<close> statement, whose handler
      catches every exception raised under it, then \<open>return []\<close>.\<close>
  "transcript_from_listing api =
     (case (case listed_tracks api of
              Inl e \<Rightarrow> Inl e
            | Inr tracks \<Rightarrow>
                (case scan_tracks tracks None of
                   Inl fetched \<Rightarrow> Inr (Some fetched)
                 | Inr None \<Rightarrow> Inr None
                 | Inr (Some other) \<Rightarrow> map_sum id Some (use_other_transcript other))) of
        Inr (Some fetched) \<Rightarrow> Inr fetched
      | Inr None \<Rightarrow> Inr []
      | Inl list_error \<Rightarrow> Inr [])"

definition get_transcript :: "caption_service \<Rightarrow> exn + transcript" where
  \<comment> \<open>\<open>YouTubeContentScraper.get_transcript\<close>: the outer \<open>try\<close> returns \<open>[]\<close> on any
      exception that reaches it.\<close>
  "get_transcript api =
     (case (case default_transcript api of
              Inr transcript_list \<Rightarrow> Inr transcript_list
            | Inl e \<Rightarrow> transcript_from_listing api) of
        Inr result \<Rightarrow> Inr result
      | Inl e \<Rightarrow> Inr [])"

definition translation_fails :: "track \<Rightarrow> bool" where
  "translation_fails t = isl (translate_and_fetch t)"

definition no_transcript_obtainable :: "caption_service \<Rightarrow> bool" where
  \<comment> \<open>The default fetch fails, and the listing fails or every listed track can neither
      be fetched nor translated.\<close>
  "no_transcript_obtainable api =
     (isl (default_transcript api) \<and>
      (case listed_tracks api of
         Inl e \<Rightarrow> True
       | Inr tracks \<Rightarrow> list_all (\<lambda>t. isl (fetch_result t) \<and> translation_fails t) tracks))"

subsection \<open>Examples\<close>

definition example_entry :: transcript_entry where
  "example_entry = \<lparr>entry_text = ''hola'', entry_start = 0, entry_duration = 2\<rparr>"

definition spanish_track :: track where
  \<comment> \<open>A Spanish track that can be fetched but not translated.\<close>
  "spanish_track =
     \<lparr>language_code = ''es'', fetch_result = Inr [example_entry],
      translate_result = Inl (OtherError ''not translatable'')\<rparr>"

definition broken_track :: track where
  \<comment> \<open>A track that can be neither fetched nor translated.\<close>
  "broken_track =
     \<lparr>language_code = ''de'', fetch_result = Inl (OtherError ''blocked''),
      translate_result = Inl (OtherError ''not translatable'')\<rparr>"

section \<open>Browser session\<close>

text \<open>
  \<open>AntiDetectionManager\<close> keeps the browser it started in \<open>self.driver\<close>. A browser is a
  handle, a number; \<open>live\<close> is the set of handles started and not yet quit, \<open>fresh\<close> the
  next unused handle. Quitting a handle does not raise, and quitting one that is not live
  changes nothing.
  \<open>initialize_webdriver\<close> can fail before the browser exists (building the options,
  starting Chrome) or after (running the start-up script, the delay); \<open>launch\<close> says which.
\<close>

record session =
  driver :: "nat option"
  live :: "nat set"
  fresh :: nat

datatype launch = LaunchRaises exn | ScriptRaises exn | LaunchOk

definition quit_handle :: "nat \<Rightarrow> session \<Rightarrow> session" where
  \<comment> \<open>\<open>driver.quit()\<close> on a handle.\<close>
  "quit_handle h s = s\<lparr>live := live s - {h}\<rparr>"

definition quit_current :: "session \<Rightarrow> session" where
  \<comment> \<open>\<open>if self.driver: self.driver.quit()\<close>.\<close>
  "quit_current s = (case driver s of None \<Rightarrow> s | Some h \<Rightarrow> quit_handle h s)"

definition start_chrome :: "session \<Rightarrow> session" where
  \<comment> \<open>\<open>self.driver = uc.Chrome(options=options)\<close>, when it returns.\<close>
  "start_chrome s =
     s\<lparr>driver := Some (fresh s), live := insert (fresh s) (live s), fresh := Suc (fresh s)\<rparr>"

definition initialize_webdriver :: "launch \<Rightarrow> session \<Rightarrow> (exn + nat) \<times> session" where
  \<comment> \<open>\<open>AntiDetectionManager.initialize_webdriver\<close>: the existing browser is quit first;
      the handler quits \<open>self.driver\<close> and raises again.\<close>
  "initialize_webdriver l s =
     (let s1 = quit_current s in
      case l of
        LaunchRaises e \<Rightarrow> (Inl e, quit_current s1)
      | ScriptRaises e \<Rightarrow> (Inl e, quit_current (start_chrome s1))
      | LaunchOk \<Rightarrow> (Inr (fresh s1), start_chrome s1))"

definition close_webdriver :: "session \<Rightarrow> session" where
  \<comment> \<open>\<open>AntiDetectionManager.close_webdriver\<close>.\<close>
  "close_webdriver s =
     (case driver s of None \<Rightarrow> s | Some h \<Rightarrow> (quit_handle h s)\<lparr>driver := None\<rparr>)"

datatype session_call = Acquire launch | Close | Quit nat

fun session_step :: "session \<Rightarrow> session_call \<Rightarrow> session" where
  \<comment> \<open>One call on the session: an acquisition, \<open>close_webdriver\<close>, or a caller quitting a
      handle it was given.\<close>
  "session_step s (Acquire l) = snd (initialize_webdriver l s)"
| "session_step s Close = close_webdriver s"
| "session_step s (Quit h) = quit_handle h s"

definition new_session :: session where
  \<comment> \<open>\<open>AntiDetectionManager.__init__\<close>: \<open>self.driver = None\<close>.\<close>
  "new_session = \<lparr>driver = None, live = {}, fresh = 0\<rparr>"

definition run_session :: "session_call list \<Rightarrow> session" where
  "run_session calls = foldl session_step new_session calls"

definition one_browser :: "session \<Rightarrow> bool" where
  \<comment> \<open>The only browser that can be live is the one in \<open>self.driver\<close>.\<close>
  "one_browser s = (live s \<subseteq> set_option (driver s))"

definition session_ok :: "session \<Rightarrow> bool" where
  \<comment> \<open>The invariant of the session: at most the browser in \<open>self.driver\<close> is live, and
      its handle has been handed out.\<close>
  "session_ok s = (one_browser s \<and> (\<forall>h \<in> set_option (driver s). h < fresh s))"

section \<open>Files, configuration and the state of a run\<close>

text \<open>
  The file system is the list of the files with their sizes in bytes, each path once;
  directories are not modelled, and the calls on files behave as on a POSIX system.
  A call of a library outside the program (the metadata service, the extraction tool, the
  browser, the stream library, the transcoder) is given by its outcome: the exception
  it raises or the value it returns, and the files it writes. The program makes each of
  these calls at most once in a run, so an outcome is a value of the environment.
  The state of a run holds the files, the browser session, the documents the program
  itself writes, and \<open>trace\<close>, the strategies entered so far, in order.
\<close>

type_synonym files = "(string \<times> nat) list"

definition exists_file :: "files \<Rightarrow> string \<Rightarrow> bool" where
  \<comment> \<open>\<open>os.path.exists(p)\<close>.\<close>
  "exists_file fs p = (map_of fs p \<noteq> None)"

definition getsize :: "files \<Rightarrow> string \<Rightarrow> exn + nat" where
  \<comment> \<open>\<open>os.path.getsize(p)\<close>.\<close>
  "getsize fs p =
     (case map_of fs p of
        Some n \<Rightarrow> Inr n
      | None \<Rightarrow> Inl (FileNotFoundError (''No such file or directory: '' @ p)))"

definition remove_file :: "string \<Rightarrow> files \<Rightarrow> files" where
  \<comment> \<open>\<open>os.remove(p)\<close> of an existing file.\<close>
  "remove_file p fs = filter (\<lambda>(q, n). q \<noteq> p) fs"

definition write_file :: "string \<Rightarrow> nat \<Rightarrow> files \<Rightarrow> files" where
  \<comment> \<open>A file of the given size is created at \<open>p\<close>, or replaces the one there.\<close>
  "write_file p n fs = (p, n) # remove_file p fs"

definition write_files :: "files \<Rightarrow> files \<Rightarrow> files" where
  "write_files new fs = foldr (\<lambda>(p, n). write_file p n) new fs"

definition rename_file :: "string \<Rightarrow> string \<Rightarrow> files \<Rightarrow> exn + files" where
  \<comment> \<open>\<open>os.rename(src, dst)\<close>: \<open>dst\<close> is replaced if it exists.\<close>
  "rename_file src dst fs =
     (case map_of fs src of
        None \<Rightarrow> Inl (FileNotFoundError (''No such file or directory: '' @ src))
      | Some n \<Rightarrow> Inr (write_file dst n (remove_file src fs)))"

definition dir_prefix :: "string \<Rightarrow> string" where
  "dir_prefix d = (if d = [] \<or> endswith d ''/'' then d else d @ ''/'')"

definition path_join :: "string \<Rightarrow> string \<Rightarrow> string" where
  \<comment> \<open>\<open>os.path.join(d, b)\<close>.\<close>
  "path_join d b = (if prefix ''/'' b then b else dir_prefix d @ b)"

definition listdir :: "files \<Rightarrow> string \<Rightarrow> string list" where
  \<comment> \<open>\<open>os.listdir(d)\<close>: the names of the files directly in \<open>d\<close>, in the order of the
      file system.\<close>
  "listdir fs d =
     map (\<lambda>(q, n). drop (length (dir_prefix d)) q)
       (filter (\<lambda>(q, n). prefix (dir_prefix d) q \<and>
                  drop (length (dir_prefix d)) q \<noteq> [] \<and>
                  CHR ''/'' \<notin> set (drop (length (dir_prefix d)) q)) fs)"

record config =
  cfg_download_path :: string
  cfg_output_path :: string
  cfg_youtube_api_key :: string

datatype strategy =
    ApiLookup | ScrapedLookup
  | BulkExtractor | BrowserRelay | LegacyStream
  | AudioBulkExtractor | AudioLegacyStream

record video_info =
  info_id :: string
  info_title :: string
  info_description :: string
  info_published_at :: string
  info_channel_title :: string
  info_channel_id :: "string option"
  info_thumbnail_url :: string
  info_duration :: "string option"
  info_view_count :: string
  info_like_count :: "string option"
  info_comment_count :: "string option"
  info_tags :: "string list"
  info_scraped :: bool

record saved_metadata =
  saved_video_info :: video_info
  saved_video_path :: "string option"
  saved_audio_path :: "string option"
  saved_has_transcript :: bool
  saved_processing_date :: string

datatype document = MetadataDocument saved_metadata | TextDocument string

record world =
  files :: files
  browser :: session
  documents :: "(string \<times> document) list"
  trace :: "strategy list"

definition enter :: "strategy \<Rightarrow> world \<Rightarrow> world" where
  "enter s w = w\<lparr>trace := trace w @ [s]\<rparr>"

definition add_files :: "files \<Rightarrow> world \<Rightarrow> world" where
  "add_files new w = w\<lparr>files := write_files new (files w)\<rparr>"

definition quit_browser :: "nat \<Rightarrow> world \<Rightarrow> world" where
  \<comment> \<open>\<open>driver.quit()\<close> by the caller that was given the handle.\<close>
  "quit_browser h w = w\<lparr>browser := quit_handle h (browser w)\<rparr>"

section \<open>Metadata resolver\<close>

text \<open>
  An item of the service's response has the fields the program reads; the statistics and
  the tags may be absent. The page the browser renders is given by its title and by the
  text of the three elements the program selects, where present.
\<close>

record api_item =
  item_title :: string
  item_description :: string
  item_published_at :: string
  item_channel_title :: string
  item_channel_id :: string
  item_thumbnail_url :: string
  item_duration :: string
  item_view_count :: "string option"
  item_like_count :: "string option"
  item_comment_count :: "string option"
  item_tags :: "string list option"

record page =
  page_title :: string
  description_element :: "string option"
  channel_element :: "string option"
  view_count_element :: "string option"

record metadata_env =
  api_build :: "exn option"
  api_response :: "exn + api_item list"
  scrape_launch :: launch
  scrape_page :: "exn + page"
  scrape_now :: string

definition yt_service :: "config \<Rightarrow> metadata_env \<Rightarrow> bool" where
  \<comment> \<open>\<open>self.yt_service\<close> is set in \<open>__init__\<close>: the client, if a key is configured and
      building the client raises nothing, else \<open>None\<close>.\<close>
  "yt_service cfg env = (cfg_youtube_api_key cfg \<noteq> [] \<and> api_build env = None)"

definition get_video_info_api ::
  "config \<Rightarrow> metadata_env \<Rightarrow> string \<Rightarrow> world \<Rightarrow> (exn + video_info) \<times> world" where
  \<comment> \<open>\<open>get_video_info_api\<close>: the handler logs and raises again.\<close>
  "get_video_info_api cfg env video_id w =
     (if \<not> yt_service cfg env
      then (Inl (ValueError ''YouTube API not initialized. Check API key.''), w)
      else
        (case api_response env of
           Inl e \<Rightarrow> (Inl e, enter ApiLookup w)
         | Inr [] \<Rightarrow> (Inl (ValueError (''No video found with ID: '' @ video_id)), enter ApiLookup w)
         | Inr (video_data # rest) \<Rightarrow>
             (Inr \<lparr>info_id = video_id,
                   info_title = item_title video_data,
                   info_description = item_description video_data,
                   info_published_at = item_published_at video_data,
                   info_channel_title = item_channel_title video_data,
                   info_channel_id = Some (item_channel_id video_data),
                   info_thumbnail_url = item_thumbnail_url video_data,
                   info_duration = Some (item_duration video_data),
                   info_view_count =
                     (case item_view_count video_data of Some n \<Rightarrow> n | None \<Rightarrow> ''0''),
                   info_like_count =
                     Some (case item_like_count video_data of Some n \<Rightarrow> n | None \<Rightarrow> ''0''),
                   info_comment_count =
                     Some (case item_comment_count video_data of Some n \<Rightarrow> n | None \<Rightarrow> ''0''),
                   info_tags = (case item_tags video_data of Some ts \<Rightarrow> ts | None \<Rightarrow> []),
                   info_scraped = False\<rparr>,
              enter ApiLookup w)))"

definition is_digit :: "char \<Rightarrow> bool" where
  \<comment> \<open>\<open>str.isdigit\<close> below code point 256: the ten digits and the superscripts
      two, three and one.\<close>
  "is_digit c =
     (c \<in> set ''0123456789'' \<or> c = CHR 0xB2 \<or> c = CHR 0xB3 \<or> c = CHR 0xB9)"

definition get_video_info_scraping ::
  "metadata_env \<Rightarrow> string \<Rightarrow> world \<Rightarrow> (exn + video_info) \<times> world" where
  \<comment> \<open>\<open>get_video_info_scraping\<close>: the handler logs and raises again; \<open>finally\<close>
      quits the browser if one was returned.\<close>
  "get_video_info_scraping env video_id w =
     (let w0 = enter ScrapedLookup w in
      case initialize_webdriver (scrape_launch env) (browser w0) of
        (Inl e, b) \<Rightarrow> (Inl e, w0\<lparr>browser := b\<rparr>)
      | (Inr h, b) \<Rightarrow>
          (let w1 = w0\<lparr>browser := b\<rparr> in
           case scrape_page env of
             Inl e \<Rightarrow> (Inl e, quit_browser h w1)
           | Inr pg \<Rightarrow>
               (Inr \<lparr>info_id = video_id,
                     info_title = replace_str '' - YouTube'' [] (page_title pg),
                     info_description =
                       (case description_element pg of Some t \<Rightarrow> t | None \<Rightarrow> []),
                     info_published_at = scrape_now env,
                     info_channel_title =
                       (case channel_element pg of Some t \<Rightarrow> t | None \<Rightarrow> ''Unknown Channel''),
                     info_channel_id = None,
                     info_thumbnail_url =
                       ''https://i.ytimg.com/vi/'' @ video_id @ ''/hqdefault.jpg'',
                     info_duration = None,
                     info_view_count =
                       filter is_digit
                         (case view_count_element pg of Some t \<Rightarrow> t | None \<Rightarrow> ''0 views''),
                     info_like_count = None,
                     info_comment_count = None,
                     info_tags = [],
                     info_scraped = True\<rparr>, quit_browser h w1)))"

definition get_video_info ::
  "pylib \<Rightarrow> config \<Rightarrow> metadata_env \<Rightarrow> string \<Rightarrow> world \<Rightarrow> (exn + video_info) \<times> world" where
  \<comment> \<open>\<open>get_video_info\<close>: any exception of the service lookup is caught, and the
      scraped lookup follows.\<close>
  "get_video_info L cfg env video_url w =
     (case require_video_id L video_url of
        Inl e \<Rightarrow> (Inl e, w)
      | Inr video_id \<Rightarrow>
          if yt_service cfg env then
            (case get_video_info_api cfg env video_id w of
               (Inr info, w1) \<Rightarrow> (Inr info, w1)
             | (Inl e, w1) \<Rightarrow> get_video_info_scraping env video_id w1)
          else get_video_info_scraping env video_id w)"

subsection \<open>Examples\<close>

definition example_config :: config where
  "example_config =
     \<lparr>cfg_download_path = ''downloads'', cfg_output_path = ''output'',
      cfg_youtube_api_key = ''key''\<rparr>"

definition empty_world :: world where
  "empty_world = \<lparr>files = [], browser = new_session, documents = [], trace = []\<rparr>"

definition example_page :: page where
  "example_page =
     \<lparr>page_title = ''A clip - YouTube'', description_element = None,
      channel_element = Some ''Someone'', view_count_element = Some ''1,234 views''\<rparr>"

definition zero_results_env :: metadata_env where
  \<comment> \<open>The service answers with no item; the page can be scraped.\<close>
  "zero_results_env =
     \<lparr>api_build = None, api_response = Inr [], scrape_launch = LaunchOk,
      scrape_page = Inr example_page, scrape_now = ''2025-01-01T00:00:00''\<rparr>"

definition scraped_example :: video_info where
  "scraped_example =
     \<lparr>info_id = ''abcdefghijk'', info_title = ''A clip'', info_description = [],
      info_published_at = ''2025-01-01T00:00:00'', info_channel_title = ''Someone'',
      info_channel_id = None,
      info_thumbnail_url = ''https://i.ytimg.com/vi/abcdefghijk/hqdefault.jpg'',
      info_duration = None, info_view_count = ''1234'', info_like_count = None,
      info_comment_count = None, info_tags = [], info_scraped = True\<rparr>"

section \<open>Video acquisition\<close>

text \<open>
  \<open>download_video\<close> runs three strategies one after the other, each in its own
  \<open>try\<close> statement. A strategy ends in one of three ways, an \<open>attempt\<close>: the function
  returns a path from inside it; its handler appends a message to \<open>errors\<close>; or it ends
  with neither.

  The extraction tool either raises or returns \<open>info\<close>: nothing (\<open>None\<close> or an empty
  dictionary), or a dictionary with the path of the first requested download, if any, and
  the extension, if any. The relay site is driven in a browser; an exception there is
  raised either while the browser is set up and sent to the site, or later, inside the
  inner \<open>try\<close> statement (a wait that times out raises there); or the list of download
  buttons found after the wait is empty; or both clicks are made.
  The stream library raises when the video is opened, or when a stream is chosen or
  downloaded, or finds no stream, or returns the path it downloaded to.
\<close>

datatype attempt = Returned string | Appended string | Silent

definition nonempty_file :: "files \<Rightarrow> string \<Rightarrow> bool" where
  \<comment> \<open>\<open>os.path.exists(p) and os.path.getsize(p) > 0\<close>.\<close>
  "nonempty_file fs p =
     (exists_file fs p \<and> (case getsize fs p of Inr n \<Rightarrow> 0 < n | Inl e \<Rightarrow> False))"

datatype ytdlp_outcome = YdlRaises exn | YdlNoInfo | YdlInfo "string option" "string option"

datatype relay_outcome = RelaySetupRaises exn | RelayActionRaises exn | RelayNoButton | RelayClicked

datatype pytube_outcome =
  PytubeRaises exn | PytubeStreamRaises exn | PytubeNoStream | PytubeDownloaded string

record video_env =
  makedirs_error :: "exn option"
  ytdlp :: ytdlp_outcome
  ytdlp_files :: files
  relay_launch :: launch
  relay :: relay_outcome
  relay_files :: files
  pytube :: pytube_outcome
  pytube_files :: files

definition reported_path :: "string \<Rightarrow> string \<Rightarrow> string option \<Rightarrow> string option \<Rightarrow> string" where
  \<comment> \<open>Where Method 1 looks for the file: at the path of the first requested download,
      or else at \<open><id>.<ext>\<close> in the output directory, \<open>mp4\<close> when no extension is
      given.\<close>
  "reported_path out_dir video_id requested ext =
     (case requested of
        Some filepath \<Rightarrow> filepath
      | None \<Rightarrow>
          path_join out_dir (video_id @ ''.'' @ (case ext of Some x \<Rightarrow> x | None \<Rightarrow> ''mp4'')))"

definition bulk_extractor :: "video_env \<Rightarrow> string \<Rightarrow> string \<Rightarrow> world \<Rightarrow> attempt \<times> world" where
  \<comment> \<open>Method 1. The file is returned if it exists at the path where it is looked
      for.\<close>
  "bulk_extractor env out_dir video_id w =
     (let w1 = add_files (ytdlp_files env) (enter BulkExtractor w) in
      case ytdlp env of
        YdlRaises e \<Rightarrow> (Appended (''yt-dlp method failed: '' @ str_exn e), w1)
      | YdlNoInfo \<Rightarrow> (Silent, w1)
      | YdlInfo requested ext \<Rightarrow>
          (let video_path = reported_path out_dir video_id requested ext
           in if exists_file (files w1) video_path then (Returned video_path, w1)
              else (Appended (''yt-dlp method failed: '' @
                              ''Expected file not found at '' @ video_path), w1)))"

definition big_mp4 :: "files \<Rightarrow> string \<Rightarrow> string \<Rightarrow> bool" where
  \<comment> \<open>The test of the list comprehension of Method 2 on a listed name:
      \<open>f.endswith('.mp4') and os.path.getsize(os.path.join(output_path, f)) > 1000000\<close>.\<close>
  "big_mp4 fs out_dir f =
     (endswith f ''.mp4'' \<and>
      (case map_of fs (path_join out_dir f) of Some n \<Rightarrow> 1000000 < n | None \<Rightarrow> False))"

fun select_big_mp4 :: "files \<Rightarrow> string \<Rightarrow> string list \<Rightarrow> exn + string list" where
  \<comment> \<open>\<open>[f for f in files if f.endswith('.mp4') and
      os.path.getsize(os.path.join(output_path, f)) > 1000000]\<close>.\<close>
  "select_big_mp4 fs out_dir [] = Inr []"
| "select_big_mp4 fs out_dir (f # rest) =
     (if endswith f ''.mp4'' then
        (case getsize fs (path_join out_dir f) of
           Inl e \<Rightarrow> Inl e
         | Inr n \<Rightarrow>
             (case select_big_mp4 fs out_dir rest of
                Inl e \<Rightarrow> Inl e
              | Inr chosen \<Rightarrow> Inr (if 1000000 < n then f # chosen else chosen)))
      else select_big_mp4 fs out_dir rest)"

definition collect_download :: "string \<Rightarrow> string \<Rightarrow> world \<Rightarrow> attempt \<times> world" where
  \<comment> \<open>The end of the inner \<open>try\<close> of Method 2, after the clicks and the wait: the first
      large \<open>.mp4\<close> file of the directory is renamed to \<open><id>.mp4\<close> and returned. An
      exception here is caught by the inner handler, which only logs it.\<close>
  "collect_download out_dir video_id w =
     (case select_big_mp4 (files w) out_dir (listdir (files w) out_dir) of
        Inl e \<Rightarrow> (Silent, w)
      | Inr [] \<Rightarrow> (Silent, w)
      | Inr (f # others) \<Rightarrow>
          (let video_path = path_join out_dir f;
               final_path = path_join out_dir (video_id @ ''.mp4'')
           in if video_path \<noteq> final_path then
                (case rename_file video_path final_path (files w) of
                   Inl e \<Rightarrow> (Silent, w)
                 | Inr fs \<Rightarrow> (Returned final_path, w\<lparr>files := fs\<rparr>))
              else (Returned final_path, w)))"

definition browser_relay :: "video_env \<Rightarrow> string \<Rightarrow> string \<Rightarrow> world \<Rightarrow> attempt \<times> world" where
  \<comment> \<open>Method 2. \<open>finally\<close> quits the browser on every path, also when the function
      returns.\<close>
  "browser_relay env out_dir video_id w =
     (let w0 = enter BrowserRelay w in
      case initialize_webdriver (relay_launch env) (browser w0) of
        (Inl e, b) \<Rightarrow> (Appended (''Selenium method failed: '' @ str_exn e), w0\<lparr>browser := b\<rparr>)
      | (Inr h, b) \<Rightarrow>
          (let w1 = add_files (relay_files env) (w0\<lparr>browser := b\<rparr>) in
           case relay env of
             RelaySetupRaises e \<Rightarrow>
               (Appended (''Selenium method failed: '' @ str_exn e), quit_browser h w1)
           | RelayActionRaises e \<Rightarrow> (Silent, quit_browser h w1)
           | RelayNoButton \<Rightarrow> (Silent, quit_browser h w1)
           | RelayClicked \<Rightarrow>
               (case collect_download out_dir video_id w1 of
                  (a, w2) \<Rightarrow> (a, quit_browser h w2))))"

definition legacy_stream :: "video_env \<Rightarrow> world \<Rightarrow> attempt \<times> world" where
  \<comment> \<open>Method 3. The downloaded file is returned if it exists and is not empty.\<close>
  "legacy_stream env w =
     (let w1 = add_files (pytube_files env) (enter LegacyStream w) in
      case pytube env of
        PytubeRaises e \<Rightarrow> (Appended (''Standard pytube method failed: '' @ str_exn e), w1)
      | PytubeStreamRaises e \<Rightarrow> (Appended (''Pytube stream error: '' @ str_exn e), w1)
      | PytubeNoStream \<Rightarrow> (Silent, w1)
      | PytubeDownloaded video_path \<Rightarrow>
          if nonempty_file (files w1) video_path then (Returned video_path, w1)
          else (Silent, w1))"

fun appended :: "attempt \<Rightarrow> string list" where
  \<comment> \<open>What a strategy adds to \<open>errors\<close>.\<close>
  "appended (Appended msg) = [msg]"
| "appended a = []"

definition video_chain ::
  "video_env \<Rightarrow> string \<Rightarrow> string \<Rightarrow> world \<Rightarrow> string option \<times> string list \<times> world" where
  \<comment> \<open>The three \<open>try\<close> statements in their order: the path returned, if one is, the
      list \<open>errors\<close>, and the state.\<close>
  "video_chain env out_dir video_id w =
     (case bulk_extractor env out_dir video_id w of
        (Returned p, w1) \<Rightarrow> (Some p, [], w1)
      | (a1, w1) \<Rightarrow>
          (case browser_relay env out_dir video_id w1 of
             (Returned p, w2) \<Rightarrow> (Some p, appended a1, w2)
           | (a2, w2) \<Rightarrow>
               (case legacy_stream env w2 of
                  (Returned p, w3) \<Rightarrow> (Some p, appended a1 @ appended a2, w3)
                | (a3, w3) \<Rightarrow> (None, appended a1 @ appended a2 @ appended a3, w3))))"

fun join_str :: "string \<Rightarrow> string list \<Rightarrow> string" where
  \<comment> \<open>\<open>sep.join(xs)\<close>.\<close>
  "join_str sep [] = []"
| "join_str sep [x] = x"
| "join_str sep (x # y # ys) = x @ sep @ join_str sep (y # ys)"

definition lower_latin :: "char \<Rightarrow> char" where
  \<comment> \<open>\<open>c.lower()\<close> below code point 256.\<close>
  "lower_latin c =
     (let n = (of_char c :: nat) in
      if (65 \<le> n \<and> n \<le> 90) \<or> (192 \<le> n \<and> n \<le> 222 \<and> n \<noteq> 215)
      then char_of (n + 32) else c)"

definition lower_str :: "string \<Rightarrow> string" where
  "lower_str s = map lower_latin s"

definition video_error_message :: "string list \<Rightarrow> string" where
  \<comment> \<open>The message of the ValueError raised when no file was obtained, with the two
      hints.\<close>
  "video_error_message errors =
     ''Video download failed after multiple attempts. Errors: '' @ join_str ''; '' errors @
     (if list_ex (\<lambda>err. contains ''age'' (lower_str err)) errors
      then CHR 0x0A #
        ''This video may be age-restricted. Try logging in to YouTube and exporting cookies.txt.''
      else []) @
     (if list_ex (\<lambda>err. contains ''geo'' (lower_str err) \<or>
                          contains ''your country'' (lower_str err)) errors
      then CHR 0x0A # ''This video may be geographically restricted. Try using a VPN.''
      else [])"

definition choose_dir :: "config \<Rightarrow> string option \<Rightarrow> string \<Rightarrow> string" where
  \<comment> \<open>\<open>if not output_path: output_path = os.path.join(download_path, video_id)\<close>.\<close>
  "choose_dir cfg output_path video_id =
     (case output_path of
        None \<Rightarrow> path_join (cfg_download_path cfg) video_id
      | Some d \<Rightarrow> if d = [] then path_join (cfg_download_path cfg) video_id else d)"

definition download_video ::
  "pylib \<Rightarrow> config \<Rightarrow> video_env \<Rightarrow> string \<Rightarrow> string option \<Rightarrow> world \<Rightarrow> (exn + string) \<times> world" where
  \<comment> \<open>\<open>YouTubeContentScraper.download_video\<close>. After the three strategies the file
      \<open><id>.mp4\<close> is returned if it exists and is not empty; otherwise ValueError is
      raised. The outer handler logs and raises again.\<close>
  "download_video L cfg env video_url output_path w =
     (case require_video_id L video_url of
        Inl e \<Rightarrow> (Inl e, w)
      | Inr video_id \<Rightarrow>
          (let out_dir = choose_dir cfg output_path video_id in
           case makedirs_error env of
             Some e \<Rightarrow> (Inl e, w)
           | None \<Rightarrow>
               (let output_file = path_join out_dir (video_id @ ''.mp4'') in
                case video_chain env out_dir video_id w of
                  (Some p, errors, w') \<Rightarrow> (Inr p, w')
                | (None, errors, w') \<Rightarrow>
                    if \<not> nonempty_file (files w') output_file
                    then (Inl (ValueError (video_error_message errors)), w')
                    else (Inr output_file, w'))))"

definition returned :: "attempt \<Rightarrow> bool" where
  "returned a = (case a of Returned p \<Rightarrow> True | _ \<Rightarrow> False)"

subsection \<open>Examples\<close>

definition relay_env :: "nat \<Rightarrow> video_env" where
  \<comment> \<open>The extraction tool is blocked, the relay site delivers \<open>clip.mp4\<close> of the given
      size, and the stream library finds no stream.\<close>
  "relay_env n =
     \<lparr>makedirs_error = None, ytdlp = YdlRaises (OtherError ''blocked''), ytdlp_files = [],
      relay_launch = LaunchOk, relay = RelayClicked,
      relay_files = [(''downloads/abcdefghijk/clip.mp4'', n)],
      pytube = PytubeNoStream, pytube_files = []\<rparr>"

definition silent_env :: video_env where
  \<comment> \<open>The extraction tool is blocked; the relay site is clicked through and delivers
      no file; the stream library finds no stream. Only the first strategy raises.\<close>
  "silent_env =
     \<lparr>makedirs_error = None, ytdlp = YdlRaises (OtherError ''blocked''), ytdlp_files = [],
      relay_launch = LaunchOk, relay = RelayClicked, relay_files = [],
      pytube = PytubeNoStream, pytube_files = []\<rparr>"

definition quiet_env :: video_env where
  \<comment> \<open>The extraction tool reports a file that is not there, the relay page lists no
      download button, and the stream library leaves an empty file.\<close>
  "quiet_env =
     \<lparr>makedirs_error = None, ytdlp = YdlInfo None None, ytdlp_files = [],
      relay_launch = LaunchOk, relay = RelayNoButton, relay_files = [],
      pytube = PytubeDownloaded ''downloads/abcdefghijk/abcdefghijk.mp4'',
      pytube_files = [(''downloads/abcdefghijk/abcdefghijk.mp4'', 0)]\<rparr>"

definition raising_env :: video_env where
  \<comment> \<open>Every strategy raises.\<close>
  "raising_env =
     \<lparr>makedirs_error = None, ytdlp = YdlRaises (OtherError ''Sign in to confirm your age''),
      ytdlp_files = [],
      relay_launch = LaunchRaises (OtherError ''chrome not found''), relay = RelayClicked,
      relay_files = [],
      pytube = PytubeRaises (OtherError ''HTTP Error 400''), pytube_files = []\<rparr>"

definition raising_errors :: "string list" where
  "raising_errors =
     [''yt-dlp method failed: Sign in to confirm your age'',
      ''Selenium method failed: chrome not found'',
      ''Standard pytube method failed: HTTP Error 400'']"

section \<open>Audio acquisition\<close>

text \<open>
  \<open>download_audio\<close> has two strategies. The extraction tool raises or completes. The
  stream library raises (when the video is opened, a stream is chosen or the download
  is made), finds no audio stream, or returns the path it downloaded to. The transcoder
  (\<open>AudioFileClip\<close>, \<open>write_audiofile\<close>, \<open>close\<close>) raises, leaving a partial output file
  or none, or completes, leaving an output file of some size; it does not touch its input.
\<close>

datatype audio_ytdlp_outcome = AudioYdlRaises exn | AudioYdlDone

datatype audio_pytube_outcome = AudioPytubeRaises exn | AudioNoStream | AudioDownloaded string

datatype transcode_outcome = TranscodeRaises exn "nat option" | TranscodeOk nat

record audio_env =
  audio_makedirs_error :: "exn option"
  audio_ytdlp :: audio_ytdlp_outcome
  audio_ytdlp_files :: files
  audio_pytube :: audio_pytube_outcome
  audio_pytube_files :: files
  transcode :: transcode_outcome

definition audio_bulk_extractor ::
  "audio_env \<Rightarrow> string \<Rightarrow> string \<Rightarrow> world \<Rightarrow> attempt \<times> world" where
  \<comment> \<open>Method 1: \<open><id>.mp3\<close> if it exists and is not empty, else the first \<open>.mp3\<close> file
      of the directory, renamed to it.\<close>
  "audio_bulk_extractor env out_dir video_id w =
     (let w1 = add_files (audio_ytdlp_files env) (enter AudioBulkExtractor w) in
      case audio_ytdlp env of
        AudioYdlRaises e \<Rightarrow>
          (Appended (''yt-dlp audio extraction failed: '' @ str_exn e), w1)
      | AudioYdlDone \<Rightarrow>
          (let mp3_path = path_join out_dir (video_id @ ''.mp3'') in
           if nonempty_file (files w1) mp3_path then (Returned mp3_path, w1)
           else
             (case filter (\<lambda>f. endswith f ''.mp3'') (listdir (files w1) out_dir) of
                [] \<Rightarrow> (Silent, w1)
              | f # others \<Rightarrow>
                  (case rename_file (path_join out_dir f) mp3_path (files w1) of
                     Inl e \<Rightarrow>
                       (Appended (''yt-dlp audio extraction failed: '' @ str_exn e), w1)
                   | Inr fs \<Rightarrow> (Returned mp3_path, w1\<lparr>files := fs\<rparr>)))))"

definition convert_to_mp3 :: "audio_env \<Rightarrow> string \<Rightarrow> world \<Rightarrow> attempt \<times> world" where
  \<comment> \<open>The \<open>try\<close> statement under \<open>if audio_path.endswith('.mp4')\<close>: after the
      transcoding the original is removed if it exists and the new path is returned; the
      handler returns the original path.\<close>
  "convert_to_mp3 env audio_path w =
     (let mp3_path = replace_str ''.mp4'' ''.mp3'' audio_path in
      case transcode env of
        TranscodeRaises conv_error partial \<Rightarrow>
          (Returned audio_path,
           case partial of
             None \<Rightarrow> w
           | Some n \<Rightarrow> w\<lparr>files := write_file mp3_path n (files w)\<rparr>)
      | TranscodeOk n \<Rightarrow>
          (let w1 = w\<lparr>files := write_file mp3_path n (files w)\<rparr> in
           (Returned mp3_path,
            if exists_file (files w1) audio_path
            then w1\<lparr>files := remove_file audio_path (files w1)\<rparr> else w1)))"

definition legacy_audio :: "audio_env \<Rightarrow> world \<Rightarrow> attempt \<times> world" where
  \<comment> \<open>Method 2.\<close>
  "legacy_audio env w =
     (let w1 = add_files (audio_pytube_files env) (enter AudioLegacyStream w) in
      case audio_pytube env of
        AudioPytubeRaises e \<Rightarrow> (Appended (''pytube audio download failed: '' @ str_exn e), w1)
      | AudioNoStream \<Rightarrow>
          (Appended (''pytube audio download failed: '' @
                     ''No audio stream found for this video''), w1)
      | AudioDownloaded audio_path \<Rightarrow>
          if endswith audio_path ''.mp4'' then convert_to_mp3 env audio_path w1
          else (Returned audio_path, w1))"

definition download_audio ::
  "pylib \<Rightarrow> config \<Rightarrow> audio_env \<Rightarrow> string \<Rightarrow> string option \<Rightarrow> world \<Rightarrow> (exn + string) \<times> world" where
  \<comment> \<open>\<open>YouTubeContentScraper.download_audio\<close>.\<close>
  "download_audio L cfg env video_url output_path w =
     (case require_video_id L video_url of
        Inl e \<Rightarrow> (Inl e, w)
      | Inr video_id \<Rightarrow>
          (let out_dir = choose_dir cfg output_path video_id in
           case audio_makedirs_error env of
             Some e \<Rightarrow> (Inl e, w)
           | None \<Rightarrow>
               (case audio_bulk_extractor env out_dir video_id w of
                  (Returned p, w1) \<Rightarrow> (Inr p, w1)
                | (a1, w1) \<Rightarrow>
                    (case legacy_audio env w1 of
                       (Returned p, w2) \<Rightarrow> (Inr p, w2)
                     | (a2, w2) \<Rightarrow>
                         (Inl (ValueError
                                (''Audio download failed after multiple attempts. Errors: '' @
                                 join_str ''; '' (appended a1 @ appended a2))), w2)))))"

subsection \<open>Examples\<close>

definition song_env :: "transcode_outcome \<Rightarrow> audio_env" where
  \<comment> \<open>The extraction tool is blocked; the stream library downloads \<open>song.mp4\<close>.\<close>
  "song_env t =
     \<lparr>audio_makedirs_error = None, audio_ytdlp = AudioYdlRaises (OtherError ''blocked''),
      audio_ytdlp_files = [],
      audio_pytube = AudioDownloaded ''downloads/abcdefghijk/song.mp4'',
      audio_pytube_files = [(''downloads/abcdefghijk/song.mp4'', 3000000)],
      transcode = t\<rparr>"

section \<open>The content-scraping page\<close>

text \<open>
  \<open>content_scraping_page\<close> is the orchestrator: the body run when the button
  \<open>Process Video\<close> is pressed. What it shows is the list of its calls on the user
  interface, in order. The environment gives the outcomes of the four resolvers' library
  calls, whether showing the video or the audio raises, whether the button
  \<open>Save Transcript to File\<close> is pressed, whether writing a file raises, and the date.
\<close>

datatype ui_event =
    Subheader string | Write string | Success string | Warning string | Error string
  | Video string | Audio string | TextArea string string

record page_env =
  metadata :: metadata_env
  video :: video_env
  audio :: audio_env
  captions :: caption_service
  show_video_error :: "exn option"
  show_audio_error :: "exn option"
  save_transcript_pressed :: bool
  save_transcript_error :: "exn option"
  save_metadata_error :: "exn option"
  processing_now :: string

definition digit_char :: "nat \<Rightarrow> char" where
  "digit_char n = ''0123456789'' ! (n mod 10)"

function show_nat :: "nat \<Rightarrow> string" where
  \<comment> \<open>The decimal digits of a number.\<close>
  "show_nat n = (if n < 10 then [digit_char n] else show_nat (n div 10) @ [digit_char n])"
  by pat_completeness auto
termination
  by (relation "measure id") auto

declare show_nat.simps [simp del]

definition two_digits :: "nat \<Rightarrow> string" where
  \<comment> \<open>The format \<open>02d\<close>.\<close>
  "two_digits n = (if n < 10 then CHR ''0'' # show_nat n else show_nat n)"

definition transcript_line :: "transcript_entry \<Rightarrow> string" where
  \<comment> \<open>\<open>f"[{minutes:02d}:{seconds:02d}] {entry['text']}\n"\<close> with
      \<open>minutes, seconds = divmod(int(start_time), 60)\<close>.\<close>
  "transcript_line entry =
     ''['' @ two_digits (entry_start entry div 60) @ '':'' @
     two_digits (entry_start entry mod 60) @ ''] '' @ entry_text entry @ [CHR 0x0A]"

definition transcript_text :: "transcript \<Rightarrow> string" where
  "transcript_text entries = concat (map transcript_line entries)"

definition str_option :: "string option \<Rightarrow> string" where
  \<comment> \<open>An identifier inside an f-string.\<close>
  "str_option v = (case v of None \<Rightarrow> ''None'' | Some s \<Rightarrow> s)"

definition show_info :: "video_info \<Rightarrow> ui_event list" where
  "show_info video_info =
     [Subheader ''Video Information'',
      Write (''**Title:** '' @ info_title video_info),
      Write (''**Channel:** '' @ info_channel_title video_info),
      Write (''**Views:** '' @ info_view_count video_info),
      Write (''**Published:** '' @ info_published_at video_info)]"

definition video_block ::
  "pylib \<Rightarrow> config \<Rightarrow> page_env \<Rightarrow> string \<Rightarrow> world \<Rightarrow> ui_event list \<times> string option \<times> world" where
  \<comment> \<open>The statement under \<open>if download_video\<close>: the events, the value of
      \<open>video_path\<close>, and the state.\<close>
  "video_block L cfg env youtube_url w =
     (case download_video L cfg (video env) youtube_url None w of
        (Inl video_error, w1) \<Rightarrow>
          ([Error (''Error downloading video: '' @ str_exn video_error)], None, w1)
      | (Inr video_path, w1) \<Rightarrow>
          (Success ''Video downloaded successfully!'' #
           (if nonempty_file (files w1) video_path then
              (case show_video_error env of
                 None \<Rightarrow> [Video video_path]
               | Some e \<Rightarrow>
                   [Warning (''Video downloaded but cannot be displayed in the browser. '' @
                             ''You can find it at: '' @ video_path)])
            else [Warning ''Video download completed but the file may be corrupted or empty.'']),
           Some video_path, w1))"

definition audio_block ::
  "pylib \<Rightarrow> config \<Rightarrow> page_env \<Rightarrow> string \<Rightarrow> world \<Rightarrow> ui_event list \<times> string option \<times> world" where
  \<comment> \<open>The statement under \<open>if download_audio\<close>.\<close>
  "audio_block L cfg env youtube_url w =
     (case download_audio L cfg (audio env) youtube_url None w of
        (Inl audio_error, w1) \<Rightarrow>
          ([Error (''Error downloading audio: '' @ str_exn audio_error)], None, w1)
      | (Inr audio_path, w1) \<Rightarrow>
          (Success ''Audio downloaded successfully!'' #
           (if nonempty_file (files w1) audio_path then
              (case show_audio_error env of
                 None \<Rightarrow> [Audio audio_path]
               | Some e \<Rightarrow>
                   [Warning (''Audio downloaded but cannot be played in the browser. '' @
                             ''You can find it at: '' @ audio_path)])
            else [Warning ''Audio download completed but the file may be corrupted or empty.'']),
           Some audio_path, w1))"

definition transcript_block ::
  "pylib \<Rightarrow> config \<Rightarrow> page_env \<Rightarrow> string \<Rightarrow> world \<Rightarrow> ui_event list \<times> transcript option \<times> world" where
  \<comment> \<open>The statement under \<open>if get_transcript\<close>: the events, the value of
      \<open>transcript_data\<close>, and the state. Its handler shows a warning.\<close>
  "transcript_block L cfg env youtube_url w =
     (case extract_video_id L youtube_url of
        Inl e \<Rightarrow> ([Warning (''Error retrieving transcript: '' @ str_exn e)], None, w)
      | Inr video_id \<Rightarrow>
          (case get_transcript (captions env) of
             Inl e \<Rightarrow> ([Warning (''Error retrieving transcript: '' @ str_exn e)], None, w)
           | Inr transcript_data \<Rightarrow>
               if transcript_data \<noteq> [] then
                 (let shown = [Subheader ''Video Transcript'',
                               TextArea ''Transcript'' (transcript_text transcript_data)];
                      transcript_file =
                        path_join (path_join (cfg_output_path cfg) ''transcripts'')
                          (str_option video_id @ ''_transcript.txt'')
                  in if save_transcript_pressed env then
                       (case save_transcript_error env of
                          Some e \<Rightarrow>
                            (shown @ [Warning (''Error retrieving transcript: '' @ str_exn e)],
                             Some transcript_data, w)
                        | None \<Rightarrow>
                            (shown @ [Success (''Transcript saved to '' @ transcript_file)],
                             Some transcript_data,
                             w\<lparr>documents :=
                                 (transcript_file,
                                  TextDocument (transcript_text transcript_data)) #
                                 documents w\<rparr>))
                     else (shown, Some transcript_data, w))
               else
                 ([Warning (''Could not retrieve transcript for this video. '' @
                            ''It may not have subtitles or captions.'')],
                  Some transcript_data, w)))"

definition existing_path :: "world \<Rightarrow> string option \<Rightarrow> string option" where
  \<comment> \<open>\<open>p if p and os.path.exists(p) else None\<close>.\<close>
  "existing_path w p =
     (case p of
        None \<Rightarrow> None
      | Some q \<Rightarrow> if q \<noteq> [] \<and> exists_file (files w) q then Some q else None)"

definition metadata_block ::
  "pylib \<Rightarrow> config \<Rightarrow> page_env \<Rightarrow> string \<Rightarrow> video_info \<Rightarrow> string option \<Rightarrow> string option \<Rightarrow>
   transcript option \<Rightarrow> world \<Rightarrow> ui_event list \<times> world" where
  \<comment> \<open>The statement under \<open>if video_info\<close>: the metadata are saved whatever the
      downloads gave. Its handler shows a warning.\<close>
  "metadata_block L cfg env youtube_url video_info video_path audio_path transcript_data w =
     (case extract_video_id L youtube_url of
        Inl e \<Rightarrow> ([Warning (''Error saving metadata: '' @ str_exn e)], w)
      | Inr video_id \<Rightarrow>
          (case save_metadata_error env of
             Some e \<Rightarrow> ([Warning (''Error saving metadata: '' @ str_exn e)], w)
           | None \<Rightarrow>
               ([Success (''Content processed and metadata saved successfully! '' @
                          ''You can now repurpose it in the Content Repurposing tab.'')],
                w\<lparr>documents :=
                    (path_join (path_join (cfg_output_path cfg) ''metadata'')
                       (str_option video_id @ ''_metadata.json''),
                     MetadataDocument
                       \<lparr>saved_video_info = video_info,
                        saved_video_path = existing_path w video_path,
                        saved_audio_path = existing_path w audio_path,
                        saved_has_transcript =
                          (case transcript_data of None \<Rightarrow> False | Some t \<Rightarrow> t \<noteq> []),
                        saved_processing_date = processing_now env\<rparr>) #
                    documents w\<rparr>)))"

definition content_scraping_page ::
  "pylib \<Rightarrow> config \<Rightarrow> page_env \<Rightarrow> string \<Rightarrow> bool \<Rightarrow> bool \<Rightarrow> bool \<Rightarrow> world \<Rightarrow>
   ui_event list \<times> world" where
  \<comment> \<open>The body under \<open>if st.button("Process Video")\<close>, with the three check boxes.
      Only a failure of \<open>get_video_info\<close> reaches the outer handler.\<close>
  "content_scraping_page L cfg env youtube_url want_video want_audio want_transcript w =
     (if youtube_url = [] then ([Warning ''Please enter a YouTube URL''], w)
      else
        (case get_video_info L cfg (metadata env) youtube_url w of
           (Inl e, w1) \<Rightarrow> ([Error (''Error processing video: '' @ str_exn e)], w1)
         | (Inr video_info, w1) \<Rightarrow>
             (let (ui_video, video_path, w2) =
                    (if want_video then video_block L cfg env youtube_url w1
                     else ([], None, w1));
                  (ui_audio, audio_path, w3) =
                    (if want_audio then audio_block L cfg env youtube_url w2
                     else ([], None, w2));
                  (ui_transcript, transcript_data, w4) =
                    (if want_transcript then transcript_block L cfg env youtube_url w3
                     else ([], None, w3));
                  (ui_metadata, w5) =
                    metadata_block L cfg env youtube_url video_info video_path audio_path
                      transcript_data w4
              in (show_info video_info @ ui_video @ ui_audio @ ui_transcript @ ui_metadata,
                  w5))))"

definition aborts :: "ui_event \<Rightarrow> bool" where
  \<comment> \<open>The event of the outer handler.\<close>
  "aborts ev = (case ev of Error m \<Rightarrow> prefix ''Error processing video: '' m | _ \<Rightarrow> False)"

subsection \<open>Examples\<close>

definition example_page_env :: page_env where
  \<comment> \<open>The metadata are scraped, no video strategy succeeds, and the default transcript
      has one entry.\<close>
  "example_page_env =
     \<lparr>metadata = zero_results_env, video = silent_env,
      audio = song_env (TranscodeOk 1000000),
      captions = \<lparr>default_transcript = Inr [example_entry], listed_tracks = Inr []\<rparr>,
      show_video_error = None, show_audio_error = None, save_transcript_pressed = False,
      save_transcript_error = None, save_metadata_error = None,
      processing_now = ''2025-01-01T00:00:05''\<rparr>"

definition scraped_world :: world where
  \<comment> \<open>The state after the metadata of the example were scraped.\<close>
  "scraped_world =
     \<lparr>files = [], browser = \<lparr>driver = Some 0, live = {}, fresh = 1\<rparr>, documents = [],
      trace = [ApiLookup, ScrapedLookup]\<rparr>"

section \<open>Properties of identifier extraction\<close>

lemma id_char_plain:
  assumes "is_id_char c"
  shows "c \<noteq> CHR ''/''" "c \<noteq> CHR ''?''" "c \<noteq> CHR ''#''" "c \<noteq> CHR '':''"
    "c \<noteq> CHR '';''" "c \<noteq> CHR ''&''" "c \<noteq> CHR ''=''" "c \<noteq> CHR ''+''"
    "c \<noteq> CHR ''%''" "\<not> unsafe_url_byte c" "\<not> c0_control_or_space c"
  using assms unfolding is_id_char_def unsafe_url_byte_def c0_control_or_space_def
  by auto

lemma id_chars_plain:
  assumes "list_all is_id_char v"
  shows "CHR ''/'' \<notin> set v" "CHR ''?'' \<notin> set v" "CHR ''#'' \<notin> set v" "CHR '':'' \<notin> set v"
    "CHR '';'' \<notin> set v" "CHR ''&'' \<notin> set v" "CHR ''='' \<notin> set v" "CHR ''+'' \<notin> set v"
    "CHR ''%'' \<notin> set v" "filter (\<lambda>c. \<not> unsafe_url_byte c) v = v"
proof -
  have *: "\<And>c. c \<in> set v \<Longrightarrow> is_id_char c"
    using assms by (simp add: list_all_iff)
  show "CHR ''/'' \<notin> set v" using * id_char_plain(1) by blast
  show "CHR ''?'' \<notin> set v" using * id_char_plain(2) by blast
  show "CHR ''#'' \<notin> set v" using * id_char_plain(3) by blast
  show "CHR '':'' \<notin> set v" using * id_char_plain(4) by blast
  show "CHR '';'' \<notin> set v" using * id_char_plain(5) by blast
  show "CHR ''&'' \<notin> set v" using * id_char_plain(6) by blast
  show "CHR ''='' \<notin> set v" using * id_char_plain(7) by blast
  show "CHR ''+'' \<notin> set v" using * id_char_plain(8) by blast
  show "CHR ''%'' \<notin> set v" using * id_char_plain(9) by blast
  show "filter (\<lambda>c. \<not> unsafe_url_byte c) v = v"
    using * id_char_plain(10) by (simp add: filter_id_conv)
qed

lemma partition_str_absent: "c \<notin> set s \<Longrightarrow> partition_str (c # sub) s = None"
  by (induction s) auto

lemma find_char_absent: "c \<notin> set s \<Longrightarrow> find_char c s = None"
  by (induction s) auto

lemma contains_absent: "c \<notin> set s \<Longrightarrow> contains (c # sub) s = False"
  by (induction s) auto

lemma split_str_absent: "c \<notin> set s \<Longrightarrow> split_str (c # sub) s = [s]"
  by (simp add: split_str.simps partition_str_absent)

lemma replace_str_absent: "c \<notin> set s \<Longrightarrow> replace_str (c # sub) new s = s"
  by (simp add: replace_str.simps partition_str_absent)

lemma take2_no_slash: "CHR ''/'' \<notin> set s \<Longrightarrow> take 2 s \<noteq> ''//''"
  by (cases s) auto

lemmas urlsplit_unfold =
  urlsplit_def c0_control_or_space_def unsafe_url_byte_def split_scheme_def is_ascii_alpha_def
  scheme_chars_def lower_char_def splitnetloc_def netloc_delim_def check_netloc_brackets_def
  split_once_def

lemma path_text_plain:
  assumes "path_text t"
  shows "CHR ''?'' \<notin> set t" "CHR ''#'' \<notin> set t" "CHR '';'' \<notin> set t"
    "filter (\<lambda>c. c \<noteq> CHR 0x09 \<and> c \<noteq> CHR 0x0D \<and> c \<noteq> CHR 0x0A) t = t"
  using assms by (auto simp: path_text_def list_all_iff unsafe_url_byte_def filter_id_conv)

lemma query_text_plain:
  assumes "query_text t"
  shows "CHR ''#'' \<notin> set t" "CHR ''&'' \<notin> set t" "CHR ''+'' \<notin> set t" "CHR ''%'' \<notin> set t"
    "filter (\<lambda>c. c \<noteq> CHR 0x09 \<and> c \<noteq> CHR 0x0D \<and> c \<noteq> CHR 0x0A) t = t"
  using assms by (auto simp: query_text_def list_all_iff unsafe_url_byte_def filter_id_conv)

lemma canonical_path_text: "canonical_id v \<Longrightarrow> path_text v"
  unfolding canonical_id_def path_text_def list_all_iff
  using id_char_plain(2,3,5,10) by auto

lemma canonical_query_text: "canonical_id v \<Longrightarrow> query_text v"
  unfolding canonical_id_def query_text_def list_all_iff
  using id_char_plain(3,6,8,9,10) by auto

lemma canonical_no_slash: "canonical_id v \<Longrightarrow> CHR ''/'' \<notin> set v"
  by (simp add: canonical_id_def id_chars_plain(1))

lemma partition_str_not_contained: "\<not> contains sep t \<Longrightarrow> partition_str sep t = None"
  by (induction t) auto

lemma prefix_absent: "c \<notin> set s \<Longrightarrow> c \<in> set sub \<Longrightarrow> \<not> prefix sub s"
  using set_mono_prefix by fastforce

text \<open>What \<open>urlparse\<close> returns on the four URL shapes, for any text after the prefix.\<close>

lemma urlparse_watch_any:
  assumes "query_text t"
  shows "urlparse L (''https://www.youtube.com/watch?v='' @ t) =
           Inr \<lparr>scheme = ''https'', netloc = ''www.youtube.com'', path = ''/watch'',
                params = [], query = ''v='' @ t, fragment = []\<rparr>"
proof -
  note p = query_text_plain [OF assms]
  have "urlsplit L (''https://www.youtube.com/watch?v='' @ t) =
           Inr (''https'', ''www.youtube.com'', ''/watch'', ''v='' @ t, [])"
    by (simp add: p urlsplit_unfold partition_str_absent)
  then show ?thesis by (simp add: urlparse_def)
qed

lemma urlparse_shorts_any:
  assumes "path_text t"
  shows "urlparse L (''https://www.youtube.com/shorts/'' @ t) =
           Inr \<lparr>scheme = ''https'', netloc = ''www.youtube.com'', path = ''/shorts/'' @ t,
                params = [], query = [], fragment = []\<rparr>"
proof -
  note p = path_text_plain [OF assms]
  have "urlsplit L (''https://www.youtube.com/shorts/'' @ t) =
           Inr (''https'', ''www.youtube.com'', ''/shorts/'' @ t, [], [])"
    by (simp add: p urlsplit_unfold partition_str_absent)
  then show ?thesis by (simp add: urlparse_def p)
qed

lemma urlparse_live_any:
  assumes "path_text t"
  shows "urlparse L (''https://www.youtube.com/live/'' @ t) =
           Inr \<lparr>scheme = ''https'', netloc = ''www.youtube.com'', path = ''/live/'' @ t,
                params = [], query = [], fragment = []\<rparr>"
proof -
  note p = path_text_plain [OF assms]
  have "urlsplit L (''https://www.youtube.com/live/'' @ t) =
           Inr (''https'', ''www.youtube.com'', ''/live/'' @ t, [], [])"
    by (simp add: p urlsplit_unfold partition_str_absent)
  then show ?thesis by (simp add: urlparse_def p)
qed

lemma urlparse_short_link_any:
  assumes "path_text t"
  shows "urlparse L (''https://youtu.be/'' @ t) =
           Inr \<lparr>scheme = ''https'', netloc = ''youtu.be'', path = ''/'' @ t,
                params = [], query = [], fragment = []\<rparr>"
proof -
  note p = path_text_plain [OF assms]
  have "urlsplit L (''https://youtu.be/'' @ t) =
           Inr (''https'', ''youtu.be'', ''/'' @ t, [], [])"
    by (simp add: p urlsplit_unfold partition_str_absent)
  then show ?thesis by (simp add: urlparse_def p)
qed

lemma urlparse_no_slash:
  assumes "CHR ''/'' \<notin> set url"
  shows "\<exists>p. urlparse L url = Inr p \<and> netloc p = []"
proof -
  define url2 where
    "url2 = filter (\<lambda>c. \<not> unsafe_url_byte c) (dropWhile c0_control_or_space url)"
  have s2: "CHR ''/'' \<notin> set url2"
    using assms set_dropWhileD unfolding url2_def by fastforce
  obtain sch url3 where sc: "split_scheme url2 = (sch, url3)"
    by (cases "split_scheme url2")
  have "url3 = url2 \<or> (\<exists>i. url3 = drop i url2)"
    using sc by (auto simp: split_scheme_def split: option.splits if_splits)
  then have "CHR ''/'' \<notin> set url3"
    using s2 in_set_dropD by fastforce
  then have t: "take 2 url3 \<noteq> ''//''" by (rule take2_no_slash)
  have "\<exists>a b c. urlsplit L url = Inr (sch, [], a, b, c)"
    using sc t by (simp add: urlsplit_def url2_def [symmetric] split: prod.splits)
  then show ?thesis
    by (auto simp: urlparse_def split: prod.splits)
qed

text \<open>What extraction returns on the four URL shapes and on a bare token.\<close>

lemma extract_watch_any:
  assumes "unquote_keeps_plain L" "query_text t" "t \<noteq> []"
  shows "extract_video_id L (''https://www.youtube.com/watch?v='' @ t) = Inr (Some t)"
proof -
  note p = query_text_plain [OF assms(2)]
  have u: "unquote L ''v'' = ''v''" "unquote L t = t"
    using assms(1) p(4) by (simp_all add: unquote_keeps_plain_def)
  have q: "parse_qs L (''v='' @ t) = [(''v'', [t])]"
    by (simp add: parse_qs_def parse_qsl_def split_str.simps partition_str_absent p assms(3)
        unquote_plus_def replace_str_absent u replace_str.simps)
  show ?thesis
    unfolding extract_video_id_def urlparse_watch_any [OF assms(2)]
    by (simp add: q [simplified] index_list_def)
qed

lemma extract_shorts_any:
  assumes "path_text t" "\<not> contains ''/watch'' (CHR ''/'' # t)" "\<not> contains ''/shorts/'' t"
  shows "extract_video_id L (''https://www.youtube.com/shorts/'' @ t) = Inr (Some t)"
proof -
  have w: "\<not> contains ''/watch'' (''/shorts/'' @ t)"
    using assms(2) by simp
  have "split_str ''/shorts/'' t = [t]"
    by (subst split_str.simps) (simp add: partition_str_not_contained [OF assms(3)])
  then have s: "split_str ''/shorts/'' (''/shorts/'' @ t) = [[], t]"
    by (subst split_str.simps) simp
  show ?thesis
    unfolding extract_video_id_def urlparse_shorts_any [OF assms(1)]
    using w by (simp add: s [simplified] index_list_def)
qed

lemma extract_live_any:
  assumes "path_text t" "CHR ''/'' \<notin> set t" "\<not> prefix ''watch'' t"
  shows "extract_video_id L (''https://www.youtube.com/live/'' @ t) = Inr (Some t)"
proof -
  have w: "\<not> contains ''/watch'' (''/live/'' @ t)" "\<not> contains ''/shorts/'' (''/live/'' @ t)"
    using assms(3) prefix_absent [OF assms(2), of "''shorts/''"]
    by (simp_all add: contains_absent assms(2))
  have s: "split_str ''/live/'' (''/live/'' @ t) = [[], t]"
    by (subst split_str.simps) (simp add: split_str_absent assms(2))
  show ?thesis
    unfolding extract_video_id_def urlparse_live_any [OF assms(1)]
    using w by (simp add: s [simplified] index_list_def assms(2))
qed

lemma extract_short_link_any:
  assumes "path_text t"
  shows "extract_video_id L (''https://youtu.be/'' @ t) = Inr (Some t)"
  unfolding extract_video_id_def urlparse_short_link_any [OF assms]
  by simp

lemma extract_no_host:
  assumes "urlparse L url = Inr p" "\<not> contains ''youtube.com'' (netloc p)"
    "\<not> contains ''youtu.be'' (netloc p)"
  shows "extract_video_id L url = Inr (if re_match_video_id url then Some url else None)"
  using assms by (simp add: extract_video_id_def)

lemma extract_bare:
  assumes "canonical_id v"
  shows "extract_video_id L v = Inr (Some v)"
proof -
  obtain q where q: "urlparse L v = Inr q" "netloc q = []"
    using urlparse_no_slash [OF canonical_no_slash [OF assms]] by blast
  have "re_match_video_id v"
    using assms by (simp add: re_match_video_id_def canonical_id_def)
  then show ?thesis
    using extract_no_host [of L v q] q by simp
qed

lemma unquote_ascii_plain: "CHR ''%'' \<notin> set s \<Longrightarrow> unquote_ascii s = s"
  by (induction s rule: unquote_ascii.induct) auto

lemma ascii_lib_keeps_plain: "unquote_keeps_plain ascii_lib"
  by (simp add: unquote_keeps_plain_def ascii_lib_def unquote_ascii_plain)

lemma require_of_none:
  "extract_video_id L url = Inr None \<Longrightarrow>
   require_video_id L url = Inl (ValueError (''Could not extract video ID from URL: '' @ url))"
  by (simp add: require_video_id_def)

lemma partition_str_char:
  "partition_str [c] s =
     (if c \<in> set s then Some (takeWhile (\<lambda>x. x \<noteq> c) s, tl (dropWhile (\<lambda>x. x \<noteq> c) s))
      else None)"
  by (induction s) auto

lemma takeWhile_absent: "c \<notin> set s \<Longrightarrow> takeWhile (\<lambda>x. x \<noteq> c) s = s"
  by (induction s) auto

lemma takeWhile_upto: "c \<notin> set a \<Longrightarrow> takeWhile (\<lambda>x. x \<noteq> c) (a @ c # b) = a"
  by (induction a) auto

lemma dropWhile_upto: "c \<notin> set a \<Longrightarrow> dropWhile (\<lambda>x. x \<noteq> c) (a @ c # b) = c # b"
  by (induction a) auto

lemma partition_str_here: "sep \<noteq> [] \<Longrightarrow> partition_str sep (sep @ b) = Some ([], b)"
  by (cases sep) auto

lemma split_str_nonempty: "split_str sep s \<noteq> []"
  by (subst split_str.simps) (auto split: option.splits)

lemma hd_split_char: "hd (split_str [c] s) = takeWhile (\<lambda>x. x \<noteq> c) s"
  by (subst split_str.simps) (simp add: partition_str_char takeWhile_absent)

lemma partition_str_parts: "partition_str sep s = Some (a, b) \<Longrightarrow> s = a @ sep @ b"
proof (induction s arbitrary: a)
  case Nil
  then show ?case by simp
next
  case (Cons c cs)
  show ?case
  proof (cases "prefix sep (c # cs)")
    case True
    with Cons.prems show ?thesis
      by (auto simp: prefix_def)
  next
    case False
    with Cons.prems obtain a' where "partition_str sep cs = Some (a', b)" "a = c # a'"
      by (auto split: prod.splits)
    with Cons.IH show ?thesis by simp
  qed
qed

lemma hd_split_parts:
  assumes "sep \<noteq> []"
  shows "\<exists>t. s = hd (split_str sep s) @ t \<and> (t = [] \<or> prefix sep t)"
proof (cases "partition_str sep s")
  case None
  then have "split_str sep s = [s]"
    using assms by (subst split_str.simps) simp
  then show ?thesis by simp
next
  case (Some ab)
  obtain a b where ab: "ab = (a, b)" by (cases ab)
  have "hd (split_str sep s) = a"
    using assms Some ab by (subst split_str.simps) simp
  moreover have "s = a @ sep @ b"
    using partition_str_parts Some ab by simp
  ultimately show ?thesis by auto
qed

lemma takeWhile_before:
  assumes "t = [] \<or> hd t = c"
  shows "takeWhile (\<lambda>x. x \<noteq> c) (a @ t) = takeWhile (\<lambda>x. x \<noteq> c) a"
proof (induction a)
  case Nil
  show ?case using assms by (cases t) auto
next
  case (Cons x xs)
  then show ?case by simp
qed

lemma live_token:
  assumes "CHR ''/'' \<notin> set v" "rest = [] \<or> hd rest = CHR ''/''"
  shows "takeWhile (\<lambda>x. x \<noteq> CHR ''/'') (hd (split_str ''/live/'' (v @ rest))) = v"
proof -
  obtain t where t: "v @ rest = hd (split_str ''/live/'' (v @ rest)) @ t"
    "t = [] \<or> prefix ''/live/'' t"
    using hd_split_parts [of "''/live/''" "v @ rest"] by auto
  have "t = [] \<or> hd t = CHR ''/''"
    using t(2) by (auto simp: prefix_def)
  then have "takeWhile (\<lambda>x. x \<noteq> CHR ''/'') (hd (split_str ''/live/'' (v @ rest)) @ t) =
      takeWhile (\<lambda>x. x \<noteq> CHR ''/'') (hd (split_str ''/live/'' (v @ rest)))"
    by (rule takeWhile_before)
  moreover have "takeWhile (\<lambda>x. x \<noteq> CHR ''/'') (v @ rest) = takeWhile (\<lambda>x. x \<noteq> CHR ''/'') v"
    using assms(2) by (rule takeWhile_before)
  moreover have "takeWhile (\<lambda>x. x \<noteq> CHR ''/'') v = v"
    using assms(1) by (rule takeWhile_absent)
  ultimately show ?thesis
    using t(1) by simp
qed

text \<open>What extraction returns, by the parts of the parsed URL.\<close>

lemma extract_watch_parsed:
  assumes "urlparse L url = Inr p" "contains ''youtube.com'' (netloc p)"
    "contains ''/watch'' (path p)" "map_of (parse_qs L (query p)) ''v'' = Some (v # vs)"
  shows "extract_video_id L url = Inr (Some v)"
  using assms by (simp add: extract_video_id_def index_list_def)

lemma extract_watch_no_parameter:
  assumes "urlparse L url = Inr p" "contains ''youtube.com'' (netloc p)"
    "contains ''/watch'' (path p)" "map_of (parse_qs L (query p)) ''v'' = None"
  shows "extract_video_id L url = Inr None"
  using assms by (simp add: extract_video_id_def)

lemma extract_shorts_parsed:
  assumes "urlparse L url = Inr p" "contains ''youtube.com'' (netloc p)"
    "path p = ''/shorts/'' @ t" "\<not> contains ''/watch'' (CHR ''/'' # t)"
    "\<not> contains ''/shorts/'' t"
  shows "extract_video_id L url = Inr (Some t)"
proof -
  have w: "\<not> contains ''/watch'' (''/shorts/'' @ t)"
    using assms(4) by simp
  have "split_str ''/shorts/'' t = [t]"
    by (subst split_str.simps) (simp add: partition_str_not_contained [OF assms(5)])
  then have s: "split_str ''/shorts/'' (''/shorts/'' @ t) = [[], t]"
    by (subst split_str.simps) simp
  show ?thesis
    unfolding extract_video_id_def assms(1)
    using w assms(2) by (simp add: assms(3) s [simplified] index_list_def)
qed

lemma extract_live_parsed:
  assumes "urlparse L url = Inr p" "contains ''youtube.com'' (netloc p)"
    "path p = ''/live/'' @ v @ rest" "CHR ''/'' \<notin> set v" "rest = [] \<or> hd rest = CHR ''/''"
    "\<not> contains ''/watch'' (path p)" "\<not> contains ''/shorts/'' (path p)"
  shows "extract_video_id L url = Inr (Some v)"
proof -
  define x where "x = hd (split_str ''/live/'' (v @ rest))"
  have x: "takeWhile (\<lambda>c. c \<noteq> CHR ''/'') x = v"
    unfolding x_def by (rule live_token [OF assms(4,5)])
  have "split_str ''/live/'' (''/live/'' @ v @ rest) = [] # split_str ''/live/'' (v @ rest)"
    by (subst split_str.simps) simp
  then have i: "index_list (split_str ''/live/'' (path p)) (Suc 0) = Inr x"
    using split_str_nonempty [of "''/live/''" "v @ rest"]
    by (cases "split_str ''/live/'' (v @ rest)") (simp_all add: assms(3) index_list_def x_def)
  have c: "contains ''/live/'' (path p)"
    by (simp add: assms(3))
  have r: "(if CHR ''/'' \<in> set x then map_sum id Some (index_list (split_str ''/'' x) 0)
            else Inr (Some x)) = Inr (Some v)"
  proof (cases "CHR ''/'' \<in> set x")
    case True
    have "index_list (split_str ''/'' x) 0 = Inr (hd (split_str ''/'' x))"
      using split_str_nonempty [of "''/''" x]
      by (cases "split_str ''/'' x") (simp_all add: index_list_def)
    then show ?thesis
      using True x by (simp add: hd_split_char)
  next
    case False
    then have "takeWhile (\<lambda>c. c \<noteq> CHR ''/'') x = x"
      by (rule takeWhile_absent)
    with x False show ?thesis by simp
  qed
  show ?thesis
    unfolding extract_video_id_def assms(1)
    using assms(2,6,7) c by (simp add: i r)
qed

lemma extract_short_link_parsed:
  assumes "urlparse L url = Inr p" "\<not> contains ''youtube.com'' (netloc p)"
    "contains ''youtu.be'' (netloc p)"
  shows "extract_video_id L url = Inr (Some (drop 1 (path p)))"
  using assms by (simp add: extract_video_id_def)

lemma extract_no_shape:
  assumes "urlparse L url = Inr p" "contains ''youtube.com'' (netloc p)"
    "\<not> contains ''/watch'' (path p)" "\<not> contains ''/shorts/'' (path p)"
    "\<not> contains ''/live/'' (path p)"
  shows "extract_video_id L url = Inr (if re_match_video_id url then Some url else None)"
  using assms by (simp add: extract_video_id_def)


text \<open>The parse of a web URL: scheme, host, path and query are found as written.\<close>

lemma host_text_plain:
  assumes "host_text h"
  shows "CHR ''/'' \<notin> set h" "CHR ''?'' \<notin> set h" "CHR ''#'' \<notin> set h"
    "CHR ''['' \<notin> set h" "CHR '']'' \<notin> set h" "filter (\<lambda>c. \<not> unsafe_url_byte c) h = h"
  using assms by (auto simp: host_text_def list_all_iff filter_id_conv)

lemma split_scheme_web:
  assumes "web_scheme sch"
  shows "split_scheme (sch @ ''://'' @ r) = (sch, ''//'' @ r)"
  using assms
  by (auto simp: web_scheme_def split_scheme_def is_ascii_alpha_def scheme_chars_def
      lower_char_def)

lemma splitnetloc_host:
  assumes "host_text h"
  shows "splitnetloc (''//'' @ h @ ''/'' @ r) = (h, ''/'' @ r)"
proof -
  have "\<And>c. c \<in> set h \<Longrightarrow> \<not> netloc_delim c"
    using host_text_plain(1-3) [OF assms] by (auto simp: netloc_delim_def)
  then show ?thesis
    by (simp add: splitnetloc_def takeWhile_append2 dropWhile_append2 netloc_delim_def)
qed

lemma brackets_host: "host_text h \<Longrightarrow> check_netloc_brackets L h = None"
  using host_text_plain(4,5) by (simp add: check_netloc_brackets_def)

lemma urlsplit_web:
  assumes "web_scheme sch" "host_text h" "path_text pth" "query_string qry"
    and "tail = [] \<and> qry = [] \<or> tail = CHR ''?'' # qry"
  shows "urlsplit L (sch @ ''://'' @ h @ ''/'' @ pth @ tail) =
           Inr (sch, h, ''/'' @ pth, qry, [])"
proof -
  define r where "r = pth @ tail"
  define url where "url = sch @ ''://'' @ h @ ''/'' @ r"
  note hp = host_text_plain [OF assms(2)]
  note pp = path_text_plain [OF assms(3)]
  have qp: "CHR ''#'' \<notin> set qry" "filter (\<lambda>c. \<not> unsafe_url_byte c) qry = qry"
    using assms(4) by (auto simp: query_string_def list_all_iff filter_id_conv)
  have pf: "filter (\<lambda>c. \<not> unsafe_url_byte c) pth = pth"
    using assms(3) by (auto simp: path_text_def list_all_iff filter_id_conv)
  have tf: "filter (\<lambda>c. \<not> unsafe_url_byte c) tail = tail"
    using assms(5) qp(2) by (auto simp: unsafe_url_byte_def)
  have sf: "filter (\<lambda>c. \<not> unsafe_url_byte c) sch = sch"
    using assms(1) by (auto simp: web_scheme_def unsafe_url_byte_def)
  have f1: "dropWhile c0_control_or_space url = url"
    using assms(1) by (auto simp: url_def web_scheme_def c0_control_or_space_def)
  have f2: "filter (\<lambda>c. \<not> unsafe_url_byte c) url = url"
    by (simp add: url_def r_def sf hp(6) pf tf) (simp add: unsafe_url_byte_def)
  have f3: "split_scheme url = (sch, ''//'' @ h @ ''/'' @ r)"
    unfolding url_def by (rule split_scheme_web [OF assms(1)])
  have f4: "splitnetloc (''//'' @ h @ ''/'' @ r) = (h, ''/'' @ r)"
    by (rule splitnetloc_host [OF assms(2)])
  have f5: "take 2 (''//'' @ h @ ''/'' @ r) = ''//''"
    by simp
  have f6: "split_once ''#'' (''/'' @ r) = (''/'' @ r, [])"
    using pp(2) qp(1) assms(5)
    by (auto simp: split_once_def r_def partition_str_char)
  have f7: "split_once ''?'' (''/'' @ r) = (''/'' @ pth, qry)"
    using pp(1) assms(5)
    by (auto simp: split_once_def r_def partition_str_char takeWhile_upto dropWhile_upto)
  have "urlsplit L url = Inr (sch, h, ''/'' @ pth, qry, [])"
    by (simp only: urlsplit_def Let_def f1 f2 f3 prod.case f5 f4 simp_thms if_True
        brackets_host [OF assms(2)] option.case f6 f7)
  then show ?thesis by (simp add: url_def r_def)
qed

lemma urlparse_web:
  assumes "web_scheme sch" "host_text h" "path_text pth" "query_string qry"
    and "tail = [] \<and> qry = [] \<or> tail = CHR ''?'' # qry"
  shows "urlparse L (sch @ ''://'' @ h @ ''/'' @ pth @ tail) =
           Inr \<lparr>scheme = sch, netloc = h, path = ''/'' @ pth, params = [],
                query = qry, fragment = []\<rparr>"
proof -
  have "CHR '';'' \<notin> set (''/'' @ pth)"
    using path_text_plain(3) [OF assms(3)] by simp
  then show ?thesis
    unfolding urlparse_def urlsplit_web [OF assms] by simp
qed

lemma web_url_not_bare: "web_scheme sch \<Longrightarrow> \<not> re_match_video_id (sch @ ''://'' @ r)"
  by (auto simp: web_scheme_def re_match_video_id_def is_id_char_def)

text \<open>The first value of the parameter \<open>v\<close>.\<close>

lemma dict_append_keeps:
  "map_of d k = Some (x # xs) \<Longrightarrow> \<exists>ys. map_of (dict_append d n val) k = Some (x # ys)"
  by (induction d) auto

lemma foldl_dict_keeps:
  "map_of d k = Some (x # xs) \<Longrightarrow>
   \<exists>ys. map_of (foldl (\<lambda>d (n, val). dict_append d n val) d ps) k = Some (x # ys)"
proof (induction ps arbitrary: d xs)
  case Nil
  then show ?case by simp
next
  case (Cons nv ps)
  obtain n val where nv: "nv = (n, val)" by (cases nv)
  obtain ys where "map_of (dict_append d n val) k = Some (x # ys)"
    using dict_append_keeps [OF Cons.prems] by blast
  from Cons.IH [OF this] show ?case by (simp add: nv)
qed

lemma parse_qs_first_v:
  assumes "unquote_keeps_plain L" "v \<noteq> []" "CHR ''&'' \<notin> set v" "CHR ''+'' \<notin> set v"
    "CHR ''%'' \<notin> set v" "extra = [] \<or> hd extra = CHR ''&''"
  shows "\<exists>vs. map_of (parse_qs L (''v='' @ v @ extra)) ''v'' = Some (v # vs)"
proof -
  define q where "q = ''v='' @ v @ extra"
  have u: "unquote_plus L ''v'' = ''v''" "unquote_plus L v = v"
    using assms(1,4,5)
    by (simp_all add: unquote_plus_def unquote_keeps_plain_def replace_str_absent)
  have "takeWhile (\<lambda>x. x \<noteq> CHR ''&'') ((''v='' @ v) @ extra) =
      takeWhile (\<lambda>x. x \<noteq> CHR ''&'') (''v='' @ v)"
    using assms(6) by (rule takeWhile_before)
  also have "\<dots> = ''v='' @ v"
    using assms(3) by (intro takeWhile_absent) simp
  finally have "hd (split_str ''&'' q) = ''v='' @ v"
    by (simp add: hd_split_char q_def)
  then obtain fields where f: "split_str ''&'' q = (''v='' @ v) # fields"
    using split_str_nonempty [of "''&''" q] by (cases "split_str ''&'' q") auto
  have p: "partition_str ''='' (''v='' @ v) = Some (''v'', v)"
    by simp
  have "q \<noteq> []" by (simp add: q_def)
  then obtain ps where "parse_qsl L q = (''v'', v) # ps"
    using assms(2) by (simp add: parse_qsl_def f u)
  then have "parse_qs L q =
      foldl (\<lambda>d (n, val). dict_append d n val) [(''v'', [v])] ps"
    by (simp add: parse_qs_def)
  moreover have "map_of [(''v'', [v])] ''v'' = Some (v # [])" by simp
  ultimately show ?thesis
    using foldl_dict_keeps [of "[(''v'', [v])]" "''v''" v "[]" ps] by (simp add: q_def)
qed

text \<open>What extraction returns on web URLs, for any host text.\<close>

lemma canonical_plain:
  assumes "canonical_id v"
  shows "v \<noteq> []" "CHR ''/'' \<notin> set v" "CHR ''&'' \<notin> set v" "CHR ''+'' \<notin> set v"
    "CHR ''%'' \<notin> set v" "CHR ''#'' \<notin> set v" "path_text v" "query_string v"
proof -
  have l: "list_all is_id_char v" and n: "length v = 11"
    using assms by (simp_all add: canonical_id_def)
  show "v \<noteq> []" using n by auto
  show "CHR ''/'' \<notin> set v" by (rule id_chars_plain(1) [OF l])
  show "CHR ''&'' \<notin> set v" by (rule id_chars_plain(6) [OF l])
  show "CHR ''+'' \<notin> set v" by (rule id_chars_plain(8) [OF l])
  show "CHR ''%'' \<notin> set v" by (rule id_chars_plain(9) [OF l])
  show "CHR ''#'' \<notin> set v" by (rule id_chars_plain(3) [OF l])
  show "path_text v" by (rule canonical_path_text [OF assms])
  show "query_string v"
    unfolding query_string_def list_all_iff
    using l id_char_plain(3,10) by (auto simp: list_all_iff)
qed

lemma extract_watch_web:
  assumes "unquote_keeps_plain L" "web_scheme sch" "host_text h"
    "contains ''youtube.com'' h" "canonical_id v"
    "query_string extra" "extra = [] \<or> hd extra = CHR ''&''"
  shows "extract_video_id L (sch @ ''://'' @ h @ ''/watch?v='' @ v @ extra) = Inr (Some v)"
proof -
  note c = canonical_plain [OF assms(5)]
  have q: "query_string (''v='' @ v @ extra)"
    using c(8) assms(6) by (simp add: query_string_def unsafe_url_byte_def)
  have pt: "path_text ''watch''"
    by (simp add: path_text_def unsafe_url_byte_def)
  have "urlparse L (sch @ ''://'' @ h @ ''/'' @ ''watch'' @ (CHR ''?'' # ''v='' @ v @ extra)) =
      Inr \<lparr>scheme = sch, netloc = h, path = ''/'' @ ''watch'', params = [],
           query = ''v='' @ v @ extra, fragment = []\<rparr>"
    by (rule urlparse_web [OF assms(2,3) pt q]) simp
  then have u: "urlparse L (sch @ ''://'' @ h @ ''/watch?v='' @ v @ extra) =
      Inr \<lparr>scheme = sch, netloc = h, path = ''/watch'', params = [],
           query = ''v='' @ v @ extra, fragment = []\<rparr>"
    by simp
  obtain vs where "map_of (parse_qs L (''v='' @ v @ extra)) ''v'' = Some (v # vs)"
    using parse_qs_first_v [OF assms(1) c(1,3,4,5) assms(7)] by blast
  then show ?thesis
    using extract_watch_parsed [OF u, of v vs] assms(4) by simp
qed

lemma urlparse_web_path:
  assumes "web_scheme sch" "host_text h" "path_text pth"
  shows "urlparse L (sch @ ''://'' @ h @ ''/'' @ pth) =
           Inr \<lparr>scheme = sch, netloc = h, path = ''/'' @ pth, params = [],
                query = [], fragment = []\<rparr>"
proof -
  have "query_string []" by (simp add: query_string_def)
  from urlparse_web [OF assms this, of "[]" L] show ?thesis by simp
qed

lemma extract_shorts_web:
  assumes "web_scheme sch" "host_text h" "contains ''youtube.com'' h" "canonical_id v"
    "\<not> prefix ''watch'' v"
  shows "extract_video_id L (sch @ ''://'' @ h @ ''/shorts/'' @ v) = Inr (Some v)"
proof -
  note c = canonical_plain [OF assms(4)]
  have pt: "path_text (''shorts/'' @ v)"
    using c(7) by (simp add: path_text_def unsafe_url_byte_def)
  have u: "urlparse L (sch @ ''://'' @ h @ ''/shorts/'' @ v) =
      Inr \<lparr>scheme = sch, netloc = h, path = ''/shorts/'' @ v, params = [],
           query = [], fragment = []\<rparr>"
    using urlparse_web_path [OF assms(1,2) pt, of L] by simp
  have w: "\<not> contains ''/watch'' (CHR ''/'' # v)"
    using assms(5) c(2) by (simp add: contains_absent)
  have s: "\<not> contains ''/shorts/'' v"
    using c(2) by (simp add: contains_absent)
  show ?thesis
    using extract_shorts_parsed [OF u _ _ w s] assms(3) by simp
qed

lemma live_path_plain:
  assumes "CHR ''/'' \<notin> set v" "\<not> prefix ''watch'' v"
  shows "\<not> contains ''/watch'' (''/live/'' @ v)" "\<not> contains ''/shorts/'' (''/live/'' @ v)"
  using assms prefix_absent [OF assms(1), of "''shorts/''"]
  by (simp_all add: contains_absent)

lemma extract_live_web:
  assumes "web_scheme sch" "host_text h" "contains ''youtube.com'' h" "canonical_id v"
    "\<not> prefix ''watch'' v"
  shows "extract_video_id L (sch @ ''://'' @ h @ ''/live/'' @ v) = Inr (Some v)"
proof -
  note c = canonical_plain [OF assms(4)]
  have pt: "path_text (''live/'' @ v)"
    using c(7) by (simp add: path_text_def unsafe_url_byte_def)
  have u: "urlparse L (sch @ ''://'' @ h @ ''/live/'' @ v) =
      Inr \<lparr>scheme = sch, netloc = h, path = ''/live/'' @ v, params = [],
           query = [], fragment = []\<rparr>"
    using urlparse_web_path [OF assms(1,2) pt, of L] by simp
  show ?thesis
    using extract_live_parsed [OF u, of v "[]"] assms(3) c(2)
      live_path_plain [OF c(2) assms(5)]
    by simp
qed

lemma extract_short_link_web:
  assumes "web_scheme sch" "host_text h" "\<not> contains ''youtube.com'' h"
    "contains ''youtu.be'' h" "canonical_id v"
  shows "extract_video_id L (sch @ ''://'' @ h @ ''/'' @ v) = Inr (Some v)"
proof -
  note c = canonical_plain [OF assms(5)]
  note u = urlparse_web_path [OF assms(1,2) c(7), of L]
  show ?thesis
    using extract_short_link_parsed [OF u] assms(3,4) by simp
qed

lemma extract_no_shape_web:
  assumes "web_scheme sch" "host_text h" "path_text pth"
    and "\<not> contains ''youtube.com'' h \<and> \<not> contains ''youtu.be'' h \<or>
         contains ''youtube.com'' h \<and> \<not> contains ''/watch'' (''/'' @ pth) \<and>
         \<not> contains ''/shorts/'' (''/'' @ pth) \<and> \<not> contains ''/live/'' (''/'' @ pth)"
  shows "extract_video_id L (sch @ ''://'' @ h @ ''/'' @ pth) = Inr None"
proof -
  note u = urlparse_web_path [OF assms(1-3), of L]
  have n: "\<not> re_match_video_id (sch @ ''://'' @ h @ ''/'' @ pth)"
    by (rule web_url_not_bare [OF assms(1)])
  from assms(4) show ?thesis
  proof
    assume "\<not> contains ''youtube.com'' h \<and> \<not> contains ''youtu.be'' h"
    then show ?thesis
      using extract_no_host [OF u] n by simp
  next
    assume "contains ''youtube.com'' h \<and> \<not> contains ''/watch'' (''/'' @ pth) \<and>
         \<not> contains ''/shorts/'' (''/'' @ pth) \<and> \<not> contains ''/live/'' (''/'' @ pth)"
    then show ?thesis
      using extract_no_shape [OF u] n by simp
  qed
qed

lemma extract_unshaped:
  assumes "urlparse L url = Inr p" "\<not> re_match_video_id url"
    and "\<not> contains ''youtube.com'' (netloc p) \<and> \<not> contains ''youtu.be'' (netloc p) \<or>
         contains ''youtube.com'' (netloc p) \<and> \<not> contains ''/watch'' (path p) \<and>
         \<not> contains ''/shorts/'' (path p) \<and> \<not> contains ''/live/'' (path p)"
  shows "extract_video_id L url = Inr None"
  using assms(3)
proof
  assume "\<not> contains ''youtube.com'' (netloc p) \<and> \<not> contains ''youtu.be'' (netloc p)"
  then show ?thesis
    using extract_no_host [OF assms(1)] assms(2) by simp
next
  assume "contains ''youtube.com'' (netloc p) \<and> \<not> contains ''/watch'' (path p) \<and>
         \<not> contains ''/shorts/'' (path p) \<and> \<not> contains ''/live/'' (path p)"
  then show ?thesis
    using extract_no_shape [OF assms(1)] assms(2) by simp
qed

text \<open>
  Claim C1, as amended. Let \<open>v\<close> be a canonical token, eleven characters of
  \<open>[a-zA-Z0-9_-]\<close>. Extraction gives \<open>v\<close> on \<open>v\<close> itself and on every input that
  \<open>urlparse\<close> parses with
  \<^item> a host containing \<open>youtube.com\<close>, a path containing \<open>/watch\<close>, and \<open>v\<close> as the
    first value of the query parameter \<open>v\<close>;
  \<^item> a host containing \<open>youtube.com\<close> and the path \<open>/shorts/<v>\<close>, when \<open>v\<close> does not
    begin with \<open>watch\<close>;
  \<^item> a host containing \<open>youtube.com\<close> and a path \<open>/live/<v>\<close>, alone or followed by
    further components, that contains neither \<open>/watch\<close> nor \<open>/shorts/\<close>;
  \<^item> a host containing \<open>youtu.be\<close> and not \<open>youtube.com\<close>, and the path \<open>/<v>\<close>.

  In particular, for the scheme \<open>http\<close> or \<open>https\<close> and any host text \<open>h\<close>, it gives
  \<open>v\<close> on \<open>sch://h/watch?v=<v>\<close>, also when further parameters follow, and, when \<open>v\<close>
  does not begin with \<open>watch\<close>, on \<open>sch://h/shorts/<v>\<close> and \<open>sch://h/live/<v>\<close>, all
  three when \<open>h\<close> contains \<open>youtube.com\<close>; and on \<open>sch://h/<v>\<close> when \<open>h\<close> contains
  \<open>youtu.be\<close> and not \<open>youtube.com\<close>.

  An input of none of these shapes gives no identifier, and the caller raises ValueError:
  a parsed input that the bare-token pattern does not match and whose host contains neither
  \<open>youtube.com\<close> nor \<open>youtu.be\<close>, or whose host contains \<open>youtube.com\<close> and whose path
  contains none of \<open>/watch\<close>, \<open>/shorts/\<close>, \<open>/live/\<close>; a watch URL on such a host
  without a parameter \<open>v\<close>; in particular every \<open>http\<close> or \<open>https\<close> URL with such a host
  and path, and every input without a slash that the pattern does not match.
\<close>

theorem extraction_of_supported_shapes:
  assumes "unquote_keeps_plain L"
  shows "(canonical_id v \<longrightarrow>
            extract_video_id L v = Inr (Some v) \<and>
            (urlparse L url = Inr p \<longrightarrow>
               (contains ''youtube.com'' (netloc p) \<and> contains ''/watch'' (path p) \<and>
                map_of (parse_qs L (query p)) ''v'' = Some (v # vs) \<longrightarrow>
                  extract_video_id L url = Inr (Some v)) \<and>
               (contains ''youtube.com'' (netloc p) \<and> path p = ''/shorts/'' @ v \<and>
                \<not> prefix ''watch'' v \<longrightarrow>
                  extract_video_id L url = Inr (Some v)) \<and>
               (contains ''youtube.com'' (netloc p) \<and> path p = ''/live/'' @ v @ rest \<and>
                (rest = [] \<or> hd rest = CHR ''/'') \<and>
                \<not> contains ''/watch'' (path p) \<and> \<not> contains ''/shorts/'' (path p) \<longrightarrow>
                  extract_video_id L url = Inr (Some v)) \<and>
               (\<not> contains ''youtube.com'' (netloc p) \<and> contains ''youtu.be'' (netloc p) \<and>
                path p = ''/'' @ v \<longrightarrow>
                  extract_video_id L url = Inr (Some v))) \<and>
            (web_scheme sch \<and> host_text h \<longrightarrow>
               (contains ''youtube.com'' h \<and> query_string extra \<and>
                (extra = [] \<or> hd extra = CHR ''&'') \<longrightarrow>
                  extract_video_id L (sch @ ''://'' @ h @ ''/watch?v='' @ v @ extra) =
                    Inr (Some v)) \<and>
               (contains ''youtube.com'' h \<and> \<not> prefix ''watch'' v \<longrightarrow>
                  extract_video_id L (sch @ ''://'' @ h @ ''/shorts/'' @ v) = Inr (Some v) \<and>
                  extract_video_id L (sch @ ''://'' @ h @ ''/live/'' @ v) = Inr (Some v)) \<and>
               (\<not> contains ''youtube.com'' h \<and> contains ''youtu.be'' h \<longrightarrow>
                  extract_video_id L (sch @ ''://'' @ h @ ''/'' @ v) = Inr (Some v)))) \<and>
         (urlparse L url = Inr p \<and> \<not> re_match_video_id url \<and>
          (\<not> contains ''youtube.com'' (netloc p) \<and> \<not> contains ''youtu.be'' (netloc p) \<or>
           contains ''youtube.com'' (netloc p) \<and> \<not> contains ''/watch'' (path p) \<and>
           \<not> contains ''/shorts/'' (path p) \<and> \<not> contains ''/live/'' (path p)) \<longrightarrow>
            extract_video_id L url = Inr None \<and>
            require_video_id L url =
              Inl (ValueError (''Could not extract video ID from URL: '' @ url))) \<and>
         (urlparse L url = Inr p \<and> contains ''youtube.com'' (netloc p) \<and>
          contains ''/watch'' (path p) \<and> map_of (parse_qs L (query p)) ''v'' = None \<longrightarrow>
            extract_video_id L url = Inr None \<and>
            require_video_id L url =
              Inl (ValueError (''Could not extract video ID from URL: '' @ url))) \<and>
         (web_scheme sch \<and> host_text h \<and> path_text pth \<and>
          (\<not> contains ''youtube.com'' h \<and> \<not> contains ''youtu.be'' h \<or>
           contains ''youtube.com'' h \<and> \<not> contains ''/watch'' (''/'' @ pth) \<and>
           \<not> contains ''/shorts/'' (''/'' @ pth) \<and> \<not> contains ''/live/'' (''/'' @ pth)) \<longrightarrow>
            extract_video_id L (sch @ ''://'' @ h @ ''/'' @ pth) = Inr None \<and>
            require_video_id L (sch @ ''://'' @ h @ ''/'' @ pth) =
              Inl (ValueError (''Could not extract video ID from URL: '' @
                               sch @ ''://'' @ h @ ''/'' @ pth))) \<and>
         (CHR ''/'' \<notin> set plain \<and> \<not> re_match_video_id plain \<longrightarrow>
            extract_video_id L plain = Inr None \<and>
            require_video_id L plain =
              Inl (ValueError (''Could not extract video ID from URL: '' @ plain)))"
proof (intro conjI impI)
  assume c: "canonical_id v"
  show "extract_video_id L v = Inr (Some v)"
    by (rule extract_bare [OF c])
  {
    assume u: "urlparse L url = Inr p"
    {
      assume "contains ''youtube.com'' (netloc p) \<and> contains ''/watch'' (path p) \<and>
                map_of (parse_qs L (query p)) ''v'' = Some (v # vs)"
      then show "extract_video_id L url = Inr (Some v)"
        using extract_watch_parsed [OF u, of v vs] by blast
    }
    {
      assume a: "contains ''youtube.com'' (netloc p) \<and> path p = ''/shorts/'' @ v \<and>
                \<not> prefix ''watch'' v"
      have "\<not> contains ''/watch'' (CHR ''/'' # v)" "\<not> contains ''/shorts/'' v"
        using a canonical_plain(2) [OF c] by (simp_all add: contains_absent)
      then show "extract_video_id L url = Inr (Some v)"
        using extract_shorts_parsed [OF u, of v] a by blast
    }
    {
      assume "contains ''youtube.com'' (netloc p) \<and> path p = ''/live/'' @ v @ rest \<and>
                (rest = [] \<or> hd rest = CHR ''/'') \<and>
                \<not> contains ''/watch'' (path p) \<and> \<not> contains ''/shorts/'' (path p)"
      then show "extract_video_id L url = Inr (Some v)"
        using extract_live_parsed [OF u, of v rest] canonical_plain(2) [OF c] by blast
    }
    {
      assume "\<not> contains ''youtube.com'' (netloc p) \<and> contains ''youtu.be'' (netloc p) \<and>
                path p = ''/'' @ v"
      then show "extract_video_id L url = Inr (Some v)"
        using extract_short_link_parsed [OF u] by simp
    }
  }
  {
    assume w: "web_scheme sch \<and> host_text h"
    {
      assume "contains ''youtube.com'' h \<and> query_string extra \<and>
                (extra = [] \<or> hd extra = CHR ''&'')"
      then show "extract_video_id L (sch @ ''://'' @ h @ ''/watch?v='' @ v @ extra) =
          Inr (Some v)"
        using extract_watch_web [OF assms, of sch h v extra] w c by blast
    }
    {
      assume a: "contains ''youtube.com'' h \<and> \<not> prefix ''watch'' v"
      show "extract_video_id L (sch @ ''://'' @ h @ ''/shorts/'' @ v) = Inr (Some v)"
        using extract_shorts_web [of sch h v L] w c a by blast
      show "extract_video_id L (sch @ ''://'' @ h @ ''/live/'' @ v) = Inr (Some v)"
        using extract_live_web [of sch h v L] w c a by blast
    }
    {
      assume "\<not> contains ''youtube.com'' h \<and> contains ''youtu.be'' h"
      then show "extract_video_id L (sch @ ''://'' @ h @ ''/'' @ v) = Inr (Some v)"
        using extract_short_link_web [of sch h v L] w c by blast
    }
  }
next
  assume "urlparse L url = Inr p \<and> \<not> re_match_video_id url \<and>
          (\<not> contains ''youtube.com'' (netloc p) \<and> \<not> contains ''youtu.be'' (netloc p) \<or>
           contains ''youtube.com'' (netloc p) \<and> \<not> contains ''/watch'' (path p) \<and>
           \<not> contains ''/shorts/'' (path p) \<and> \<not> contains ''/live/'' (path p))"
  then show e: "extract_video_id L url = Inr None"
    using extract_unshaped [of L url p] by blast
  show "require_video_id L url =
          Inl (ValueError (''Could not extract video ID from URL: '' @ url))"
    by (rule require_of_none [OF e])
next
  assume "urlparse L url = Inr p \<and> contains ''youtube.com'' (netloc p) \<and>
          contains ''/watch'' (path p) \<and> map_of (parse_qs L (query p)) ''v'' = None"
  then show e: "extract_video_id L url = Inr None"
    using extract_watch_no_parameter [of L url p] by blast
  show "require_video_id L url =
          Inl (ValueError (''Could not extract video ID from URL: '' @ url))"
    by (rule require_of_none [OF e])
next
  assume "web_scheme sch \<and> host_text h \<and> path_text pth \<and>
          (\<not> contains ''youtube.com'' h \<and> \<not> contains ''youtu.be'' h \<or>
           contains ''youtube.com'' h \<and> \<not> contains ''/watch'' (''/'' @ pth) \<and>
           \<not> contains ''/shorts/'' (''/'' @ pth) \<and> \<not> contains ''/live/'' (''/'' @ pth))"
  then show e: "extract_video_id L (sch @ ''://'' @ h @ ''/'' @ pth) = Inr None"
    using extract_no_shape_web [of sch h pth L] by blast
  show "require_video_id L (sch @ ''://'' @ h @ ''/'' @ pth) =
          Inl (ValueError (''Could not extract video ID from URL: '' @
                           sch @ ''://'' @ h @ ''/'' @ pth))"
    by (rule require_of_none [OF e])
next
  assume h: "CHR ''/'' \<notin> set plain \<and> \<not> re_match_video_id plain"
  then obtain q where q: "urlparse L plain = Inr q" "netloc q = []"
    using urlparse_no_slash [of plain L] by blast
  then show e: "extract_video_id L plain = Inr None"
    using h extract_no_host [of L plain q] by simp
  show "require_video_id L plain =
          Inl (ValueError (''Could not extract video ID from URL: '' @ plain))"
    by (rule require_of_none [OF e])
qed

lemma parse_example:
  "urlparse ascii_lib ''https://example.com/clip'' =
     Inr \<lparr>scheme = ''https'', netloc = ''example.com'', path = ''/clip'',
          params = [], query = [], fragment = []\<rparr>"
  by code_simp

lemma parse_shared_watch:
  "urlparse ascii_lib ''https://m.youtube.com/watch?feature=share&v=abcdefghijk'' =
     Inr \<lparr>scheme = ''https'', netloc = ''m.youtube.com'', path = ''/watch'', params = [],
          query = ''feature=share&v=abcdefghijk'', fragment = []\<rparr>"
  by code_simp

lemma query_shared_watch:
  "map_of (parse_qs ascii_lib ''feature=share&v=abcdefghijk'') ''v'' = Some [''abcdefghijk'']"
  by code_simp

lemma parse_live_chat:
  "urlparse ascii_lib ''http://youtube.com/live/abcdefghijk/chat?x=1'' =
     Inr \<lparr>scheme = ''http'', netloc = ''youtube.com'', path = ''/live/abcdefghijk/chat'',
          params = [], query = ''x=1'', fragment = []\<rparr>"
  by code_simp

lemma parse_channel:
  "urlparse ascii_lib ''https://www.youtube.com/channel/abc'' =
     Inr \<lparr>scheme = ''https'', netloc = ''www.youtube.com'', path = ''/channel/abc'',
          params = [], query = [], fragment = []\<rparr>"
  by code_simp

lemma parse_playlist:
  "urlparse ascii_lib ''https://www.youtube.com/watch?list=PL1'' =
     Inr \<lparr>scheme = ''https'', netloc = ''www.youtube.com'', path = ''/watch'',
          params = [], query = ''list=PL1'', fragment = []\<rparr>"
  by code_simp

lemma query_playlist: "map_of (parse_qs ascii_lib ''list=PL1'') ''v'' = None"
  by code_simp

text \<open>C1 at the token \<open>abcdefghijk\<close>: a watch URL on the mobile host with another
  parameter first, a live URL with a further path component, URLs of the four shapes on
  other hosts and with the scheme \<open>http\<close>; and, rejected, a channel URL, a watch URL
  without the parameter, a URL of another site and a text without a slash.\<close>

theorem extraction_of_supported_shapes_witness:
  "canonical_id ''abcdefghijk'' \<and> \<not> prefix ''watch'' ''abcdefghijk'' \<and>
   extract_video_id ascii_lib ''abcdefghijk'' = Inr (Some ''abcdefghijk'') \<and>
   extract_video_id ascii_lib ''https://m.youtube.com/watch?feature=share&v=abcdefghijk'' =
     Inr (Some ''abcdefghijk'') \<and>
   extract_video_id ascii_lib ''http://youtube.com/live/abcdefghijk/chat?x=1'' =
     Inr (Some ''abcdefghijk'') \<and>
   web_scheme ''http'' \<and> host_text ''music.youtube.com'' \<and> query_string ''&t=10s'' \<and>
   extract_video_id ascii_lib ''http://music.youtube.com/watch?v=abcdefghijk&t=10s'' =
     Inr (Some ''abcdefghijk'') \<and>
   extract_video_id ascii_lib ''http://music.youtube.com/shorts/abcdefghijk'' =
     Inr (Some ''abcdefghijk'') \<and>
   extract_video_id ascii_lib ''http://music.youtube.com/live/abcdefghijk'' =
     Inr (Some ''abcdefghijk'') \<and>
   web_scheme ''https'' \<and> host_text ''youtu.be'' \<and>
   extract_video_id ascii_lib ''https://youtu.be/abcdefghijk'' = Inr (Some ''abcdefghijk'') \<and>
   \<not> re_match_video_id ''https://www.youtube.com/channel/abc'' \<and>
   require_video_id ascii_lib ''https://www.youtube.com/channel/abc'' =
     Inl (ValueError ''Could not extract video ID from URL: https://www.youtube.com/channel/abc'') \<and>
   require_video_id ascii_lib ''https://www.youtube.com/watch?list=PL1'' =
     Inl (ValueError
           ''Could not extract video ID from URL: https://www.youtube.com/watch?list=PL1'') \<and>
   host_text ''example.com'' \<and> path_text ''clip'' \<and>
   require_video_id ascii_lib ''https://example.com/clip'' =
     Inl (ValueError ''Could not extract video ID from URL: https://example.com/clip'') \<and>
   CHR ''/'' \<notin> set ''not a url'' \<and> \<not> re_match_video_id ''not a url'' \<and>
   require_video_id ascii_lib ''not a url'' =
     Inl (ValueError ''Could not extract video ID from URL: not a url'')"
proof -
  note t = extraction_of_supported_shapes [OF ascii_lib_keeps_plain]
  have c: "canonical_id ''abcdefghijk''" by code_simp
  have w: "\<not> prefix ''watch'' ''abcdefghijk''" by simp
  have s: "web_scheme ''http''" "web_scheme ''https''"
    by (simp_all add: web_scheme_def)
  have h: "host_text ''music.youtube.com''" "host_text ''youtu.be''" "host_text ''example.com''"
    by (simp_all add: host_text_def unsafe_url_byte_def)
  have q: "query_string ''&t=10s''" "path_text ''clip''"
    by (simp_all add: query_string_def path_text_def unsafe_url_byte_def)
  have r: "\<not> re_match_video_id ''https://www.youtube.com/channel/abc''"
    "\<not> re_match_video_id ''not a url''"
    by code_simp+
  have n: "CHR ''/'' \<notin> set ''not a url''" by simp
  have e1: "extract_video_id ascii_lib ''abcdefghijk'' = Inr (Some ''abcdefghijk'')"
    using t [where v = "''abcdefghijk''"] c by blast
  have e2: "extract_video_id ascii_lib
        ''https://m.youtube.com/watch?feature=share&v=abcdefghijk'' = Inr (Some ''abcdefghijk'')"
    using t [where v = "''abcdefghijk''" and vs = "[]"
        and url = "''https://m.youtube.com/watch?feature=share&v=abcdefghijk''"
        and p = "\<lparr>scheme = ''https'', netloc = ''m.youtube.com'', path = ''/watch'',
                  params = [], query = ''feature=share&v=abcdefghijk'', fragment = []\<rparr>"]
      c parse_shared_watch query_shared_watch
    by simp
  have e3: "extract_video_id ascii_lib ''http://youtube.com/live/abcdefghijk/chat?x=1'' =
        Inr (Some ''abcdefghijk'')"
    using t [where v = "''abcdefghijk''" and rest = "''/chat''"
        and url = "''http://youtube.com/live/abcdefghijk/chat?x=1''"
        and p = "\<lparr>scheme = ''http'', netloc = ''youtube.com'',
                  path = ''/live/abcdefghijk/chat'', params = [], query = ''x=1'',
                  fragment = []\<rparr>"]
      c parse_live_chat
    by simp
  have e4: "extract_video_id ascii_lib ''http://music.youtube.com/watch?v=abcdefghijk&t=10s'' =
        Inr (Some ''abcdefghijk'')"
    "extract_video_id ascii_lib ''http://music.youtube.com/shorts/abcdefghijk'' =
        Inr (Some ''abcdefghijk'')"
    "extract_video_id ascii_lib ''http://music.youtube.com/live/abcdefghijk'' =
        Inr (Some ''abcdefghijk'')"
    using t [where v = "''abcdefghijk''" and sch = "''http''" and h = "''music.youtube.com''"
        and extra = "''&t=10s''"]
      c w s(1) h(1) q(1)
    by simp_all
  have e5: "extract_video_id ascii_lib ''https://youtu.be/abcdefghijk'' =
        Inr (Some ''abcdefghijk'')"
    using t [where v = "''abcdefghijk''" and sch = "''https''" and h = "''youtu.be''"]
      c s(2) h(2)
    by simp
  have e6: "require_video_id ascii_lib ''https://www.youtube.com/channel/abc'' =
     Inl (ValueError ''Could not extract video ID from URL: https://www.youtube.com/channel/abc'')"
    using t [where url = "''https://www.youtube.com/channel/abc''"
        and p = "\<lparr>scheme = ''https'', netloc = ''www.youtube.com'', path = ''/channel/abc'',
                  params = [], query = [], fragment = []\<rparr>"]
      parse_channel r(1)
    by simp
  have e7: "require_video_id ascii_lib ''https://www.youtube.com/watch?list=PL1'' =
     Inl (ValueError
           ''Could not extract video ID from URL: https://www.youtube.com/watch?list=PL1'')"
    using t [where url = "''https://www.youtube.com/watch?list=PL1''"
        and p = "\<lparr>scheme = ''https'', netloc = ''www.youtube.com'', path = ''/watch'',
                  params = [], query = ''list=PL1'', fragment = []\<rparr>"]
      parse_playlist query_playlist
    by simp
  have e8: "require_video_id ascii_lib ''https://example.com/clip'' =
     Inl (ValueError ''Could not extract video ID from URL: https://example.com/clip'')"
    using t [where sch = "''https''" and h = "''example.com''" and pth = "''clip''"]
      s(2) h(3) q(2)
    by simp
  have e9: "require_video_id ascii_lib ''not a url'' =
     Inl (ValueError ''Could not extract video ID from URL: not a url'')"
    using t [where plain = "''not a url''"] n r(2) by simp
  show ?thesis
    using c w s h q r n e1 e2 e3 e4 e5 e6 e7 e8 e9 by simp
qed

text \<open>
  Claim C1, as stated, fails: a short link with a one-character path is a supported URL
  shape, and extraction succeeds on it with a token that is not canonical.
\<close>

theorem short_link_token_not_validated:
  "extract_video_id ascii_lib ''https://youtu.be/x'' = Inr (Some ''x'') \<and>
   require_video_id ascii_lib ''https://youtu.be/x'' = Inr ''x'' \<and>
   \<not> canonical_id ''x''"
  by code_simp

text \<open>
  Claim C9. The eleven-character format is checked only where no YouTube host was
  parsed: there the input is returned only if the bare-token pattern matches it. On the
  four URL shapes the selected text \<open>t\<close> is returned as it is, whatever its length and
  characters (as far as \<open>urlparse\<close> leaves it whole): after \<open>watch?v=\<close>, after
  \<open>youtu.be/\<close>, after \<open>/shorts/\<close> and after \<open>/live/\<close>. So a \<open>/shorts/\<close> URL
  with a trailing path component gives a token that contains a slash and is not canonical.
\<close>

theorem url_shapes_return_unvalidated_text:
  assumes "unquote_keeps_plain L"
  shows "(urlparse L url = Inr p \<and> \<not> contains ''youtube.com'' (netloc p) \<and>
          \<not> contains ''youtu.be'' (netloc p) \<longrightarrow>
            extract_video_id L url = Inr (if re_match_video_id url then Some url else None)) \<and>
         (query_text t1 \<and> t1 \<noteq> [] \<longrightarrow>
            extract_video_id L (''https://www.youtube.com/watch?v='' @ t1) = Inr (Some t1)) \<and>
         (path_text t2 \<longrightarrow>
            extract_video_id L (''https://youtu.be/'' @ t2) = Inr (Some t2)) \<and>
         (path_text t3 \<and> \<not> contains ''/watch'' (CHR ''/'' # t3) \<and> \<not> contains ''/shorts/'' t3 \<longrightarrow>
            extract_video_id L (''https://www.youtube.com/shorts/'' @ t3) = Inr (Some t3)) \<and>
         (path_text t4 \<and> CHR ''/'' \<notin> set t4 \<and> \<not> prefix ''watch'' t4 \<longrightarrow>
            extract_video_id L (''https://www.youtube.com/live/'' @ t4) = Inr (Some t4)) \<and>
         extract_video_id L ''https://www.youtube.com/shorts/abcdefghijk/extra'' =
           Inr (Some ''abcdefghijk/extra'') \<and>
         CHR ''/'' \<in> set ''abcdefghijk/extra'' \<and> \<not> canonical_id ''abcdefghijk/extra''"
proof (intro conjI impI)
  assume "urlparse L url = Inr p \<and> \<not> contains ''youtube.com'' (netloc p) \<and>
          \<not> contains ''youtu.be'' (netloc p)"
  then show "extract_video_id L url = Inr (if re_match_video_id url then Some url else None)"
    using extract_no_host [of L url p] by blast
next
  assume "query_text t1 \<and> t1 \<noteq> []"
  then show "extract_video_id L (''https://www.youtube.com/watch?v='' @ t1) = Inr (Some t1)"
    using extract_watch_any [OF assms, of t1] by blast
next
  assume "path_text t2"
  then show "extract_video_id L (''https://youtu.be/'' @ t2) = Inr (Some t2)"
    by (rule extract_short_link_any)
next
  assume "path_text t3 \<and> \<not> contains ''/watch'' (CHR ''/'' # t3) \<and> \<not> contains ''/shorts/'' t3"
  then show "extract_video_id L (''https://www.youtube.com/shorts/'' @ t3) = Inr (Some t3)"
    using extract_shorts_any [of t3 L] by blast
next
  assume "path_text t4 \<and> CHR ''/'' \<notin> set t4 \<and> \<not> prefix ''watch'' t4"
  then show "extract_video_id L (''https://www.youtube.com/live/'' @ t4) = Inr (Some t4)"
    using extract_live_any [of t4 L] by blast
next
  have "path_text ''abcdefghijk/extra''"
    by (simp add: path_text_def unsafe_url_byte_def)
  moreover have "\<not> contains ''/watch'' (CHR ''/'' # ''abcdefghijk/extra'')"
    and "\<not> contains ''/shorts/'' ''abcdefghijk/extra''"
    by simp_all
  ultimately show "extract_video_id L ''https://www.youtube.com/shorts/abcdefghijk/extra'' =
      Inr (Some ''abcdefghijk/extra'')"
    using extract_shorts_any [of "''abcdefghijk/extra''" L] by simp
next
  show "CHR ''/'' \<in> set ''abcdefghijk/extra''" by simp
  show "\<not> canonical_id ''abcdefghijk/extra''" by (simp add: canonical_id_def)
qed

text \<open>The hypotheses of C9 hold at concrete inputs, among them a token of two characters
  and one with a space.\<close>

theorem url_shapes_return_unvalidated_text_witness:
  "\<not> contains ''youtube.com'' ''example.com'' \<and> \<not> contains ''youtu.be'' ''example.com'' \<and>
   extract_video_id ascii_lib ''https://example.com/clip'' = Inr None \<and>
   query_text ''ab'' \<and>
   extract_video_id ascii_lib ''https://www.youtube.com/watch?v=ab'' = Inr (Some ''ab'') \<and>
   path_text ''a b!'' \<and>
   extract_video_id ascii_lib ''https://youtu.be/a b!'' = Inr (Some ''a b!'') \<and>
   path_text ''abcdefghijk/extra'' \<and>
   extract_video_id ascii_lib ''https://www.youtube.com/shorts/abcdefghijk/extra'' =
     Inr (Some ''abcdefghijk/extra'') \<and>
   path_text ''xy'' \<and>
   extract_video_id ascii_lib ''https://www.youtube.com/live/xy'' = Inr (Some ''xy'')"
proof -
  have n: "\<not> contains ''youtube.com'' ''example.com''" "\<not> contains ''youtu.be'' ''example.com''"
    by simp_all
  have r: "\<not> re_match_video_id ''https://example.com/clip''"
    by code_simp
  have t: "query_text ''ab''" "path_text ''a b!''" "path_text ''abcdefghijk/extra''"
    "path_text ''xy''"
    by (simp_all add: query_text_def path_text_def unsafe_url_byte_def)
  have c: "\<not> contains ''/watch'' (CHR ''/'' # ''abcdefghijk/extra'')"
    "\<not> contains ''/shorts/'' ''abcdefghijk/extra''" "CHR ''/'' \<notin> set ''xy''"
    "\<not> prefix ''watch'' ''xy''"
    by simp_all
  show ?thesis
    using url_shapes_return_unvalidated_text [OF ascii_lib_keeps_plain,
        of "''https://example.com/clip''"
           "\<lparr>scheme = ''https'', netloc = ''example.com'', path = ''/clip'',
             params = [], query = [], fragment = []\<rparr>"
           "''ab''" "''a b!''" "''abcdefghijk/extra''" "''xy''"]
      n r t c parse_example
    by simp
qed

section \<open>Properties of the transcript resolver\<close>

lemma scan_tracks_unfetchable:
  assumes "list_all (\<lambda>t. isl (fetch_result t)) ts"
  shows "\<exists>other'. scan_tracks ts other = Inr other' \<and>
           (other' = other \<or> (\<exists>t \<in> set ts. other' = Some t))"
  using assms
proof (induction ts arbitrary: other)
  case Nil
  then show ?case by simp
next
  case (Cons t ts)
  then obtain e where e: "fetch_result t = Inl e"
    by (cases "fetch_result t") auto
  from Cons.prems have rest: "list_all (\<lambda>t. isl (fetch_result t)) ts" by simp
  show ?case
  proof (cases "language_code t = ''en''")
    case True
    with e Cons.IH [OF rest, of other] show ?thesis by auto
  next
    case False
    with Cons.IH [OF rest, of "Some t"] show ?thesis by auto
  qed
qed

lemma scan_tracks_no_english:
  assumes "list_all (\<lambda>t. language_code t \<noteq> ''en'') ts"
  shows "scan_tracks ts other = Inr (if ts = [] then other else Some (last ts))"
  using assms by (induction ts arbitrary: other) auto

lemma use_other_unobtainable:
  assumes "isl (fetch_result t)" "translation_fails t"
  shows "isl (use_other_transcript t)"
  using assms
  by (auto simp: use_other_transcript_def translation_fails_def split: sum.splits)

text \<open>
  Claim C6. For every answer of the caption service the resolver returns a transcript and
  raises nothing; when the default fetch fails and the listing fails, or no listed track
  can be fetched or translated, what it returns is the empty sequence.
\<close>

theorem transcript_resolver_never_raises:
  "(\<exists>result. get_transcript api = Inr result) \<and>
   (no_transcript_obtainable api \<longrightarrow> get_transcript api = Inr [])"
proof
  show "\<exists>result. get_transcript api = Inr result"
    by (simp add: get_transcript_def split: sum.splits)
  show "no_transcript_obtainable api \<longrightarrow> get_transcript api = Inr []"
  proof
    assume n: "no_transcript_obtainable api"
    then obtain e where d: "default_transcript api = Inl e"
      by (cases "default_transcript api") (auto simp: no_transcript_obtainable_def)
    have "transcript_from_listing api = Inr []"
    proof (cases "listed_tracks api")
      case (Inl e')
      then show ?thesis by (simp add: transcript_from_listing_def)
    next
      case (Inr tracks)
      with n have a: "list_all (\<lambda>t. isl (fetch_result t) \<and> translation_fails t) tracks"
        by (simp add: no_transcript_obtainable_def)
      then have "list_all (\<lambda>t. isl (fetch_result t)) tracks"
        by (simp add: list_all_iff)
      from scan_tracks_unfetchable [OF this, of None]
      obtain other' where s: "scan_tracks tracks None = Inr other'"
        and o: "other' = None \<or> (\<exists>t \<in> set tracks. other' = Some t)"
        by blast
      show ?thesis
      proof (cases other')
        case None
        with s Inr show ?thesis by (simp add: transcript_from_listing_def)
      next
        case (Some t)
        with o a have "isl (use_other_transcript t)"
          by (auto simp: list_all_iff intro: use_other_unobtainable)
        then obtain e'' where "use_other_transcript t = Inl e''"
          by (cases "use_other_transcript t") auto
        with s Some Inr show ?thesis by (simp add: transcript_from_listing_def)
      qed
    qed
    with d show "get_transcript api = Inr []"
      by (simp add: get_transcript_def)
  qed
qed

text \<open>C6 at a service whose only track can be neither fetched nor translated.\<close>

theorem transcript_resolver_never_raises_witness:
  "no_transcript_obtainable
     \<lparr>default_transcript = Inl (OtherError ''disabled''), listed_tracks = Inr [broken_track]\<rparr> \<and>
   get_transcript
     \<lparr>default_transcript = Inl (OtherError ''disabled''), listed_tracks = Inr [broken_track]\<rparr>
     = Inr []"
proof -
  have "no_transcript_obtainable
     \<lparr>default_transcript = Inl (OtherError ''disabled''), listed_tracks = Inr [broken_track]\<rparr>"
    by (simp add: no_transcript_obtainable_def broken_track_def translation_fails_def
        translate_and_fetch_def)
  then show ?thesis
    using transcript_resolver_never_raises
      [of "\<lparr>default_transcript = Inl (OtherError ''disabled''),
            listed_tracks = Inr [broken_track]\<rparr>"]
    by simp
qed

text \<open>
  Claim C7. When the default fetch fails and the listing holds tracks none of which is
  English, the candidate is the last track listed. If its translation can be fetched, that
  is the result; if translating or fetching the translation fails, the result is the
  candidate's own transcript (and the empty sequence if that cannot be fetched either).
\<close>

theorem fallback_track_is_translated:
  assumes "default_transcript api = Inl e"
    and "listed_tracks api = Inr tracks"
    and "tracks \<noteq> []"
    and "list_all (\<lambda>t. language_code t \<noteq> ''en'') tracks"
  shows "(translate_result (last tracks) = Inr (Inr translated) \<longrightarrow>
            get_transcript api = Inr translated) \<and>
         (translation_fails (last tracks) \<longrightarrow>
            get_transcript api =
              (case fetch_result (last tracks) of
                 Inr original \<Rightarrow> Inr original
               | Inl fetch_error \<Rightarrow> Inr []))"
proof -
  have s: "scan_tracks tracks None = Inr (Some (last tracks))"
    using scan_tracks_no_english [OF assms(4), of None] assms(3) by simp
  have l: "language_code (last tracks) \<noteq> ''en''"
    using assms(3,4) by (simp add: list_all_iff)
  show ?thesis
    using s l assms(1,2)
    by (auto simp: get_transcript_def transcript_from_listing_def use_other_transcript_def
        translation_fails_def translate_and_fetch_def split: sum.splits)
qed

text \<open>C7 at a service with two non-English tracks, the last of which cannot be
  translated: the result is that track's own transcript.\<close>

theorem fallback_track_is_translated_witness:
  "list_all (\<lambda>t. language_code t \<noteq> ''en'') [broken_track, spanish_track] \<and>
   translation_fails (last [broken_track, spanish_track]) \<and>
   get_transcript
     \<lparr>default_transcript = Inl (OtherError ''disabled''),
      listed_tracks = Inr [broken_track, spanish_track]\<rparr> = Inr [example_entry]"
proof -
  have a: "list_all (\<lambda>t. language_code t \<noteq> ''en'') [broken_track, spanish_track]"
    by (simp add: broken_track_def spanish_track_def)
  have f: "translation_fails (last [broken_track, spanish_track])"
    by (simp add: translation_fails_def translate_and_fetch_def spanish_track_def)
  show ?thesis
    using a f fallback_track_is_translated
      [of "\<lparr>default_transcript = Inl (OtherError ''disabled''),
            listed_tracks = Inr [broken_track, spanish_track]\<rparr>"
          "OtherError ''disabled''" "[broken_track, spanish_track]", OF _ _ _ a]
    by (simp add: spanish_track_def)
qed

section \<open>Properties of the browser session\<close>

lemma session_ok_quit_handle: "session_ok s \<Longrightarrow> session_ok (quit_handle h s)"
  by (auto simp: session_ok_def one_browser_def quit_handle_def)

lemma live_quit_current: "session_ok s \<Longrightarrow> live (quit_current s) = {}"
  by (auto simp: session_ok_def one_browser_def quit_current_def quit_handle_def
      split: option.splits)

lemma session_ok_quit_current: "session_ok s \<Longrightarrow> session_ok (quit_current s)"
  by (auto simp: session_ok_def one_browser_def quit_current_def quit_handle_def
      split: option.splits)

lemma session_ok_start_chrome:
  "session_ok s \<Longrightarrow> live s = {} \<Longrightarrow> session_ok (start_chrome s)"
  by (auto simp: session_ok_def one_browser_def start_chrome_def)

lemma session_ok_close: "session_ok s \<Longrightarrow> session_ok (close_webdriver s)"
  by (auto simp: session_ok_def one_browser_def close_webdriver_def quit_handle_def
      split: option.splits)

lemma session_ok_initialize:
  assumes "session_ok s"
  shows "session_ok (snd (initialize_webdriver l s))"
proof -
  note a = session_ok_quit_current [OF assms] live_quit_current [OF assms]
  note b = session_ok_start_chrome [OF a]
  show ?thesis
    by (cases l) (simp_all add: initialize_webdriver_def Let_def a b session_ok_quit_current)
qed

lemma session_ok_step: "session_ok s \<Longrightarrow> session_ok (session_step s c)"
  by (cases c) (simp_all add: session_ok_initialize session_ok_close session_ok_quit_handle)

lemma session_ok_foldl: "session_ok s \<Longrightarrow> session_ok (foldl session_step s calls)"
  by (induction calls arbitrary: s) (simp_all add: session_ok_step)

lemma session_ok_run: "session_ok (run_session calls)"
  unfolding run_session_def
  by (rule session_ok_foldl) (simp add: session_ok_def one_browser_def new_session_def)

lemma one_browser_card:
  assumes "one_browser s"
  shows "card (live s) \<le> 1"
proof (cases "driver s")
  case None
  with assms show ?thesis by (simp add: one_browser_def)
next
  case (Some h)
  with assms have "live s \<subseteq> {h}" by (simp add: one_browser_def)
  then have "live s = {} \<or> live s = {h}" by blast
  then show ?thesis by auto
qed

text \<open>
  Claim C8. After every sequence of calls on a new session at most one browser is live.
  An acquisition first quits the browser the session holds, so none is live when the new
  one is started; when it returns a handle, that handle is new and is the only live
  browser; when it raises, no browser is live.
\<close>

theorem one_live_browser_per_session:
  "card (live (run_session calls)) \<le> 1 \<and>
   live (quit_current (run_session calls)) = {} \<and>
   (case initialize_webdriver l (run_session calls) of
      (Inr h, s') \<Rightarrow> live s' = {h} \<and> driver s' = Some h \<and> h \<notin> live (run_session calls)
    | (Inl e, s') \<Rightarrow> live s' = {})"
proof -
  define s where "s = run_session calls"
  have ok: "session_ok s" unfolding s_def by (rule session_ok_run)
  have q: "live (quit_current s) = {}" by (rule live_quit_current [OF ok])
  have fr: "fresh (quit_current s) = fresh s"
    by (simp add: quit_current_def quit_handle_def split: option.splits)
  have nl: "fresh s \<notin> live s"
    using ok by (auto simp: session_ok_def one_browser_def)
  have c: "card (live s) \<le> 1"
    using ok by (intro one_browser_card) (simp add: session_ok_def)
  have "case initialize_webdriver l s of
      (Inr h, s') \<Rightarrow> live s' = {h} \<and> driver s' = Some h \<and> h \<notin> live s
    | (Inl e, s') \<Rightarrow> live s' = {}"
  proof (cases l)
    case (LaunchRaises e)
    then show ?thesis
      using live_quit_current [OF session_ok_quit_current [OF ok]]
      by (simp add: initialize_webdriver_def Let_def)
  next
    case (ScriptRaises e)
    then show ?thesis
      using live_quit_current [OF session_ok_start_chrome [OF session_ok_quit_current [OF ok] q]]
      by (simp add: initialize_webdriver_def Let_def)
  next
    case LaunchOk
    then show ?thesis
      using q fr nl by (simp add: initialize_webdriver_def Let_def start_chrome_def)
  qed
  with c q show ?thesis unfolding s_def by simp
qed

text \<open>C8 at two acquisitions in a row: the first browser is quit, the second is the
  only live one.\<close>

theorem one_live_browser_per_session_witness:
  "live (run_session [Acquire LaunchOk]) = {0} \<and>
   initialize_webdriver LaunchOk (run_session [Acquire LaunchOk]) =
     (Inr 1, \<lparr>driver = Some 1, live = {1}, fresh = 2\<rparr>) \<and>
   card (live (run_session [Acquire LaunchOk, Acquire LaunchOk])) \<le> 1"
proof -
  have "run_session [Acquire LaunchOk] = \<lparr>driver = Some 0, live = {0}, fresh = 1\<rparr>"
    by (simp add: run_session_def new_session_def initialize_webdriver_def quit_current_def
        start_chrome_def)
  then show ?thesis
    using one_live_browser_per_session [of "[Acquire LaunchOk, Acquire LaunchOk]" LaunchOk]
    by (simp add: initialize_webdriver_def quit_current_def quit_handle_def start_chrome_def
        numeral_2_eq_2)
qed

section \<open>Properties of the metadata resolver\<close>

lemma scraping_enters:
  "trace (snd (get_video_info_scraping env video_id w)) = trace w @ [ScrapedLookup]"
  by (simp add: get_video_info_scraping_def enter_def quit_browser_def Let_def
      split: prod.splits sum.splits)

lemma api_failure_cases:
  assumes "yt_service cfg env"
  shows "api_response env = Inl e \<Longrightarrow>
           get_video_info_api cfg env video_id w = (Inl e, enter ApiLookup w)"
    and "api_response env = Inr [] \<Longrightarrow>
           get_video_info_api cfg env video_id w =
             (Inl (ValueError (''No video found with ID: '' @ video_id)), enter ApiLookup w)"
  using assms by (simp_all add: get_video_info_api_def)

text \<open>
  Claim C5, as amended. With the service client initialised, a lookup that returns zero
  results raises ValueError inside the service lookup, and like every other failure of
  that lookup it is caught: the resolver goes on to the scraped lookup and returns what
  that returns or raises what that raises. So when both fail the scraping error is
  propagated. The scraped lookup is not entered when the service lookup returns an item.
\<close>

theorem service_failure_falls_back_to_scraping:
  assumes "require_video_id L video_url = Inr video_id"
    and "yt_service cfg env"
  shows "(api_response env = Inr [] \<or> isl (api_response env) \<longrightarrow>
            isl (fst (get_video_info_api cfg env video_id w)) \<and>
            get_video_info L cfg env video_url w =
              get_video_info_scraping env video_id (enter ApiLookup w) \<and>
            trace (snd (get_video_info L cfg env video_url w)) =
              trace w @ [ApiLookup, ScrapedLookup]) \<and>
         (api_response env = Inr [] \<longrightarrow>
            fst (get_video_info_api cfg env video_id w) =
              Inl (ValueError (''No video found with ID: '' @ video_id))) \<and>
         (api_response env = Inr (item # rest) \<longrightarrow>
            get_video_info L cfg env video_url w = get_video_info_api cfg env video_id w \<and>
            \<not> isl (fst (get_video_info L cfg env video_url w)) \<and>
            trace (snd (get_video_info L cfg env video_url w)) = trace w @ [ApiLookup]) \<and>
         (isl (fst (get_video_info_api cfg env video_id w)) \<and>
          fst (get_video_info_scraping env video_id (enter ApiLookup w)) = Inl scraping_error \<longrightarrow>
            fst (get_video_info L cfg env video_url w) = Inl scraping_error)"
proof (intro conjI impI)
  assume f: "api_response env = Inr [] \<or> isl (api_response env)"
  then obtain e where a: "get_video_info_api cfg env video_id w = (Inl e, enter ApiLookup w)"
    using api_failure_cases [OF assms(2)]
    by (cases "api_response env") auto
  then show "isl (fst (get_video_info_api cfg env video_id w))" by simp
  show g: "get_video_info L cfg env video_url w =
      get_video_info_scraping env video_id (enter ApiLookup w)"
    using a assms by (simp add: get_video_info_def)
  show "trace (snd (get_video_info L cfg env video_url w)) = trace w @ [ApiLookup, ScrapedLookup]"
    unfolding g scraping_enters by (simp add: enter_def)
next
  assume "api_response env = Inr []"
  then show "fst (get_video_info_api cfg env video_id w) =
      Inl (ValueError (''No video found with ID: '' @ video_id))"
    using api_failure_cases(2) [OF assms(2)] by simp
next
  assume i: "api_response env = Inr (item # rest)"
  then show g: "get_video_info L cfg env video_url w = get_video_info_api cfg env video_id w"
    using assms by (simp add: get_video_info_def get_video_info_api_def)
  show "\<not> isl (fst (get_video_info L cfg env video_url w))"
    unfolding g using i assms(2) by (simp add: get_video_info_api_def)
  show "trace (snd (get_video_info L cfg env video_url w)) = trace w @ [ApiLookup]"
    unfolding g using i assms(2) by (simp add: get_video_info_api_def enter_def)
next
  assume h: "isl (fst (get_video_info_api cfg env video_id w)) \<and>
     fst (get_video_info_scraping env video_id (enter ApiLookup w)) = Inl scraping_error"
  then have "api_response env = Inr [] \<or> isl (api_response env)"
    using assms(2) by (auto simp: get_video_info_api_def split: sum.splits list.splits)
  then obtain e where a: "get_video_info_api cfg env video_id w = (Inl e, enter ApiLookup w)"
    using api_failure_cases [OF assms(2)]
    by (cases "api_response env") auto
  then have "get_video_info L cfg env video_url w =
      get_video_info_scraping env video_id (enter ApiLookup w)"
    using assms by (simp add: get_video_info_def)
  with h show "fst (get_video_info L cfg env video_url w) = Inl scraping_error" by simp
qed

lemma require_example: "require_video_id ascii_lib ''abcdefghijk'' = Inr ''abcdefghijk''"
  by code_simp

lemma zero_results_run:
  "get_video_info ascii_lib example_config zero_results_env ''abcdefghijk'' empty_world =
     (Inr scraped_example,
      \<lparr>files = [], browser = \<lparr>driver = Some 0, live = {}, fresh = 1\<rparr>, documents = [],
       trace = [ApiLookup, ScrapedLookup]\<rparr>)"
  by (simp add: get_video_info_def require_example yt_service_def example_config_def
      zero_results_env_def get_video_info_api_def get_video_info_scraping_def enter_def
      empty_world_def initialize_webdriver_def new_session_def quit_current_def
      start_chrome_def quit_browser_def quit_handle_def example_page_def scraped_example_def
      replace_str.simps is_digit_def)

text \<open>
  Claim C5, as stated, fails: with a key configured and a lookup that returns zero
  results, the resolver enters the scraped lookup and returns its metadata.
\<close>

theorem zero_results_are_scraped:
  "yt_service example_config zero_results_env \<and>
   api_response zero_results_env = Inr [] \<and>
   fst (get_video_info ascii_lib example_config zero_results_env ''abcdefghijk'' empty_world) =
     Inr scraped_example \<and>
   trace (snd (get_video_info ascii_lib example_config zero_results_env ''abcdefghijk''
                 empty_world)) = [ApiLookup, ScrapedLookup]"
  by (simp add: zero_results_run) (simp add: yt_service_def example_config_def zero_results_env_def)

text \<open>The hypotheses of C5 hold at that run.\<close>

theorem service_failure_falls_back_to_scraping_witness:
  "require_video_id ascii_lib ''abcdefghijk'' = Inr ''abcdefghijk'' \<and>
   yt_service example_config zero_results_env \<and>
   api_response zero_results_env = Inr [] \<and>
   get_video_info ascii_lib example_config zero_results_env ''abcdefghijk'' empty_world =
     get_video_info_scraping zero_results_env ''abcdefghijk'' (enter ApiLookup empty_world) \<and>
   fst (get_video_info_api example_config zero_results_env ''abcdefghijk'' empty_world) =
     Inl (ValueError ''No video found with ID: abcdefghijk'')"
proof -
  have y: "yt_service example_config zero_results_env"
    by (simp add: yt_service_def example_config_def zero_results_env_def)
  have z: "api_response zero_results_env = Inr []"
    by (simp add: zero_results_env_def)
  show ?thesis
    using service_failure_falls_back_to_scraping [OF require_example y, of empty_world] y z
    by (simp add: require_example)
qed

section \<open>Properties of video acquisition\<close>

lemma trace_add_files [simp]: "trace (add_files new w) = trace w"
  by (simp add: add_files_def)

lemma trace_quit_browser [simp]: "trace (quit_browser h w) = trace w"
  by (simp add: quit_browser_def)

lemma files_quit_browser [simp]: "files (quit_browser h w) = files w"
  by (simp add: quit_browser_def)

lemma trace_enter [simp]: "trace (enter s w) = trace w @ [s]"
  by (simp add: enter_def)

lemma trace_collect_download: "collect_download d v w = (a, w') \<Longrightarrow> trace w' = trace w"
  by (auto simp: collect_download_def Let_def split: sum.splits list.splits if_splits)

lemma trace_bulk_extractor:
  "trace (snd (bulk_extractor env d v w)) = trace w @ [BulkExtractor]"
  by (simp add: bulk_extractor_def Let_def split: ytdlp_outcome.splits)

lemma trace_browser_relay:
  "trace (snd (browser_relay env d v w)) = trace w @ [BrowserRelay]"
  by (auto simp: browser_relay_def Let_def dest: trace_collect_download
      split: prod.splits sum.splits relay_outcome.splits)

lemma trace_legacy_stream:
  "trace (snd (legacy_stream env w)) = trace w @ [LegacyStream]"
  by (simp add: legacy_stream_def Let_def split: pytube_outcome.splits)

lemma video_chain_first:
  assumes "bulk_extractor env d v w = (Returned p, w1)"
  shows "video_chain env d v w = (Some p, [], w1)"
  using assms by (simp add: video_chain_def)

lemma video_chain_second:
  assumes "bulk_extractor env d v w = (a1, w1)" "\<not> returned a1"
    and "browser_relay env d v w1 = (Returned p, w2)"
  shows "video_chain env d v w = (Some p, appended a1, w2)"
  using assms by (cases a1) (simp_all add: video_chain_def returned_def)

lemma video_chain_third:
  assumes "bulk_extractor env d v w = (a1, w1)" "\<not> returned a1"
    and "browser_relay env d v w1 = (a2, w2)" "\<not> returned a2"
    and "legacy_stream env w2 = (Returned p, w3)"
  shows "video_chain env d v w = (Some p, appended a1 @ appended a2, w3)"
  using assms by (cases a1; cases a2) (simp_all add: video_chain_def returned_def)

lemma video_chain_none:
  assumes "bulk_extractor env d v w = (a1, w1)" "\<not> returned a1"
    and "browser_relay env d v w1 = (a2, w2)" "\<not> returned a2"
    and "legacy_stream env w2 = (a3, w3)" "\<not> returned a3"
  shows "video_chain env d v w = (None, appended a1 @ appended a2 @ appended a3, w3)"
  using assms by (cases a1; cases a2; cases a3) (simp_all add: video_chain_def returned_def)

lemma download_video_chain:
  assumes "require_video_id L video_url = Inr v" "makedirs_error env = None"
  shows "download_video L cfg env video_url output_path w =
     (case video_chain env (choose_dir cfg output_path v) v w of
        (Some p, errors, w') \<Rightarrow> (Inr p, w')
      | (None, errors, w') \<Rightarrow>
          if \<not> nonempty_file (files w') (path_join (choose_dir cfg output_path v) (v @ ''.mp4''))
          then (Inl (ValueError (video_error_message errors)), w')
          else (Inr (path_join (choose_dir cfg output_path v) (v @ ''.mp4'')), w'))"
  using assms by (simp add: download_video_def Let_def)

lemma select_big_mp4_head:
  assumes "select_big_mp4 fs d names = Inr (f # others)"
  shows "\<exists>n. map_of fs (path_join d f) = Some n \<and> 1000000 < n"
  using assms
proof (induction names arbitrary: f others)
  case Nil
  then show ?case by simp
next
  case (Cons g rest)
  show ?case
  proof (cases "endswith g ''.mp4''")
    case False
    with Cons show ?thesis by simp
  next
    case True
    with Cons.prems obtain n chosen where
      n: "getsize fs (path_join d g) = Inr n" and
      c: "select_big_mp4 fs d rest = Inr chosen" and
      r: "(if 1000000 < n then g # chosen else chosen) = f # others"
      by (auto split: sum.splits)
    show ?thesis
    proof (cases "1000000 < n")
      case True
      with r n show ?thesis by (auto simp: getsize_def split: option.splits)
    next
      case False
      with r c Cons.IH show ?thesis by auto
    qed
  qed
qed

lemma map_of_remove_file: "map_of (remove_file p fs) q = (if q = p then None else map_of fs q)"
  by (induction fs) (auto simp: remove_file_def)

lemma map_of_write_file:
  "map_of (write_file p n fs) q = (if q = p then Some n else map_of fs q)"
  by (simp add: write_file_def map_of_remove_file)

lemma collect_download_returned:
  assumes "collect_download d v w = (Returned p, w')"
  shows "p = path_join d (v @ ''.mp4'') \<and> (\<exists>n. map_of (files w') p = Some n \<and> 1000000 < n)"
proof -
  from assms obtain f others where
    s: "select_big_mp4 (files w) d (listdir (files w) d) = Inr (f # others)"
    by (auto simp: collect_download_def Let_def split: sum.splits list.splits if_splits)
  from select_big_mp4_head [OF s] obtain n where
    n: "map_of (files w) (path_join d f) = Some n" "1000000 < n" by blast
  show ?thesis
  proof (cases "path_join d f = path_join d (v @ ''.mp4'')")
    case True
    with assms s n show ?thesis by (auto simp: collect_download_def Let_def)
  next
    case False
    with assms s n show ?thesis
      by (auto simp: collect_download_def Let_def rename_file_def map_of_write_file)
  qed
qed

lemma browser_relay_returned:
  assumes "browser_relay env d v w = (Returned p, w')"
  shows "p = path_join d (v @ ''.mp4'') \<and> (\<exists>n. map_of (files w') p = Some n \<and> 1000000 < n)"
proof -
  from assms obtain h b w2 where
    c: "collect_download d v (add_files (relay_files env) ((enter BrowserRelay w)\<lparr>browser := b\<rparr>))
          = (Returned p, w2)" and w': "w' = quit_browser h w2"
    by (auto simp: browser_relay_def Let_def split: prod.splits sum.splits relay_outcome.splits)
  from collect_download_returned [OF c] w' show ?thesis by auto
qed

lemma bulk_extractor_returned:
  assumes "bulk_extractor env d v w = (Returned p, w')"
  shows "exists_file (files w') p"
  using assms
  by (auto simp: bulk_extractor_def Let_def split: ytdlp_outcome.splits if_splits)

lemma legacy_stream_returned:
  "legacy_stream env w = (Returned p, w') \<Longrightarrow> nonempty_file (files w') p"
  by (auto simp: legacy_stream_def Let_def split: pytube_outcome.splits if_splits)

lemma bulk_extractor_reported:
  assumes "ytdlp env = YdlInfo requested ext"
    and "nonempty_file (files (add_files (ytdlp_files env) (enter BulkExtractor w)))
           (reported_path d v requested ext)"
  shows "fst (bulk_extractor env d v w) = Returned (reported_path d v requested ext)"
  using assms by (simp add: bulk_extractor_def Let_def nonempty_file_def)

lemma listed_exists:
  assumes "f \<in> set (listdir fs d)"
  shows "map_of fs (path_join d f) \<noteq> None"
proof -
  from assms obtain q n where q: "(q, n) \<in> set fs" "prefix (dir_prefix d) q"
    "f = drop (length (dir_prefix d)) q" "f \<noteq> []" "CHR ''/'' \<notin> set f"
    by (auto simp: listdir_def)
  have "\<not> prefix ''/'' f"
    using q(4,5) by (cases f) auto
  moreover have "dir_prefix d @ f = q"
    using q(2,3) by (auto simp: prefix_def)
  ultimately have "path_join d f = q" by (simp add: path_join_def)
  then show ?thesis
    using q(1) by (metis map_of_eq_None_iff image_eqI fst_conv)
qed

lemma select_big_mp4_filter:
  assumes "\<And>f. f \<in> set names \<Longrightarrow> map_of fs (path_join d f) \<noteq> None"
  shows "select_big_mp4 fs d names = Inr (filter (big_mp4 fs d) names)"
  using assms
proof (induction names)
  case Nil
  then show ?case by simp
next
  case (Cons f rest)
  then obtain n where n: "map_of fs (path_join d f) = Some n" by fastforce
  have r: "select_big_mp4 fs d rest = Inr (filter (big_mp4 fs d) rest)"
    using Cons by simp
  have b: "big_mp4 fs d f = (endswith f ''.mp4'' \<and> 1000000 < n)"
    by (simp add: big_mp4_def n)
  show ?case
    by (simp add: r n getsize_def b)
qed

lemma select_listed:
  "select_big_mp4 fs d (listdir fs d) = Inr (filter (big_mp4 fs d) (listdir fs d))"
  by (rule select_big_mp4_filter) (rule listed_exists)

lemma collect_download_none:
  assumes "\<not> list_ex (big_mp4 (files w) d) (listdir (files w) d)"
  shows "collect_download d v w = (Silent, w)"
proof -
  have "filter (big_mp4 (files w) d) (listdir (files w) d) = []"
    using assms by (simp add: list_ex_iff filter_empty_conv)
  then show ?thesis
    by (simp add: collect_download_def select_listed)
qed

lemma collect_download_some:
  assumes "list_ex (big_mp4 (files w) d) (listdir (files w) d)"
  shows "fst (collect_download d v w) = Returned (path_join d (v @ ''.mp4''))"
proof -
  from assms obtain f others where
    l: "filter (big_mp4 (files w) d) (listdir (files w) d) = f # others"
    by (cases "filter (big_mp4 (files w) d) (listdir (files w) d)")
      (auto simp: list_ex_iff filter_empty_conv)
  then have "f \<in> set (listdir (files w) d)"
    by (metis filter_is_subset list.set_intros(1) subsetD)
  then obtain n where n: "map_of (files w) (path_join d f) = Some n"
    using listed_exists by fastforce
  show ?thesis
    by (simp add: collect_download_def select_listed l Let_def rename_file_def n)
qed

lemma browser_relay_clicked:
  assumes "relay_launch env = LaunchOk" "relay env = RelayClicked"
  shows "\<exists>w1. files w1 = files (add_files (relay_files env) w) \<and>
           fst (browser_relay env d v w) = fst (collect_download d v w1)"
proof -
  define w1 where "w1 = add_files (relay_files env)
      ((enter BrowserRelay w)\<lparr>browser :=
         snd (initialize_webdriver LaunchOk (browser (enter BrowserRelay w)))\<rparr>)"
  have "files w1 = files (add_files (relay_files env) w)"
    by (simp add: w1_def add_files_def enter_def)
  moreover have "fst (browser_relay env d v w) = fst (collect_download d v w1)"
    using assms
    by (simp add: browser_relay_def Let_def w1_def initialize_webdriver_def split: prod.splits)
  ultimately show ?thesis by blast
qed

lemma browser_relay_big:
  assumes "relay_launch env = LaunchOk" "relay env = RelayClicked"
    and "list_ex (big_mp4 (files (add_files (relay_files env) w)) d)
           (listdir (files (add_files (relay_files env) w)) d)"
  shows "fst (browser_relay env d v w) = Returned (path_join d (v @ ''.mp4''))"
proof -
  obtain w1 where w1: "files w1 = files (add_files (relay_files env) w)"
    "fst (browser_relay env d v w) = fst (collect_download d v w1)"
    using browser_relay_clicked [OF assms(1,2)] by blast
  show ?thesis
    using collect_download_some [of w1 d v] assms(3) by (simp add: w1)
qed

lemma browser_relay_silent:
  assumes "relay_launch env = LaunchOk"
    and "relay env = RelayNoButton \<or>
         (relay env = RelayClicked \<and>
          \<not> list_ex (big_mp4 (files (add_files (relay_files env) w)) d)
               (listdir (files (add_files (relay_files env) w)) d))"
  shows "fst (browser_relay env d v w) = Silent"
  using assms(2)
proof
  assume "relay env = RelayNoButton"
  then show ?thesis
    using assms(1)
    by (simp add: browser_relay_def Let_def initialize_webdriver_def split: prod.splits)
next
  assume a: "relay env = RelayClicked \<and>
          \<not> list_ex (big_mp4 (files (add_files (relay_files env) w)) d)
               (listdir (files (add_files (relay_files env) w)) d)"
  then obtain w1 where w1: "files w1 = files (add_files (relay_files env) w)"
    "fst (browser_relay env d v w) = fst (collect_download d v w1)"
    using browser_relay_clicked [OF assms(1)] by blast
  show ?thesis
    using collect_download_none [of w1 d v] a by (simp add: w1)
qed

lemma legacy_stream_downloaded:
  assumes "pytube env = PytubeDownloaded q"
    and "nonempty_file (files (add_files (pytube_files env) (enter LegacyStream w))) q"
  shows "fst (legacy_stream env w) = Returned q"
  using assms by (simp add: legacy_stream_def Let_def)

lemma legacy_stream_silent:
  assumes "pytube env = PytubeNoStream \<or>
           (pytube env = PytubeDownloaded q \<and>
            \<not> nonempty_file (files (add_files (pytube_files env) (enter LegacyStream w))) q)"
  shows "fst (legacy_stream env w) = Silent"
  using assms by (auto simp: legacy_stream_def Let_def)

lemma bulk_extractor_silent:
  "ytdlp env = YdlNoInfo \<Longrightarrow> fst (bulk_extractor env d v w) = Silent"
  by (simp add: bulk_extractor_def Let_def)

lemmas run_defs =
  download_video_def video_chain_def bulk_extractor_def reported_path_def browser_relay_def
  legacy_stream_def collect_download_def choose_dir_def path_join_def dir_prefix_def endswith_def listdir_def
  add_files_def write_files_def write_file_def remove_file_def rename_file_def getsize_def
  exists_file_def nonempty_file_def enter_def quit_browser_def quit_handle_def
  initialize_webdriver_def quit_current_def start_chrome_def new_session_def Let_def

lemma example_dir: "choose_dir example_config None ''abcdefghijk'' = ''downloads/abcdefghijk''"
  by (simp add: choose_dir_def path_join_def dir_prefix_def endswith_def example_config_def)

text \<open>
  Claim C3, as amended. The strategies are entered in the order bulk extractor, browser
  relay, legacy stream, each only if none before it returned, and the function returns
  at the first that returns a file, entering none after it. What makes a strategy return
  differs:
  \<^item> the bulk extractor returns only a file that exists, and it returns the file it
    reports whenever that file exists and is not empty;
  \<^item> the browser relay returns only a \<open>.mp4\<close> file of more than 1,000,000 bytes, under
    the name \<open><id>.mp4\<close>, and it returns one whenever both clicks were made and the
    directory then lists such a file;
  \<^item> the legacy stream returns only a file that exists and is not empty, and it returns
    the file it downloaded whenever that file exists and is not empty.
\<close>

theorem video_strategies_in_priority_order:
  assumes "require_video_id L video_url = Inr v"
    and "makedirs_error env = None"
    and "d = choose_dir cfg output_path v"
    and "bulk_extractor env d v w = (a1, w1)"
    and "browser_relay env d v w1 = (a2, w2)"
    and "legacy_stream env w2 = (a3, w3)"
  shows "(a1 = Returned p \<longrightarrow>
            download_video L cfg env video_url output_path w = (Inr p, w1) \<and>
            trace w1 = trace w @ [BulkExtractor] \<and>
            exists_file (files w1) p) \<and>
         (\<not> returned a1 \<and> a2 = Returned p \<longrightarrow>
            download_video L cfg env video_url output_path w = (Inr p, w2) \<and>
            trace w2 = trace w @ [BulkExtractor, BrowserRelay] \<and>
            p = path_join d (v @ ''.mp4'') \<and>
            (\<exists>n. map_of (files w2) p = Some n \<and> 1000000 < n)) \<and>
         (\<not> returned a1 \<and> \<not> returned a2 \<and> a3 = Returned p \<longrightarrow>
            download_video L cfg env video_url output_path w = (Inr p, w3) \<and>
            trace w3 = trace w @ [BulkExtractor, BrowserRelay, LegacyStream] \<and>
            nonempty_file (files w3) p) \<and>
         (ytdlp env = YdlInfo requested ext \<and>
          nonempty_file (files (add_files (ytdlp_files env) (enter BulkExtractor w)))
            (reported_path d v requested ext) \<longrightarrow>
            a1 = Returned (reported_path d v requested ext)) \<and>
         (relay_launch env = LaunchOk \<and> relay env = RelayClicked \<and>
          list_ex (big_mp4 (files (add_files (relay_files env) w1)) d)
            (listdir (files (add_files (relay_files env) w1)) d) \<longrightarrow>
            a2 = Returned (path_join d (v @ ''.mp4''))) \<and>
         (pytube env = PytubeDownloaded q \<and>
          nonempty_file (files (add_files (pytube_files env) (enter LegacyStream w2))) q \<longrightarrow>
            a3 = Returned q)"
proof -
  have t1: "trace w1 = trace w @ [BulkExtractor]"
    using trace_bulk_extractor [of env d v w] assms(4) by simp
  have t2: "trace w2 = trace w @ [BulkExtractor, BrowserRelay]"
    using trace_browser_relay [of env d v w1] assms(5) t1 by simp
  have t3: "trace w3 = trace w @ [BulkExtractor, BrowserRelay, LegacyStream]"
    using trace_legacy_stream [of env w2] assms(6) t2 by simp
  note dv = download_video_chain [OF assms(1,2), of cfg output_path w, folded assms(3)]
  show ?thesis
  proof (intro conjI impI)
    assume a: "a1 = Returned p"
    with assms(4) have b: "bulk_extractor env d v w = (Returned p, w1)" by simp
    show "download_video L cfg env video_url output_path w = (Inr p, w1)"
      unfolding dv video_chain_first [OF b] by simp
    show "trace w1 = trace w @ [BulkExtractor]" by (rule t1)
    show "exists_file (files w1) p" by (rule bulk_extractor_returned [OF b])
  next
    assume a: "\<not> returned a1 \<and> a2 = Returned p"
    with assms(5) have b: "browser_relay env d v w1 = (Returned p, w2)" by simp
    show "download_video L cfg env video_url output_path w = (Inr p, w2)"
      unfolding dv video_chain_second [OF assms(4) conjunct1 [OF a] b] by simp
    show "trace w2 = trace w @ [BulkExtractor, BrowserRelay]" by (rule t2)
    show "p = path_join d (v @ ''.mp4'')"
      using browser_relay_returned [OF b] by simp
    show "\<exists>n. map_of (files w2) p = Some n \<and> 1000000 < n"
      using browser_relay_returned [OF b] by blast
  next
    assume a: "\<not> returned a1 \<and> \<not> returned a2 \<and> a3 = Returned p"
    with assms(6) have b: "legacy_stream env w2 = (Returned p, w3)" by simp
    from a have n1: "\<not> returned a1" and n2: "\<not> returned a2" by simp_all
    show "download_video L cfg env video_url output_path w = (Inr p, w3)"
      unfolding dv video_chain_third [OF assms(4) n1 assms(5) n2 b] by simp
    show "trace w3 = trace w @ [BulkExtractor, BrowserRelay, LegacyStream]" by (rule t3)
    show "nonempty_file (files w3) p" by (rule legacy_stream_returned [OF b])
  next
    assume "ytdlp env = YdlInfo requested ext \<and>
      nonempty_file (files (add_files (ytdlp_files env) (enter BulkExtractor w)))
        (reported_path d v requested ext)"
    then show "a1 = Returned (reported_path d v requested ext)"
      using bulk_extractor_reported [of env requested ext w d v] assms(4) by simp
  next
    assume "relay_launch env = LaunchOk \<and> relay env = RelayClicked \<and>
      list_ex (big_mp4 (files (add_files (relay_files env) w1)) d)
        (listdir (files (add_files (relay_files env) w1)) d)"
    then show "a2 = Returned (path_join d (v @ ''.mp4''))"
      using browser_relay_big [of env w1 d v] assms(5) by simp
  next
    assume "pytube env = PytubeDownloaded q \<and>
      nonempty_file (files (add_files (pytube_files env) (enter LegacyStream w2))) q"
    then show "a3 = Returned q"
      using legacy_stream_downloaded [of env q w2] assms(6) by simp
  qed
qed

lemma relay_run_big:
  "download_video ascii_lib example_config (relay_env 2000000) ''abcdefghijk'' None empty_world =
     (Inr ''downloads/abcdefghijk/abcdefghijk.mp4'',
      \<lparr>files = [(''downloads/abcdefghijk/abcdefghijk.mp4'', 2000000)],
       browser = \<lparr>driver = Some 0, live = {}, fresh = 1\<rparr>, documents = [],
       trace = [BulkExtractor, BrowserRelay]\<rparr>)"
  by (simp add: require_example run_defs example_config_def relay_env_def empty_world_def)

lemma clip_is_big:
  "list_ex (big_mp4 [(''downloads/abcdefghijk/clip.mp4'', 2000000)] ''downloads/abcdefghijk'')
     (listdir [(''downloads/abcdefghijk/clip.mp4'', 2000000)] ''downloads/abcdefghijk'')"
  by (simp add: big_mp4_def listdir_def dir_prefix_def path_join_def endswith_def)

lemma clip_files:
  "files (add_files (relay_files (relay_env 2000000))
            (snd (bulk_extractor (relay_env 2000000) ''downloads/abcdefghijk''
                       ''abcdefghijk'' empty_world))) =
     [(''downloads/abcdefghijk/clip.mp4'', 2000000)]"
  by (simp add: run_defs relay_env_def empty_world_def)


text \<open>C3 at a run where the extraction tool is blocked and the relay site delivers a
  file of 2,000,000 bytes: the function returns at the second strategy.\<close>

theorem video_strategies_in_priority_order_witness:
  "require_video_id ascii_lib ''abcdefghijk'' = Inr ''abcdefghijk'' \<and>
   makedirs_error (relay_env 2000000) = None \<and>
   \<not> returned (fst (bulk_extractor (relay_env 2000000) ''downloads/abcdefghijk''
                       ''abcdefghijk'' empty_world)) \<and>
   relay_launch (relay_env 2000000) = LaunchOk \<and> relay (relay_env 2000000) = RelayClicked \<and>
   list_ex (big_mp4 [(''downloads/abcdefghijk/clip.mp4'', 2000000)] ''downloads/abcdefghijk'')
     (listdir [(''downloads/abcdefghijk/clip.mp4'', 2000000)] ''downloads/abcdefghijk'') \<and>
   download_video ascii_lib example_config (relay_env 2000000) ''abcdefghijk'' None empty_world =
     (Inr ''downloads/abcdefghijk/abcdefghijk.mp4'',
      \<lparr>files = [(''downloads/abcdefghijk/abcdefghijk.mp4'', 2000000)],
       browser = \<lparr>driver = Some 0, live = {}, fresh = 1\<rparr>, documents = [],
       trace = [BulkExtractor, BrowserRelay]\<rparr>)"
proof -
  define w1 where "w1 = snd (bulk_extractor (relay_env 2000000) ''downloads/abcdefghijk''
                       ''abcdefghijk'' empty_world)"
  define a1 where "a1 = fst (bulk_extractor (relay_env 2000000) ''downloads/abcdefghijk''
                       ''abcdefghijk'' empty_world)"
  define r2 where "r2 = browser_relay (relay_env 2000000) ''downloads/abcdefghijk''
                       ''abcdefghijk'' w1"
  define r3 where "r3 = legacy_stream (relay_env 2000000) (snd r2)"
  have m: "makedirs_error (relay_env 2000000) = None" by (simp add: relay_env_def)
  have k: "relay_launch (relay_env 2000000) = LaunchOk" "relay (relay_env 2000000) = RelayClicked"
    by (simp_all add: relay_env_def)
  have n1: "\<not> returned a1"
    by (simp add: a1_def bulk_extractor_def relay_env_def returned_def)
  have b: "list_ex (big_mp4 (files (add_files (relay_files (relay_env 2000000)) w1))
                      ''downloads/abcdefghijk'')
             (listdir (files (add_files (relay_files (relay_env 2000000)) w1))
                ''downloads/abcdefghijk'')"
    unfolding w1_def clip_files by (rule clip_is_big)
  have p4: "bulk_extractor (relay_env 2000000) ''downloads/abcdefghijk'' ''abcdefghijk''
              empty_world = (a1, w1)"
    by (simp add: a1_def w1_def)
  have p5: "browser_relay (relay_env 2000000) ''downloads/abcdefghijk'' ''abcdefghijk'' w1 =
              (fst r2, snd r2)"
    by (simp add: r2_def)
  have p6: "legacy_stream (relay_env 2000000) (snd r2) = (fst r3, snd r3)"
    by (simp add: r3_def)
  note t = video_strategies_in_priority_order
    [OF require_example m example_dir [symmetric] p4 p5 p6,
      where p = "''downloads/abcdefghijk/abcdefghijk.mp4''"]
  have p: "path_join ''downloads/abcdefghijk'' (''abcdefghijk'' @ ''.mp4'') =
      ''downloads/abcdefghijk/abcdefghijk.mp4''"
    by (simp add: path_join_def dir_prefix_def endswith_def)
  from t have "fst r2 = Returned (path_join ''downloads/abcdefghijk'' (''abcdefghijk'' @ ''.mp4''))"
    using k b by blast
  then have r: "fst r2 = Returned ''downloads/abcdefghijk/abcdefghijk.mp4''"
    by (simp only: p)
  from t have "download_video ascii_lib example_config (relay_env 2000000) ''abcdefghijk'' None
          empty_world = (Inr ''downloads/abcdefghijk/abcdefghijk.mp4'', snd r2)"
    using n1 r by blast
  with n1 m k show ?thesis
    by (simp add: require_example relay_run_big a1_def clip_is_big)
qed

lemma blocked_message:
  "video_error_message [''yt-dlp method failed: blocked''] =
     ''Video download failed after multiple attempts. Errors: yt-dlp method failed: blocked''"
  by code_simp

lemma relay_run_small:
  "download_video ascii_lib example_config (relay_env 500000) ''abcdefghijk'' None empty_world =
     (Inl (ValueError (''Video download failed after multiple attempts. Errors: '' @
                        ''yt-dlp method failed: blocked'')),
      \<lparr>files = [(''downloads/abcdefghijk/clip.mp4'', 500000)],
       browser = \<lparr>driver = Some 0, live = {}, fresh = 1\<rparr>, documents = [],
       trace = [BulkExtractor, BrowserRelay, LegacyStream]\<rparr>)"
  by (simp add: require_example run_defs example_config_def relay_env_def empty_world_def
      blocked_message)

text \<open>
  Claim C3, as stated, fails: the relay strategy leaves a file of 500,000 bytes, which
  exists and is not empty, and the function does not return there; it enters the legacy
  stream strategy and in the end raises.
\<close>

theorem relay_file_below_threshold_is_not_returned:
  "relay_files (relay_env 500000) = [(''downloads/abcdefghijk/clip.mp4'', 500000)] \<and>
   nonempty_file
     (files (snd (download_video ascii_lib example_config (relay_env 500000) ''abcdefghijk''
                    None empty_world)))
     ''downloads/abcdefghijk/clip.mp4'' \<and>
   trace (snd (download_video ascii_lib example_config (relay_env 500000) ''abcdefghijk''
                 None empty_world)) = [BulkExtractor, BrowserRelay, LegacyStream] \<and>
   isl (fst (download_video ascii_lib example_config (relay_env 500000) ''abcdefghijk''
               None empty_world))"
  by (simp add: relay_run_small) (simp add: relay_env_def nonempty_file_def exists_file_def
      getsize_def)

lemma appended_at_most_one: "length (appended a) \<le> 1"
  by (cases a) simp_all

lemma bulk_extractor_raises:
  "ytdlp env = YdlRaises e \<Longrightarrow>
   fst (bulk_extractor env d v w) = Appended (''yt-dlp method failed: '' @ str_exn e)"
  by (simp add: bulk_extractor_def Let_def)

lemma bulk_extractor_not_found:
  assumes "ytdlp env = YdlInfo requested ext" and "\<not> returned (fst (bulk_extractor env d v w))"
  shows "fst (bulk_extractor env d v w) =
     Appended (''yt-dlp method failed: '' @ ''Expected file not found at '' @
               reported_path d v requested ext)"
  using assms by (simp add: bulk_extractor_def Let_def returned_def split: if_splits)

lemma browser_relay_raises:
  assumes "relay_launch env = LaunchRaises e \<or> relay_launch env = ScriptRaises e \<or>
           (relay_launch env = LaunchOk \<and> relay env = RelaySetupRaises e)"
  shows "fst (browser_relay env d v w) = Appended (''Selenium method failed: '' @ str_exn e)"
  using assms
  by (auto simp: browser_relay_def initialize_webdriver_def Let_def)

lemma legacy_stream_raises:
  "pytube env = PytubeRaises e \<Longrightarrow>
   fst (legacy_stream env w) = Appended (''Standard pytube method failed: '' @ str_exn e)"
  "pytube env = PytubeStreamRaises e \<Longrightarrow>
   fst (legacy_stream env w) = Appended (''Pytube stream error: '' @ str_exn e)"
  by (simp_all add: legacy_stream_def Let_def)

text \<open>
  Claim C4, as amended. When no strategy returns a file, all three strategies were
  entered, in priority order: no failure stops the chain. The list \<open>errors\<close> holds, in
  that order, one message for each strategy that failed by an exception raised out of
  its \<open>try\<close> block (for the browser relay: raised while the browser is started or set
  up), made of the strategy's prefix and the text of the exception (for the bulk
  extractor also that the file it reports is not found). A strategy that ends without
  raising adds nothing: the extraction tool returns no information; the relay page lists
  no download button, or both clicks were made and the directory lists no \<open>.mp4\<close> file
  of more than 1,000,000 bytes; the stream library finds no stream, or the file it
  downloaded is missing or empty. So the list has at most three entries, and exactly
  three when every strategy fails by such an exception. If then no non-empty file
  \<open><id>.mp4\<close> is in the directory, ValueError is raised, its message built from this list.
\<close>

theorem failed_strategies_are_logged_in_order:
  assumes "require_video_id L video_url = Inr v"
    and "makedirs_error env = None"
    and "d = choose_dir cfg output_path v"
    and "bulk_extractor env d v w = (a1, w1)"
    and "browser_relay env d v w1 = (a2, w2)"
    and "legacy_stream env w2 = (a3, w3)"
    and "\<not> returned a1" and "\<not> returned a2" and "\<not> returned a3"
  shows "video_chain env d v w = (None, appended a1 @ appended a2 @ appended a3, w3) \<and>
         trace w3 = trace w @ [BulkExtractor, BrowserRelay, LegacyStream] \<and>
         length (appended a1 @ appended a2 @ appended a3) \<le> 3 \<and>
         (\<not> nonempty_file (files w3) (path_join d (v @ ''.mp4'')) \<longrightarrow>
            download_video L cfg env video_url output_path w =
              (Inl (ValueError (video_error_message (appended a1 @ appended a2 @ appended a3))),
               w3)) \<and>
         (ytdlp env = YdlRaises e1 \<longrightarrow>
            appended a1 = [''yt-dlp method failed: '' @ str_exn e1]) \<and>
         (ytdlp env = YdlInfo requested ext \<longrightarrow>
            appended a1 = [''yt-dlp method failed: '' @ ''Expected file not found at '' @
                           reported_path d v requested ext]) \<and>
         (relay_launch env = LaunchRaises e2 \<or> relay_launch env = ScriptRaises e2 \<or>
          (relay_launch env = LaunchOk \<and> relay env = RelaySetupRaises e2) \<longrightarrow>
            appended a2 = [''Selenium method failed: '' @ str_exn e2]) \<and>
         (pytube env = PytubeRaises e3 \<longrightarrow>
            appended a3 = [''Standard pytube method failed: '' @ str_exn e3]) \<and>
         (pytube env = PytubeStreamRaises e3 \<longrightarrow>
            appended a3 = [''Pytube stream error: '' @ str_exn e3]) \<and>
         (ytdlp env = YdlNoInfo \<longrightarrow> appended a1 = []) \<and>
         (relay_launch env = LaunchOk \<and>
          (relay env = RelayNoButton \<or>
           relay env = RelayClicked \<and>
           \<not> list_ex (big_mp4 (files (add_files (relay_files env) w1)) d)
                (listdir (files (add_files (relay_files env) w1)) d)) \<longrightarrow>
            appended a2 = []) \<and>
         (pytube env = PytubeNoStream \<or>
          pytube env = PytubeDownloaded q \<and>
          \<not> nonempty_file (files (add_files (pytube_files env) (enter LegacyStream w2))) q \<longrightarrow>
            appended a3 = [])"
proof -
  have t1: "trace w1 = trace w @ [BulkExtractor]"
    using trace_bulk_extractor [of env d v w] assms(4) by simp
  have t2: "trace w2 = trace w @ [BulkExtractor, BrowserRelay]"
    using trace_browser_relay [of env d v w1] assms(5) t1 by simp
  have t3: "trace w3 = trace w @ [BulkExtractor, BrowserRelay, LegacyStream]"
    using trace_legacy_stream [of env w2] assms(6) t2 by simp
  note dv = download_video_chain [OF assms(1,2), of cfg output_path w, folded assms(3)]
  note vc = video_chain_none [OF assms(4) assms(7) assms(5) assms(8) assms(6) assms(9)]
  have len: "length (appended a1 @ appended a2 @ appended a3) \<le> 3"
    using appended_at_most_one [of a1] appended_at_most_one [of a2]
      appended_at_most_one [of a3] by simp
  show ?thesis
  proof (intro conjI impI)
    show "video_chain env d v w = (None, appended a1 @ appended a2 @ appended a3, w3)"
      by (rule vc)
    show "trace w3 = trace w @ [BulkExtractor, BrowserRelay, LegacyStream]" by (rule t3)
    show "length (appended a1 @ appended a2 @ appended a3) \<le> 3" by (rule len)
  next
    assume "\<not> nonempty_file (files w3) (path_join d (v @ ''.mp4''))"
    then show "download_video L cfg env video_url output_path w =
        (Inl (ValueError (video_error_message (appended a1 @ appended a2 @ appended a3))), w3)"
      unfolding dv vc by simp
  next
    assume "ytdlp env = YdlRaises e1"
    then show "appended a1 = [''yt-dlp method failed: '' @ str_exn e1]"
      using bulk_extractor_raises [of env e1 d v w] assms(4) by simp
  next
    assume "ytdlp env = YdlInfo requested ext"
    then show "appended a1 = [''yt-dlp method failed: '' @ ''Expected file not found at '' @
                              reported_path d v requested ext]"
      using bulk_extractor_not_found [of env requested ext d v w] assms(4,7) by simp
  next
    assume "relay_launch env = LaunchRaises e2 \<or> relay_launch env = ScriptRaises e2 \<or>
          (relay_launch env = LaunchOk \<and> relay env = RelaySetupRaises e2)"
    then show "appended a2 = [''Selenium method failed: '' @ str_exn e2]"
      using browser_relay_raises [of env e2 d v w1] assms(5) by simp
  next
    assume "pytube env = PytubeRaises e3"
    then show "appended a3 = [''Standard pytube method failed: '' @ str_exn e3]"
      using legacy_stream_raises(1) [of env e3 w2] assms(6) by simp
  next
    assume "pytube env = PytubeStreamRaises e3"
    then show "appended a3 = [''Pytube stream error: '' @ str_exn e3]"
      using legacy_stream_raises(2) [of env e3 w2] assms(6) by simp
  next
    assume "ytdlp env = YdlNoInfo"
    then show "appended a1 = []"
      using bulk_extractor_silent [of env d v w] assms(4) by simp
  next
    assume "relay_launch env = LaunchOk \<and>
          (relay env = RelayNoButton \<or>
           relay env = RelayClicked \<and>
           \<not> list_ex (big_mp4 (files (add_files (relay_files env) w1)) d)
                (listdir (files (add_files (relay_files env) w1)) d))"
    then show "appended a2 = []"
      using browser_relay_silent [of env w1 d v] assms(5) by simp
  next
    assume "pytube env = PytubeNoStream \<or>
          pytube env = PytubeDownloaded q \<and>
          \<not> nonempty_file (files (add_files (pytube_files env) (enter LegacyStream w2))) q"
    then show "appended a3 = []"
      using legacy_stream_silent [of env q w2] assms(6) by simp
  qed
qed

lemma raising_chain:
  "video_chain raising_env ''downloads/abcdefghijk'' ''abcdefghijk'' empty_world =
     (None, raising_errors, empty_world\<lparr>trace := [BulkExtractor, BrowserRelay, LegacyStream]\<rparr>)"
  by (simp add: run_defs raising_env_def empty_world_def raising_errors_def)

lemma raising_message:
  "video_error_message raising_errors =
     ''Video download failed after multiple attempts. Errors: '' @
     ''yt-dlp method failed: Sign in to confirm your age; '' @
     ''Selenium method failed: chrome not found; '' @
     ''Standard pytube method failed: HTTP Error 400'' @ [CHR 0x0A] @
     ''This video may be age-restricted. Try logging in to YouTube and exporting cookies.txt.''"
  by code_simp

text \<open>C4 at two runs. Where every strategy raises: three entries, in priority order, and
  the hint on age restriction in the message. Where the extraction tool reports a file
  that is not there, the relay page lists no button and the stream library leaves an
  empty file: the one entry of the first strategy.\<close>

theorem failed_strategies_are_logged_in_order_witness:
  "require_video_id ascii_lib ''abcdefghijk'' = Inr ''abcdefghijk'' \<and>
   makedirs_error raising_env = None \<and>
   video_chain raising_env ''downloads/abcdefghijk'' ''abcdefghijk'' empty_world =
     (None, raising_errors, empty_world\<lparr>trace := [BulkExtractor, BrowserRelay, LegacyStream]\<rparr>) \<and>
   length raising_errors = 3 \<and>
   download_video ascii_lib example_config raising_env ''abcdefghijk'' None empty_world =
     (Inl (ValueError (video_error_message raising_errors)),
      empty_world\<lparr>trace := [BulkExtractor, BrowserRelay, LegacyStream]\<rparr>) \<and>
   makedirs_error quiet_env = None \<and> ytdlp quiet_env = YdlInfo None None \<and>
   relay_launch quiet_env = LaunchOk \<and> relay quiet_env = RelayNoButton \<and>
   pytube quiet_env = PytubeDownloaded ''downloads/abcdefghijk/abcdefghijk.mp4'' \<and>
   video_chain quiet_env ''downloads/abcdefghijk'' ''abcdefghijk'' empty_world =
     (None,
      [''yt-dlp method failed: Expected file not found at '' @
       ''downloads/abcdefghijk/abcdefghijk.mp4''],
      \<lparr>files = [(''downloads/abcdefghijk/abcdefghijk.mp4'', 0)],
       browser = \<lparr>driver = Some 0, live = {}, fresh = 1\<rparr>, documents = [],
       trace = [BulkExtractor, BrowserRelay, LegacyStream]\<rparr>)"
proof -
  define r1 where "r1 = bulk_extractor raising_env ''downloads/abcdefghijk'' ''abcdefghijk''
                          empty_world"
  define r2 where "r2 = browser_relay raising_env ''downloads/abcdefghijk'' ''abcdefghijk''
                          (snd r1)"
  define r3 where "r3 = legacy_stream raising_env (snd r2)"
  have m: "makedirs_error raising_env = None" by (simp add: raising_env_def)
  have a: "fst r1 = Appended (''yt-dlp method failed: Sign in to confirm your age'')"
    "fst r2 = Appended (''Selenium method failed: chrome not found'')"
    "fst r3 = Appended (''Standard pytube method failed: HTTP Error 400'')"
    unfolding r1_def r2_def r3_def
    by (simp_all add: bulk_extractor_raises browser_relay_raises legacy_stream_raises
        raising_env_def)
  have w3: "snd r3 = empty_world\<lparr>trace := [BulkExtractor, BrowserRelay, LegacyStream]\<rparr>"
    unfolding r1_def r2_def r3_def
    by (simp add: run_defs raising_env_def empty_world_def)
  have f: "\<not> nonempty_file (files (snd r3))
             (path_join ''downloads/abcdefghijk'' (''abcdefghijk'' @ ''.mp4''))"
    by (simp add: w3 empty_world_def nonempty_file_def exists_file_def)
  have p: "bulk_extractor raising_env ''downloads/abcdefghijk'' ''abcdefghijk'' empty_world =
             (fst r1, snd r1)"
    "browser_relay raising_env ''downloads/abcdefghijk'' ''abcdefghijk'' (snd r1) =
             (fst r2, snd r2)"
    "legacy_stream raising_env (snd r2) = (fst r3, snd r3)"
    by (simp_all add: r1_def r2_def r3_def)
  have n: "\<not> returned (fst r1)" "\<not> returned (fst r2)" "\<not> returned (fst r3)"
    by (simp_all add: a returned_def)
  from failed_strategies_are_logged_in_order
    [OF require_example m example_dir [symmetric] p n]
  have "video_chain raising_env ''downloads/abcdefghijk'' ''abcdefghijk'' empty_world =
          (None, appended (fst r1) @ appended (fst r2) @ appended (fst r3), snd r3)"
    and "\<not> nonempty_file (files (snd r3))
             (path_join ''downloads/abcdefghijk'' (''abcdefghijk'' @ ''.mp4'')) \<longrightarrow>
         download_video ascii_lib example_config raising_env ''abcdefghijk'' None empty_world =
          (Inl (ValueError (video_error_message
                  (appended (fst r1) @ appended (fst r2) @ appended (fst r3)))), snd r3)"
    by blast+
  with f have first: "video_chain raising_env ''downloads/abcdefghijk'' ''abcdefghijk''
        empty_world =
      (None, raising_errors, empty_world\<lparr>trace := [BulkExtractor, BrowserRelay, LegacyStream]\<rparr>)"
    "download_video ascii_lib example_config raising_env ''abcdefghijk'' None empty_world =
     (Inl (ValueError (video_error_message raising_errors)),
      empty_world\<lparr>trace := [BulkExtractor, BrowserRelay, LegacyStream]\<rparr>)"
    by (simp_all add: a w3 raising_errors_def)
  define q1 where "q1 = bulk_extractor quiet_env ''downloads/abcdefghijk'' ''abcdefghijk''
                          empty_world"
  define q2 where "q2 = browser_relay quiet_env ''downloads/abcdefghijk'' ''abcdefghijk''
                          (snd q1)"
  define q3 where "q3 = legacy_stream quiet_env (snd q2)"
  have e: "makedirs_error quiet_env = None" "ytdlp quiet_env = YdlInfo None None"
    "relay_launch quiet_env = LaunchOk" "relay quiet_env = RelayNoButton"
    "pytube quiet_env = PytubeDownloaded ''downloads/abcdefghijk/abcdefghijk.mp4''"
    by (simp_all add: quiet_env_def)
  have pq: "bulk_extractor quiet_env ''downloads/abcdefghijk'' ''abcdefghijk'' empty_world =
             (fst q1, snd q1)"
    "browser_relay quiet_env ''downloads/abcdefghijk'' ''abcdefghijk'' (snd q1) =
             (fst q2, snd q2)"
    "legacy_stream quiet_env (snd q2) = (fst q3, snd q3)"
    by (simp_all add: q1_def q2_def q3_def)
  have nq: "\<not> returned (fst q1)" "\<not> returned (fst q2)" "\<not> returned (fst q3)"
    unfolding q1_def q2_def q3_def
    by (simp_all add: run_defs quiet_env_def empty_world_def returned_def)
  have s3: "snd q3 =
      \<lparr>files = [(''downloads/abcdefghijk/abcdefghijk.mp4'', 0)],
       browser = \<lparr>driver = Some 0, live = {}, fresh = 1\<rparr>, documents = [],
       trace = [BulkExtractor, BrowserRelay, LegacyStream]\<rparr>"
    unfolding q1_def q2_def q3_def
    by (simp add: run_defs quiet_env_def empty_world_def)
  have z: "\<not> nonempty_file
             (files (add_files (pytube_files quiet_env) (enter LegacyStream (snd q2))))
             ''downloads/abcdefghijk/abcdefghijk.mp4''"
    unfolding q1_def q2_def
    by (simp add: run_defs quiet_env_def empty_world_def)
  have rp: "reported_path ''downloads/abcdefghijk'' ''abcdefghijk'' None None =
      ''downloads/abcdefghijk/abcdefghijk.mp4''"
    by (simp add: reported_path_def path_join_def dir_prefix_def endswith_def)
  note t = failed_strategies_are_logged_in_order
    [OF require_example e(1) example_dir [symmetric] pq nq,
      where requested = None and ext = None
        and q = "''downloads/abcdefghijk/abcdefghijk.mp4''"]
  from t have "video_chain quiet_env ''downloads/abcdefghijk'' ''abcdefghijk'' empty_world =
          (None, appended (fst q1) @ appended (fst q2) @ appended (fst q3), snd q3)"
    and "appended (fst q1) =
          [''yt-dlp method failed: '' @ ''Expected file not found at '' @
           reported_path ''downloads/abcdefghijk'' ''abcdefghijk'' None None]"
    and "appended (fst q2) = []" and "appended (fst q3) = []"
    using e z by blast+
  then have second: "video_chain quiet_env ''downloads/abcdefghijk'' ''abcdefghijk''
        empty_world =
     (None,
      [''yt-dlp method failed: Expected file not found at '' @
       ''downloads/abcdefghijk/abcdefghijk.mp4''],
      \<lparr>files = [(''downloads/abcdefghijk/abcdefghijk.mp4'', 0)],
       browser = \<lparr>driver = Some 0, live = {}, fresh = 1\<rparr>, documents = [],
       trace = [BulkExtractor, BrowserRelay, LegacyStream]\<rparr>)"
    by (simp add: rp s3)
  show ?thesis
    using first second e m by (simp add: require_example raising_errors_def)
qed

lemma silent_run:
  "download_video ascii_lib example_config silent_env ''abcdefghijk'' None empty_world =
     (Inl (ValueError (''Video download failed after multiple attempts. Errors: '' @
                        ''yt-dlp method failed: blocked'')),
      \<lparr>files = [], browser = \<lparr>driver = Some 0, live = {}, fresh = 1\<rparr>, documents = [],
       trace = [BulkExtractor, BrowserRelay, LegacyStream]\<rparr>)"
  by (simp add: require_example run_defs example_config_def silent_env_def empty_world_def
      blocked_message)

text \<open>
  Claim C4, as stated, fails: when the extraction tool is blocked, the relay site is
  clicked through and delivers no file, and the stream library finds no stream, all
  three strategies have been entered and have failed, and the log of the raised failure
  has one entry only, that of the first strategy.
\<close>

theorem silent_failures_are_not_logged:
  "video_chain silent_env ''downloads/abcdefghijk'' ''abcdefghijk'' empty_world =
     (None, [''yt-dlp method failed: blocked''],
      \<lparr>files = [], browser = \<lparr>driver = Some 0, live = {}, fresh = 1\<rparr>, documents = [],
       trace = [BulkExtractor, BrowserRelay, LegacyStream]\<rparr>) \<and>
   fst (download_video ascii_lib example_config silent_env ''abcdefghijk'' None empty_world) =
     Inl (ValueError (''Video download failed after multiple attempts. Errors: '' @
                       ''yt-dlp method failed: blocked''))"
  by (simp add: silent_run) (simp add: run_defs silent_env_def empty_world_def)

section \<open>Properties of audio acquisition\<close>

lemma partition_str_contained:
  "contains sep s \<Longrightarrow> sep \<noteq> [] \<Longrightarrow> partition_str sep s \<noteq> None"
  by (induction s) auto

lemma contains_suffix: "contains sep (pre @ sep)"
  by (induction pre) (auto simp: neq_Nil_conv intro: contains.elims)

lemma endswith_contains: "endswith s suf \<Longrightarrow> contains suf s"
proof -
  assume "endswith s suf"
  then have "suffix suf s" by (simp add: endswith_def suffix_to_prefix)
  then obtain pre where "s = pre @ suf" by (auto simp: suffix_def)
  then show ?thesis by (simp add: contains_suffix)
qed

lemma mp3_path_differs:
  assumes "endswith audio_path ''.mp4''"
  shows "replace_str ''.mp4'' ''.mp3'' audio_path \<noteq> audio_path"
proof -
  from assms obtain a b where p: "partition_str ''.mp4'' audio_path = Some (a, b)"
    using partition_str_contained [OF endswith_contains [OF assms]] by fastforce
  from partition_str_parts [OF p] have s: "audio_path = a @ ''.mp4'' @ b" .
  have "replace_str ''.mp4'' ''.mp3'' audio_path = a @ ''.mp3'' @ replace_str ''.mp4'' ''.mp3'' b"
    by (subst replace_str.simps) (simp add: p)
  then show ?thesis by (subst (2) s) simp
qed

lemma convert_ok:
  assumes "transcode env = TranscodeOk n" "endswith audio_path ''.mp4''"
    and "convert_to_mp3 env audio_path w = (a, w')"
  shows "a = Returned (replace_str ''.mp4'' ''.mp3'' audio_path)"
    and "\<not> exists_file (files w') audio_path"
    and "map_of (files w') (replace_str ''.mp4'' ''.mp3'' audio_path) = Some n"
    and "trace w' = trace w"
  using assms(1,3) mp3_path_differs [OF assms(2)]
  by (auto simp: convert_to_mp3_def Let_def exists_file_def map_of_write_file
      map_of_remove_file split: if_splits)

lemma convert_raises:
  assumes "transcode env = TranscodeRaises e partial" "endswith audio_path ''.mp4''"
    and "convert_to_mp3 env audio_path w = (a, w')"
  shows "a = Returned audio_path"
    and "map_of (files w') audio_path = map_of (files w) audio_path"
  using assms(1,3) mp3_path_differs [OF assms(2)]
  by (auto simp: convert_to_mp3_def Let_def map_of_write_file split: option.splits)

lemma download_audio_second:
  assumes "require_video_id L video_url = Inr v" "audio_makedirs_error env = None"
    and "audio_bulk_extractor env (choose_dir cfg output_path v) v w = (a1, w1)"
    and "\<not> returned a1"
    and "legacy_audio env w1 = (Returned p, w2)"
  shows "download_audio L cfg env video_url output_path w = (Inr p, w2)"
  using assms by (cases a1) (simp_all add: download_audio_def Let_def returned_def)

text \<open>
  Claim C10. In the legacy strategy of the audio chain, reached when the first strategy
  returned nothing, let the downloaded stream file end in \<open>.mp4\<close>. If the transcoding
  completes, \<open>download_audio\<close> returns the path with \<open>.mp4\<close> replaced by \<open>.mp3\<close>, and
  in the state it returns in the original file does not exist and the new one does. If
  the transcoding raises, it returns the original path, and the original file is as it
  was after the download.
\<close>

theorem transcoded_audio_replaces_original:
  assumes "require_video_id L video_url = Inr v"
    and "audio_makedirs_error env = None"
    and "audio_bulk_extractor env (choose_dir cfg output_path v) v w = (a1, w1)"
    and "\<not> returned a1"
    and "audio_pytube env = AudioDownloaded audio_path"
    and "endswith audio_path ''.mp4''"
    and "downloaded = add_files (audio_pytube_files env) (enter AudioLegacyStream w1)"
    and "run = download_audio L cfg env video_url output_path w"
  shows "(transcode env = TranscodeOk n \<longrightarrow>
            fst run = Inr (replace_str ''.mp4'' ''.mp3'' audio_path) \<and>
            \<not> exists_file (files (snd run)) audio_path \<and>
            map_of (files (snd run)) (replace_str ''.mp4'' ''.mp3'' audio_path) = Some n) \<and>
         (transcode env = TranscodeRaises e partial \<longrightarrow>
            fst run = Inr audio_path \<and>
            map_of (files (snd run)) audio_path = map_of (files downloaded) audio_path)"
proof -
  obtain a2 w2 where c: "convert_to_mp3 env audio_path downloaded = (a2, w2)"
    by (cases "convert_to_mp3 env audio_path downloaded")
  have l: "legacy_audio env w1 = (a2, w2)"
    using assms(5,6) c by (simp add: legacy_audio_def Let_def assms(7))
  show ?thesis
  proof (intro conjI impI)
    assume t: "transcode env = TranscodeOk n"
    note k = convert_ok [OF t assms(6) c]
    have r: "run = (Inr (replace_str ''.mp4'' ''.mp3'' audio_path), w2)"
      unfolding assms(8)
      using download_audio_second [OF assms(1-4)] l k(1) by simp
    show "fst run = Inr (replace_str ''.mp4'' ''.mp3'' audio_path)" by (simp add: r)
    show "\<not> exists_file (files (snd run)) audio_path" using k(2) by (simp add: r)
    show "map_of (files (snd run)) (replace_str ''.mp4'' ''.mp3'' audio_path) = Some n"
      using k(3) by (simp add: r)
  next
    assume t: "transcode env = TranscodeRaises e partial"
    note k = convert_raises [OF t assms(6) c]
    have r: "run = (Inr audio_path, w2)"
      unfolding assms(8)
      using download_audio_second [OF assms(1-4)] l k(1) by simp
    show "fst run = Inr audio_path" by (simp add: r)
    show "map_of (files (snd run)) audio_path = map_of (files downloaded) audio_path"
      using k(2) by (simp add: r)
  qed
qed

lemmas audio_run_defs =
  download_audio_def audio_bulk_extractor_def legacy_audio_def convert_to_mp3_def
  choose_dir_def path_join_def dir_prefix_def endswith_def add_files_def write_files_def
  write_file_def remove_file_def exists_file_def enter_def Let_def

lemma song_path: "replace_str ''.mp4'' ''.mp3'' ''downloads/abcdefghijk/song.mp4'' =
    ''downloads/abcdefghijk/song.mp3''"
  by code_simp

lemma song_run_ok:
  "download_audio ascii_lib example_config (song_env (TranscodeOk 1000000)) ''abcdefghijk'' None
     empty_world =
     (Inr ''downloads/abcdefghijk/song.mp3'',
      \<lparr>files = [(''downloads/abcdefghijk/song.mp3'', 1000000)], browser = new_session,
       documents = [], trace = [AudioBulkExtractor, AudioLegacyStream]\<rparr>)"
  by (simp add: require_example audio_run_defs song_env_def example_config_def empty_world_def
      song_path)

lemma song_run_raises:
  "download_audio ascii_lib example_config
     (song_env (TranscodeRaises (OtherError ''no codec'') None)) ''abcdefghijk'' None empty_world =
     (Inr ''downloads/abcdefghijk/song.mp4'',
      \<lparr>files = [(''downloads/abcdefghijk/song.mp4'', 3000000)], browser = new_session,
       documents = [], trace = [AudioBulkExtractor, AudioLegacyStream]\<rparr>)"
  by (simp add: require_example audio_run_defs song_env_def example_config_def empty_world_def
      song_path)

text \<open>C10 at a run where the stream library downloads \<open>song.mp4\<close> and the transcoding
  completes: \<open>song.mp3\<close> is returned and is the only file left.\<close>

theorem transcoded_audio_replaces_original_witness:
  "require_video_id ascii_lib ''abcdefghijk'' = Inr ''abcdefghijk'' \<and>
   endswith ''downloads/abcdefghijk/song.mp4'' ''.mp4'' \<and>
   download_audio ascii_lib example_config (song_env (TranscodeOk 1000000)) ''abcdefghijk'' None
     empty_world =
     (Inr ''downloads/abcdefghijk/song.mp3'',
      \<lparr>files = [(''downloads/abcdefghijk/song.mp3'', 1000000)], browser = new_session,
       documents = [], trace = [AudioBulkExtractor, AudioLegacyStream]\<rparr>) \<and>
   \<not> exists_file
       (files (snd (download_audio ascii_lib example_config (song_env (TranscodeOk 1000000))
                      ''abcdefghijk'' None empty_world)))
       ''downloads/abcdefghijk/song.mp4''"
proof -
  define r1 where "r1 = audio_bulk_extractor (song_env (TranscodeOk 1000000))
      (choose_dir example_config None ''abcdefghijk'') ''abcdefghijk'' empty_world"
  have m: "audio_makedirs_error (song_env (TranscodeOk 1000000)) = None"
    and d: "audio_pytube (song_env (TranscodeOk 1000000)) =
              AudioDownloaded ''downloads/abcdefghijk/song.mp4''"
    and t: "transcode (song_env (TranscodeOk 1000000)) = TranscodeOk 1000000"
    by (simp_all add: song_env_def)
  have p: "audio_bulk_extractor (song_env (TranscodeOk 1000000))
      (choose_dir example_config None ''abcdefghijk'') ''abcdefghijk'' empty_world =
      (fst r1, snd r1)"
    by (simp add: r1_def)
  have n: "\<not> returned (fst r1)"
    by (simp add: r1_def audio_bulk_extractor_def song_env_def returned_def)
  have e: "endswith ''downloads/abcdefghijk/song.mp4'' ''.mp4''"
    by (simp add: endswith_def)
  from transcoded_audio_replaces_original [OF require_example m p n d e refl refl,
      where n = 1000000]
  have "\<not> exists_file
       (files (snd (download_audio ascii_lib example_config (song_env (TranscodeOk 1000000))
                      ''abcdefghijk'' None empty_world)))
       ''downloads/abcdefghijk/song.mp4''"
    using t by blast
  then show ?thesis
    using e by (simp add: require_example song_run_ok)
qed

section \<open>Properties of the content-scraping page\<close>

lemma require_gives_extract:
  "require_video_id L url = Inr v \<Longrightarrow> extract_video_id L url = Inr (Some v)"
  by (auto simp: require_video_id_def split: sum.splits option.splits if_splits)

lemma get_video_info_requires:
  assumes "get_video_info L cfg env url w = (Inr info, w1)"
  shows "\<exists>v. require_video_id L url = Inr v"
  using assms by (cases "require_video_id L url") (simp_all add: get_video_info_def)

lemma not_aborts [simp]:
  "\<not> aborts (Subheader s)" "\<not> aborts (Write s)" "\<not> aborts (Success s)"
  "\<not> aborts (Warning s)" "\<not> aborts (Video s)" "\<not> aborts (Audio s)"
  "\<not> aborts (TextArea l s)"
  by (simp_all add: aborts_def)

lemma download_error_not_aborts:
  "\<not> aborts (Error (''Error downloading video: '' @ s))"
  "\<not> aborts (Error (''Error downloading audio: '' @ s))"
  by (simp_all add: aborts_def)

lemmas download_error_not_aborts_simps [simp] = download_error_not_aborts [simplified]

lemma show_info_no_abort: "ev \<in> set (show_info info) \<Longrightarrow> \<not> aborts ev"
  by (auto simp: show_info_def)

lemma video_block_no_abort:
  "video_block L cfg env url w = (ui, p, w') \<Longrightarrow> ev \<in> set ui \<Longrightarrow> \<not> aborts ev"
  by (auto simp: video_block_def split: prod.splits sum.splits if_splits option.splits)

lemma audio_block_no_abort:
  "audio_block L cfg env url w = (ui, p, w') \<Longrightarrow> ev \<in> set ui \<Longrightarrow> \<not> aborts ev"
  by (auto simp: audio_block_def split: prod.splits sum.splits if_splits option.splits)

lemma transcript_block_no_abort:
  "transcript_block L cfg env url w = (ui, t, w') \<Longrightarrow> ev \<in> set ui \<Longrightarrow> \<not> aborts ev"
  by (auto simp: transcript_block_def Let_def split: sum.splits if_splits option.splits)

lemma metadata_block_no_abort:
  "metadata_block L cfg env url info vp ap t w = (ui, w') \<Longrightarrow> ev \<in> set ui \<Longrightarrow> \<not> aborts ev"
  by (auto simp: metadata_block_def split: sum.splits option.splits)

lemma video_block_failed:
  "download_video L cfg (video env) url None w = (Inl e, w') \<Longrightarrow>
   video_block L cfg env url w = ([Error (''Error downloading video: '' @ str_exn e)], None, w')"
  by (simp add: video_block_def)

lemma transcript_block_shown:
  assumes "extract_video_id L url = Inr v" "get_transcript (captions env) = Inr t"
    and "transcript_block L cfg env url w = (ui, data, w')"
  shows "data = Some t"
    and "t \<noteq> [] \<Longrightarrow> TextArea ''Transcript'' (transcript_text t) \<in> set ui"
    and "t = [] \<Longrightarrow> ui = [Warning (''Could not retrieve transcript for this video. '' @
                                    ''It may not have subtitles or captions.'')]"
  using assms
  by (auto simp: transcript_block_def Let_def split: if_splits option.splits)

lemma metadata_block_saved:
  assumes "extract_video_id L url = Inr v" "save_metadata_error env = None"
  shows "metadata_block L cfg env url info vp ap t w =
     ([Success (''Content processed and metadata saved successfully! '' @
                ''You can now repurpose it in the Content Repurposing tab.'')],
      w\<lparr>documents :=
          (path_join (path_join (cfg_output_path cfg) ''metadata'')
             (str_option v @ ''_metadata.json''),
           MetadataDocument
             \<lparr>saved_video_info = info,
              saved_video_path = existing_path w vp,
              saved_audio_path = existing_path w ap,
              saved_has_transcript = (case t of None \<Rightarrow> False | Some t \<Rightarrow> t \<noteq> []),
              saved_processing_date = processing_now env\<rparr>) #
          documents w\<rparr>)"
  using assms by (simp add: metadata_block_def)

text \<open>
  Claim C2. Let the metadata be resolved, and let the video and the transcript be asked
  for. If the video acquisition raises, the page records the error as an event and goes
  on: it is not the outer handler that answers, the metadata are shown, the transcript
  is fetched and, if it is not empty, shown, and, unless writing the file raises, the
  metadata are saved with no video path and with the transcript flag.
\<close>

theorem video_failure_is_not_fatal:
  assumes "youtube_url \<noteq> []"
    and "get_video_info L cfg (metadata env) youtube_url w = (Inr video_info, w1)"
    and "download_video L cfg (video env) youtube_url None w1 = (Inl video_error, w2)"
    and "get_transcript (captions env) = Inr transcript_data"
    and "page = content_scraping_page L cfg env youtube_url True want_audio True w"
  shows "Error (''Error downloading video: '' @ str_exn video_error) \<in> set (fst page) \<and>
         (\<forall>ev \<in> set (fst page). \<not> aborts ev) \<and>
         set (show_info video_info) \<subseteq> set (fst page) \<and>
         (transcript_data \<noteq> [] \<longrightarrow>
            TextArea ''Transcript'' (transcript_text transcript_data) \<in> set (fst page)) \<and>
         (save_metadata_error env = None \<longrightarrow>
            (\<exists>name saved rest.
               documents (snd page) = (name, MetadataDocument saved) # rest \<and>
               saved_video_info saved = video_info \<and>
               saved_video_path saved = None \<and>
               saved_has_transcript saved = (transcript_data \<noteq> [])))"
proof -
  obtain v where "require_video_id L youtube_url = Inr v"
    using get_video_info_requires [OF assms(2)] by blast
  then have x: "extract_video_id L youtube_url = Inr (Some v)"
    by (rule require_gives_extract)
  note vb = video_block_failed [OF assms(3)]
  obtain ui_a ap w3 where ab:
    "(if want_audio then audio_block L cfg env youtube_url w2 else ([], None, w2)) =
       (ui_a, ap, w3)"
    by (cases "if want_audio then audio_block L cfg env youtube_url w2 else ([], None, w2)")
  obtain ui_t td w4 where tb: "transcript_block L cfg env youtube_url w3 = (ui_t, td, w4)"
    by (cases "transcript_block L cfg env youtube_url w3")
  obtain ui_m w5 where mb:
    "metadata_block L cfg env youtube_url video_info None ap td w4 = (ui_m, w5)"
    by (cases "metadata_block L cfg env youtube_url video_info None ap td w4")
  have page: "page =
      (show_info video_info @ [Error (''Error downloading video: '' @ str_exn video_error)] @
       ui_a @ ui_t @ ui_m, w5)"
    unfolding assms(5) content_scraping_page_def
    using assms(1,2) vb ab tb mb by simp
  note ts = transcript_block_shown [OF x assms(4) tb]
  have na: "\<not> aborts ev" if "ev \<in> set ui_a" for ev
  proof (cases want_audio)
    case True
    with ab that show ?thesis using audio_block_no_abort by simp
  next
    case False
    with ab that show ?thesis by simp
  qed
  show ?thesis
  proof (intro conjI impI ballI)
    show "Error (''Error downloading video: '' @ str_exn video_error) \<in> set (fst page)"
      by (simp add: page)
    show "set (show_info video_info) \<subseteq> set (fst page)"
      by (auto simp: page)
  next
    fix ev assume "ev \<in> set (fst page)"
    then show "\<not> aborts ev"
      using show_info_no_abort na transcript_block_no_abort [OF tb]
        metadata_block_no_abort [OF mb]
      by (auto simp: page)
  next
    assume "transcript_data \<noteq> []"
    then show "TextArea ''Transcript'' (transcript_text transcript_data) \<in> set (fst page)"
      using ts(2) by (simp add: page)
  next
    assume s: "save_metadata_error env = None"
    show "\<exists>name saved rest.
         documents (snd page) = (name, MetadataDocument saved) # rest \<and>
         saved_video_info saved = video_info \<and>
         saved_video_path saved = None \<and>
         saved_has_transcript saved = (transcript_data \<noteq> [])"
      using mb ts(1)
      by (simp add: page metadata_block_saved [OF x s] existing_path_def) auto
  qed
qed

lemma silent_run_after_scraping:
  "download_video ascii_lib example_config silent_env ''abcdefghijk'' None scraped_world =
     (Inl (ValueError (''Video download failed after multiple attempts. Errors: '' @
                        ''yt-dlp method failed: blocked'')),
      \<lparr>files = [], browser = \<lparr>driver = Some 1, live = {}, fresh = 2\<rparr>, documents = [],
       trace = [ApiLookup, ScrapedLookup, BulkExtractor, BrowserRelay, LegacyStream]\<rparr>)"
  by (simp add: require_example run_defs example_config_def silent_env_def scraped_world_def
      blocked_message)

lemma example_transcript_text: "transcript_text [example_entry] = ''[00:00] hola'' @ [CHR 0x0A]"
  by code_simp

text \<open>C2 at a run where the metadata are scraped, every video strategy fails and the
  transcript has one entry: the error of the video is an event, the transcript is shown,
  and the metadata are saved without a video path.\<close>

theorem video_failure_is_not_fatal_witness:
  "get_video_info ascii_lib example_config (metadata example_page_env) ''abcdefghijk''
     empty_world = (Inr scraped_example, scraped_world) \<and>
   isl (fst (download_video ascii_lib example_config (video example_page_env) ''abcdefghijk''
               None scraped_world)) \<and>
   get_transcript (captions example_page_env) = Inr [example_entry] \<and>
   Error (''Error downloading video: Video download failed after multiple attempts. '' @
          ''Errors: yt-dlp method failed: blocked'')
     \<in> set (fst (content_scraping_page ascii_lib example_config example_page_env
                    ''abcdefghijk'' True False True empty_world)) \<and>
   TextArea ''Transcript'' (''[00:00] hola'' @ [CHR 0x0A])
     \<in> set (fst (content_scraping_page ascii_lib example_config example_page_env
                    ''abcdefghijk'' True False True empty_world)) \<and>
   (\<exists>name saved rest.
      documents (snd (content_scraping_page ascii_lib example_config example_page_env
                        ''abcdefghijk'' True False True empty_world)) =
        (name, MetadataDocument saved) # rest \<and>
      saved_video_info saved = scraped_example \<and> saved_video_path saved = None \<and>
      saved_has_transcript saved)"
proof -
  have u: "''abcdefghijk'' \<noteq> []" by simp
  have g: "get_video_info ascii_lib example_config (metadata example_page_env) ''abcdefghijk''
             empty_world = (Inr scraped_example, scraped_world)"
    by (simp add: example_page_env_def zero_results_run scraped_world_def)
  have d: "download_video ascii_lib example_config (video example_page_env) ''abcdefghijk''
             None scraped_world =
           (Inl (ValueError (''Video download failed after multiple attempts. Errors: '' @
                              ''yt-dlp method failed: blocked'')),
            \<lparr>files = [], browser = \<lparr>driver = Some 1, live = {}, fresh = 2\<rparr>, documents = [],
             trace = [ApiLookup, ScrapedLookup, BulkExtractor, BrowserRelay, LegacyStream]\<rparr>)"
    by (simp add: example_page_env_def silent_run_after_scraping)
  have t: "get_transcript (captions example_page_env) = Inr [example_entry]"
    by (simp add: example_page_env_def get_transcript_def)
  have s: "save_metadata_error example_page_env = None"
    by (simp add: example_page_env_def)
  from video_failure_is_not_fatal [OF u g d t refl, of False]
  show ?thesis
    using g d t s by (simp add: example_transcript_text)
qed

end
